theory Spec2Isabelle
  imports Main "HOL-Library.Multiset"
begin

section \<open>Data model\<close>

text \<open>
  The tables of \<^verbatim>\<open>models.py\<close>. A \<^verbatim>\<open>DateTime\<close> is a point on a linearly ordered time
  axis. A Python \<^verbatim>\<open>int\<close> is unbounded; a stored \<^verbatim>\<open>Integer\<close> is 32 bits wide, which the
  store checks when a row is written. A string is a list of characters, one \<open>char\<close>
  per character of the column width. Columns declared \<^verbatim>\<open>nullable=False\<close> hold a plain
  value in a stored row; \<^verbatim>\<open>activities\<close> and \<^verbatim>\<open>notes\<close> are nullable and hold an option.
\<close>

type_synonym datetime = int

text \<open>
  The clock of one request: \<open>now k\<close> is what the \<open>k\<close>-th call of
  \<^verbatim>\<open>datetime.now(timezone.utc)\<close> made while the request is served returns.
\<close>

type_synonym clock = "nat \<Rightarrow> datetime"

record User =
  user_id :: int
  device_id :: string
  created_at :: datetime
  updated_at :: datetime

record DiaryEntry =
  entry_id :: int
  user_id :: int
  entry_uuid :: string
  entry_date :: datetime
  mood_score :: int
  mood_percentage :: int
  activities :: "string list option"
  "notes" :: "string option"
  created_at :: datetime
  updated_at :: datetime

text \<open>
  The request schemas of \<^verbatim>\<open>schemas.py\<close>. Every field of \<^verbatim>\<open>DiaryEntryUpdate\<close> is
  \<^verbatim>\<open>Optional\<close> with default \<^verbatim>\<open>None\<close>; \<open>fields_set\<close> is the set of field names that
  the request body gave explicitly (what \<^verbatim>\<open>exclude_unset\<close> consults).
\<close>

record UserCreate =
  device_id :: string

record DiaryEntryCreate =
  entry_uuid :: string
  entry_date :: datetime
  mood_score :: int
  mood_percentage :: int
  activities :: "string list option"
  "notes" :: "string option"
  device_id :: string

record DiaryEntryUpdate =
  entry_date :: "datetime option"
  mood_score :: "int option"
  mood_percentage :: "int option"
  activities :: "string list option"
  "notes" :: "string option"
  fields_set :: "string set"

text \<open>
  \<^verbatim>\<open>APIResponse\<close>: the payload dictionaries built by the handlers hold integers and
  strings only.
\<close>

datatype pyvalue = PyInt int | PyStr string

record APIResponse =
  success :: bool
  message :: string
  data :: "(string \<times> pyvalue) list option"

section \<open>Errors and handler outcomes\<close>

text \<open>
  What a statement sent to the store can raise, by the class of the exception:
  \<open>ValueError\<close> when the driver refuses to bind a string that contains the NUL
  character, \<open>DataError\<close> when the store cannot take a value into the column (a string
  wider than the column, an integer outside 32 bits, a NUL inside a JSON string),
  \<open>IntegrityError\<close> when the row violates a constraint (not null, unique, foreign
  key). A handler either raises \<^verbatim>\<open>HTTPException(status_code, detail)\<close> or returns a
  value; the detail of a 500 is the f-string of a fixed prefix and the text of the caught
  exception. A request body that does not validate against its schema never reaches the
  handler: the framework answers with a validation error (status 422).
\<close>

datatype db_exception = ValueError | DataError | IntegrityError

datatype detail = Text string | Formatted string db_exception

datatype error = HTTPException nat detail | RequestValidationError

text \<open>
  What a handler returns on success: three handlers return an \<^verbatim>\<open>APIResponse\<close>,
  \<^verbatim>\<open>get_diary_entries\<close> returns the list of rows itself.
\<close>

datatype returned = Response APIResponse | Rows "DiaryEntry list"

type_synonym outcome = "error + returned"

section \<open>The store\<close>

text \<open>
  The two tables in row order, and the last value handed out by each primary-key
  sequence. A handler takes the tables and returns them after commit or rollback.
  Loss of the connection and exhaustion of a sequence are outside the model. Whether a
  refused INSERT has already drawn a value from the sequence depends on the driver; the
  model draws none, and no statement below depends on it.
\<close>

record tables =
  users_table :: "User list"
  diary_entries_table :: "DiaryEntry list"
  users_seq :: int
  diary_entries_seq :: int

subsection \<open>What the driver and the columns accept\<close>

definition contains_nul :: "string \<Rightarrow> bool" where
  "contains_nul s \<longleftrightarrow> CHR 0x00 \<in> set s"

text \<open>A nullable \<^verbatim>\<open>Text\<close> parameter: \<^verbatim>\<open>None\<close> or a string the driver binds.\<close>

definition text_param_ok :: "string option \<Rightarrow> bool" where
  "text_param_ok v = (case v of None \<Rightarrow> True | Some s \<Rightarrow> \<not> contains_nul s)"

text \<open>
  \<^verbatim>\<open>String(n)\<close>: a string of at most \<open>n\<close> characters is stored as it is; a longer one
  is refused, unless all characters beyond the \<open>n\<close>-th are spaces, which are cut off.
\<close>

definition varchar :: "nat \<Rightarrow> string \<Rightarrow> db_exception + string" where
  "varchar n s =
     (if length s \<le> n then Inr s
      else if list_all (\<lambda>c. c = CHR '' '') (drop n s) then Inr (take n s)
      else Inl DataError)"

text \<open>\<^verbatim>\<open>Integer\<close>: a signed integer of 32 bits.\<close>

definition int4 :: "int \<Rightarrow> bool" where
  "int4 i \<longleftrightarrow> - 2147483648 \<le> i \<and> i \<le> 2147483647"

definition int4_opt :: "int option \<Rightarrow> bool" where
  "int4_opt v = (case v of None \<Rightarrow> True | Some i \<Rightarrow> int4 i)"

text \<open>\<^verbatim>\<open>JSONB\<close>: a list of strings is taken unless one of them contains NUL.\<close>

definition jsonb_ok :: "string list option \<Rightarrow> bool" where
  "jsonb_ok v = (case v of None \<Rightarrow> True | Some xs \<Rightarrow> list_all (\<lambda>s. \<not> contains_nul s) xs)"

subsection \<open>Queries\<close>

definition first :: "'a list \<Rightarrow> 'a option" where
  "first rows = (case rows of [] \<Rightarrow> None | r # _ \<Rightarrow> Some r)"

text \<open>
  \<^verbatim>\<open>.first()\<close> gives the first row of the result or \<^verbatim>\<open>None\<close>. The queries below carry no
  \<^verbatim>\<open>order_by\<close>; the model takes the rows in table order. The device id is unique, so at
  most one user matches; where an entry is looked up, the statements below say which
  rows of the table match.

  The rows that \<^verbatim>\<open>db.query(User).filter(User.device_id == device_id).first()\<close> and
  \<^verbatim>\<open>db.query(DiaryEntry).filter(user_id == uid, entry_uuid == uuid).first()\<close> find:
\<close>

definition user_by_device_id_on :: "tables \<Rightarrow> string \<Rightarrow> User option" where
  "user_by_device_id_on t d = first (filter (\<lambda>u. User.device_id u = d) (users_table t))"

definition entry_by_uuid_on :: "tables \<Rightarrow> int \<Rightarrow> string \<Rightarrow> DiaryEntry option" where
  "entry_by_uuid_on t uid uuid =
     first (filter (\<lambda>e. DiaryEntry.user_id e = uid \<and> DiaryEntry.entry_uuid e = uuid)
                   (diary_entries_table t))"

text \<open>
  The two queries as the handlers run them: the driver raises before anything is sent
  when the string to compare with contains NUL.
\<close>

definition select_user :: "tables \<Rightarrow> string \<Rightarrow> db_exception + User option" where
  "select_user t d =
     (if contains_nul d then Inl ValueError else Inr (user_by_device_id_on t d))"

definition select_entry :: "tables \<Rightarrow> int \<Rightarrow> string \<Rightarrow> db_exception + DiaryEntry option" where
  "select_entry t uid uuid =
     (if contains_nul uuid then Inl ValueError else Inr (entry_by_uuid_on t uid uuid))"

subsection \<open>Inserts\<close>

text \<open>
  \<^verbatim>\<open>db.add(User(device_id=...)); db.commit(); db.refresh(db_user)\<close>: the insert takes the
  next primary key and the two column defaults, each of which reads the clock. It is
  refused when the driver cannot bind the device id, when the column cannot take it,
  or when the device id as stored is taken.
\<close>

definition insert_user ::
  "clock \<Rightarrow> string \<Rightarrow> tables \<Rightarrow> db_exception + (User \<times> tables)" where
  "insert_user now d t =
     (if contains_nul d then Inl ValueError
      else
        (case varchar 255 d of
           Inl e \<Rightarrow> Inl e
         | Inr stored \<Rightarrow>
             if stored \<in> set (map User.device_id (users_table t)) then Inl IntegrityError
             else
               let db_user = \<lparr>User.user_id = users_seq t + 1, User.device_id = stored,
                              User.created_at = now 0, User.updated_at = now 1\<rparr>
               in Inr (db_user, t\<lparr>users_table := users_table t @ [db_user],
                                   users_seq := users_seq t + 1\<rparr>)))"

text \<open>
  \<^verbatim>\<open>db.add(DiaryEntry(user_id=..., entry_uuid=..., ...)); db.commit(); db.refresh(db_entry)\<close>:
  refused when the driver cannot bind \<open>entry_uuid\<close> or \<open>notes\<close>, when a column cannot
  take its value, or when the owner is no row of the users table.
\<close>

definition insert_entry ::
  "clock \<Rightarrow> int \<Rightarrow> DiaryEntryCreate \<Rightarrow> tables \<Rightarrow> db_exception + (DiaryEntry \<times> tables)" where
  "insert_entry now uid entry_data t =
     (if contains_nul (DiaryEntryCreate.entry_uuid entry_data) \<or>
         \<not> text_param_ok (DiaryEntryCreate.notes entry_data) then Inl ValueError
      else if \<not> int4 (DiaryEntryCreate.mood_score entry_data) \<or>
              \<not> int4 (DiaryEntryCreate.mood_percentage entry_data) \<or>
              \<not> jsonb_ok (DiaryEntryCreate.activities entry_data) then Inl DataError
      else
        (case varchar 36 (DiaryEntryCreate.entry_uuid entry_data) of
           Inl e \<Rightarrow> Inl e
         | Inr stored \<Rightarrow>
             if uid \<notin> set (map User.user_id (users_table t)) then Inl IntegrityError
             else
               let db_entry =
                     \<lparr>DiaryEntry.entry_id = diary_entries_seq t + 1,
                      DiaryEntry.user_id = uid,
                      DiaryEntry.entry_uuid = stored,
                      DiaryEntry.entry_date = DiaryEntryCreate.entry_date entry_data,
                      DiaryEntry.mood_score = DiaryEntryCreate.mood_score entry_data,
                      DiaryEntry.mood_percentage = DiaryEntryCreate.mood_percentage entry_data,
                      DiaryEntry.activities = DiaryEntryCreate.activities entry_data,
                      DiaryEntry.notes = DiaryEntryCreate.notes entry_data,
                      DiaryEntry.created_at = now 0, DiaryEntry.updated_at = now 1\<rparr>
               in Inr (db_entry, t\<lparr>diary_entries_table := diary_entries_table t @ [db_entry],
                                    diary_entries_seq := diary_entries_seq t + 1\<rparr>)))"

section \<open>The handlers on the tables\<close>

text \<open>
  Each handler runs inside \<^verbatim>\<open>try\<close>: an \<^verbatim>\<open>HTTPException\<close> it raises itself passes
  through, any other exception (here: one raised by a query or a commit) is answered
  with status 500 after a rollback.
\<close>

definition register_device_on :: "clock \<Rightarrow> UserCreate \<Rightarrow> tables \<Rightarrow> outcome \<times> tables" where
  "register_device_on now user_data t =
     (case select_user t (UserCreate.device_id user_data) of
        Inl e \<Rightarrow> (Inl (HTTPException 500 (Formatted ''Registration failed: '' e)), t)
      | Inr (Some existing_user) \<Rightarrow>
          (Inr (Response \<lparr>success = True, message = ''Device already exists'',
                  data = Some [(''user_id'', PyInt (User.user_id existing_user)),
                               (''device_id'', PyStr (User.device_id existing_user))]\<rparr>), t)
      | Inr None \<Rightarrow>
          (case insert_user now (UserCreate.device_id user_data) t of
             Inl e \<Rightarrow> (Inl (HTTPException 500 (Formatted ''Registration failed: '' e)), t)
           | Inr (db_user, t') \<Rightarrow>
               (Inr (Response \<lparr>success = True, message = ''Device registered successfully'',
                       data = Some [(''user_id'', PyInt (User.user_id db_user)),
                                    (''device_id'', PyStr (User.device_id db_user))]\<rparr>), t')))"

definition create_diary_entry_on ::
  "clock \<Rightarrow> DiaryEntryCreate \<Rightarrow> tables \<Rightarrow> outcome \<times> tables" where
  "create_diary_entry_on now entry_data t =
     (case select_user t (DiaryEntryCreate.device_id entry_data) of
        Inl e \<Rightarrow> (Inl (HTTPException 500 (Formatted ''Upload failed: '' e)), t)
      | Inr None \<Rightarrow> (Inl (HTTPException 404 (Text ''Device not registered'')), t)
      | Inr (Some user) \<Rightarrow>
          (case select_entry t (User.user_id user) (DiaryEntryCreate.entry_uuid entry_data) of
             Inl e \<Rightarrow> (Inl (HTTPException 500 (Formatted ''Upload failed: '' e)), t)
           | Inr (Some existing_entry) \<Rightarrow>
               (Inl (HTTPException 409 (Text ''Diary entry already exists'')), t)
           | Inr None \<Rightarrow>
               (case insert_entry now (User.user_id user) entry_data t of
                  Inl e \<Rightarrow> (Inl (HTTPException 500 (Formatted ''Upload failed: '' e)), t)
                | Inr (db_entry, t') \<Rightarrow>
                    (Inr (Response \<lparr>success = True,
                            message = ''Diary entry uploaded successfully'',
                            data = Some [(''entry_id'', PyInt (DiaryEntry.entry_id db_entry)),
                                         (''entry_uuid'', PyStr (DiaryEntry.entry_uuid db_entry))]\<rparr>),
                     t'))))"

text \<open>
  \<^verbatim>\<open>.order_by(DiaryEntry.entry_date.desc()).all()\<close>: the store answers with the selected
  rows arranged so that \<open>entry_date\<close> never increases. The query names no other sort
  key, so any such arrangement is an answer the store may give.
\<close>

definition order_by_entry_date_desc :: "DiaryEntry list \<Rightarrow> DiaryEntry list \<Rightarrow> bool" where
  "order_by_entry_date_desc rows result \<longleftrightarrow>
     mset result = mset rows \<and>
     sorted_wrt (\<lambda>a b. DiaryEntry.entry_date a \<ge> DiaryEntry.entry_date b) result"

text \<open>
  \<open>get_diary_entries_on device_id t out\<close> holds when \<open>out\<close> is a possible outcome of the
  handler on the tables \<open>t\<close>. It reads only.
\<close>

definition get_diary_entries_on :: "string \<Rightarrow> tables \<Rightarrow> outcome \<Rightarrow> bool" where
  "get_diary_entries_on d t out =
     (case select_user t d of
        Inl e \<Rightarrow>
          out = Inl (HTTPException 500 (Formatted ''Failed to retrieve diary entries: '' e))
      | Inr None \<Rightarrow> out = Inl (HTTPException 404 (Text ''Device not registered''))
      | Inr (Some user) \<Rightarrow>
          (case out of
             Inr (Rows entries) \<Rightarrow>
               order_by_entry_date_desc
                 (filter (\<lambda>e. DiaryEntry.user_id e = User.user_id user) (diary_entries_table t))
                 entries
           | _ \<Rightarrow> False))"

subsection \<open>Partial update\<close>

text \<open>
  The loaded ORM object \<^verbatim>\<open>db_entry\<close>: an attribute that \<^verbatim>\<open>setattr\<close> can assign holds
  whatever the validated request holds, \<^verbatim>\<open>None\<close> included.
\<close>

record DiaryEntry_object =
  entry_id :: int
  user_id :: int
  entry_uuid :: string
  entry_date :: "datetime option"
  mood_score :: "int option"
  mood_percentage :: "int option"
  activities :: "string list option"
  "notes" :: "string option"
  created_at :: datetime
  updated_at :: datetime

definition load :: "DiaryEntry \<Rightarrow> DiaryEntry_object" where
  "load row =
     \<lparr>DiaryEntry_object.entry_id = DiaryEntry.entry_id row,
      DiaryEntry_object.user_id = DiaryEntry.user_id row,
      DiaryEntry_object.entry_uuid = DiaryEntry.entry_uuid row,
      DiaryEntry_object.entry_date = Some (DiaryEntry.entry_date row),
      DiaryEntry_object.mood_score = Some (DiaryEntry.mood_score row),
      DiaryEntry_object.mood_percentage = Some (DiaryEntry.mood_percentage row),
      DiaryEntry_object.activities = DiaryEntry.activities row,
      DiaryEntry_object.notes = DiaryEntry.notes row,
      DiaryEntry_object.created_at = DiaryEntry.created_at row,
      DiaryEntry_object.updated_at = DiaryEntry.updated_at row\<rparr>"

text \<open>
  One \<^verbatim>\<open>(field, value)\<close> item of \<^verbatim>\<open>entry_data.dict(exclude_unset=True)\<close>: the
  constructor is the key, its argument the value with the type the schema gives the field.
\<close>

datatype item =
    Entry_date "datetime option"
  | Mood_score "int option"
  | Mood_percentage "int option"
  | Activities "string list option"
  | Notes "string option"

fun key :: "item \<Rightarrow> string" where
  "key (Entry_date _) = ''entry_date''"
| "key (Mood_score _) = ''mood_score''"
| "key (Mood_percentage _) = ''mood_percentage''"
| "key (Activities _) = ''activities''"
| "key (Notes _) = ''notes''"

text \<open>The items in field declaration order, fields not in \<open>fields_set\<close> left out.\<close>

definition dict_exclude_unset :: "DiaryEntryUpdate \<Rightarrow> item list" where
  "dict_exclude_unset entry_data =
     filter (\<lambda>i. key i \<in> fields_set entry_data)
       [Entry_date (DiaryEntryUpdate.entry_date entry_data),
        Mood_score (DiaryEntryUpdate.mood_score entry_data),
        Mood_percentage (DiaryEntryUpdate.mood_percentage entry_data),
        Activities (DiaryEntryUpdate.activities entry_data),
        Notes (DiaryEntryUpdate.notes entry_data)]"

fun setattr :: "item \<Rightarrow> DiaryEntry_object \<Rightarrow> DiaryEntry_object" where
  "setattr (Entry_date v) obj = obj\<lparr>DiaryEntry_object.entry_date := v\<rparr>"
| "setattr (Mood_score v) obj = obj\<lparr>DiaryEntry_object.mood_score := v\<rparr>"
| "setattr (Mood_percentage v) obj = obj\<lparr>DiaryEntry_object.mood_percentage := v\<rparr>"
| "setattr (Activities v) obj = obj\<lparr>DiaryEntry_object.activities := v\<rparr>"
| "setattr (Notes v) obj = obj\<lparr>DiaryEntry_object.notes := v\<rparr>"

text \<open>
  The flush of a loaded entry at \<^verbatim>\<open>db.commit()\<close>. When no attribute differs from the
  loaded row nothing is sent. Otherwise an UPDATE is sent; the attributes that did not
  change hold what the row holds, so the checks below bear on the changed ones: the
  driver refuses \<open>notes\<close> with a NUL, the store refuses an integer outside 32 bits or
  a NUL inside \<open>activities\<close>, and then \<^verbatim>\<open>None\<close> in a \<^verbatim>\<open>nullable=False\<close> column. An
  UPDATE that is taken sets \<open>updated_at\<close> from the clock (\<^verbatim>\<open>onupdate\<close>).
\<close>

definition flush_entry ::
  "clock \<Rightarrow> DiaryEntry \<Rightarrow> DiaryEntry_object \<Rightarrow> db_exception + DiaryEntry" where
  "flush_entry now loaded obj =
     (if obj = load loaded then Inr loaded
      else if \<not> text_param_ok (DiaryEntry_object.notes obj) then Inl ValueError
      else if \<not> int4_opt (DiaryEntry_object.mood_score obj) \<or>
              \<not> int4_opt (DiaryEntry_object.mood_percentage obj) \<or>
              \<not> jsonb_ok (DiaryEntry_object.activities obj) then Inl DataError
      else
        (case (DiaryEntry_object.entry_date obj, DiaryEntry_object.mood_score obj,
               DiaryEntry_object.mood_percentage obj) of
           (Some d, Some s, Some p) \<Rightarrow>
             Inr \<lparr>DiaryEntry.entry_id = DiaryEntry_object.entry_id obj,
                  DiaryEntry.user_id = DiaryEntry_object.user_id obj,
                  DiaryEntry.entry_uuid = DiaryEntry_object.entry_uuid obj,
                  DiaryEntry.entry_date = d,
                  DiaryEntry.mood_score = s,
                  DiaryEntry.mood_percentage = p,
                  DiaryEntry.activities = DiaryEntry_object.activities obj,
                  DiaryEntry.notes = DiaryEntry_object.notes obj,
                  DiaryEntry.created_at = DiaryEntry_object.created_at obj,
                  DiaryEntry.updated_at = now 0\<rparr>
         | _ \<Rightarrow> Inl IntegrityError))"

text \<open>
  \<^verbatim>\<open>db.commit(); db.refresh(db_entry)\<close> for a loaded entry: the flushed row replaces the
  row with the loaded entry's primary key; a refused flush leaves nothing to commit.
\<close>

definition commit_entry ::
  "clock \<Rightarrow> DiaryEntry \<Rightarrow> DiaryEntry_object \<Rightarrow> tables \<Rightarrow> db_exception + (DiaryEntry \<times> tables)" where
  "commit_entry now loaded obj t =
     (case flush_entry now loaded obj of
        Inl e \<Rightarrow> Inl e
      | Inr row \<Rightarrow>
          Inr (row,
               t\<lparr>diary_entries_table :=
                    map (\<lambda>r. if DiaryEntry.entry_id r = DiaryEntry.entry_id loaded
                              then row else r)
                        (diary_entries_table t)\<rparr>))"

definition update_diary_entry_on ::
  "clock \<Rightarrow> string \<Rightarrow> DiaryEntryUpdate \<Rightarrow> string \<Rightarrow> tables \<Rightarrow> outcome \<times> tables" where
  "update_diary_entry_on now uuid entry_data d t =
     (case select_user t d of
        Inl e \<Rightarrow> (Inl (HTTPException 500 (Formatted ''Update failed: '' e)), t)
      | Inr None \<Rightarrow> (Inl (HTTPException 404 (Text ''Device not registered'')), t)
      | Inr (Some user) \<Rightarrow>
          (case select_entry t (User.user_id user) uuid of
             Inl e \<Rightarrow> (Inl (HTTPException 500 (Formatted ''Update failed: '' e)), t)
           | Inr None \<Rightarrow> (Inl (HTTPException 404 (Text ''Diary entry not found'')), t)
           | Inr (Some loaded) \<Rightarrow>
               let update_data = dict_exclude_unset entry_data;
                   db_entry = fold setattr update_data (load loaded)
               in (case commit_entry now loaded db_entry t of
                     Inl e \<Rightarrow> (Inl (HTTPException 500 (Formatted ''Update failed: '' e)), t)
                   | Inr (row, t') \<Rightarrow>
                       (Inr (Response \<lparr>success = True,
                               message = ''Diary entry updated successfully'',
                               data = Some [(''entry_id'', PyInt (DiaryEntry.entry_id row)),
                                            (''entry_uuid'', PyStr (DiaryEntry.entry_uuid row))]\<rparr>),
                        t'))))"

text \<open>
  The requests that assign \<^verbatim>\<open>None\<close> to a column declared \<^verbatim>\<open>nullable=False\<close>: the field
  is in \<open>fields_set\<close> and its value is \<^verbatim>\<open>None\<close>.
\<close>

definition null_in_required_column :: "DiaryEntryUpdate \<Rightarrow> bool" where
  "null_in_required_column ed \<longleftrightarrow>
     (''entry_date'' \<in> fields_set ed \<and> DiaryEntryUpdate.entry_date ed = None) \<or>
     (''mood_score'' \<in> fields_set ed \<and> DiaryEntryUpdate.mood_score ed = None) \<or>
     (''mood_percentage'' \<in> fields_set ed \<and> DiaryEntryUpdate.mood_percentage ed = None)"

section \<open>Stores\<close>

text \<open>
  What holds of the tables of a store: the primary keys and the device id are unique,
  the keys handed out so far are below the sequences, every entry belongs to a user,
  and every stored value is one its column takes.
\<close>

definition user_row_ok :: "User \<Rightarrow> bool" where
  "user_row_ok u \<longleftrightarrow> \<not> contains_nul (User.device_id u) \<and> length (User.device_id u) \<le> 255"

definition entry_row_ok :: "DiaryEntry \<Rightarrow> bool" where
  "entry_row_ok e \<longleftrightarrow>
     \<not> contains_nul (DiaryEntry.entry_uuid e) \<and> length (DiaryEntry.entry_uuid e) \<le> 36 \<and>
     int4 (DiaryEntry.mood_score e) \<and> int4 (DiaryEntry.mood_percentage e) \<and>
     jsonb_ok (DiaryEntry.activities e) \<and> text_param_ok (DiaryEntry.notes e)"

definition store_ok :: "tables \<Rightarrow> bool" where
  "store_ok t \<longleftrightarrow>
     distinct (map User.user_id (users_table t)) \<and>
     distinct (map User.device_id (users_table t)) \<and>
     distinct (map DiaryEntry.entry_id (diary_entries_table t)) \<and>
     list_all (\<lambda>u. User.user_id u \<le> users_seq t \<and> user_row_ok u) (users_table t) \<and>
     list_all (\<lambda>e. DiaryEntry.entry_id e \<le> diary_entries_seq t \<and> entry_row_ok e \<and>
                    DiaryEntry.user_id e \<in> set (map User.user_id (users_table t)))
              (diary_entries_table t)"

text \<open>The tables right after \<^verbatim>\<open>create_tables()\<close>.\<close>

definition empty_tables :: tables where
  "empty_tables =
     \<lparr>users_table = [], diary_entries_table = [], users_seq = 0, diary_entries_seq = 0\<rparr>"

text \<open>
  A store is tables of which all this holds. The handlers keep it (shown below), so
  they are functions on stores; these carry the names of the source.
\<close>

typedef database = "{t. store_ok t}"
  morphisms tables_of Abs_database
  by (rule exI[of _ empty_tables]) (simp add: store_ok_def empty_tables_def)

abbreviation users :: "database \<Rightarrow> User list" where
  "users db \<equiv> users_table (tables_of db)"

abbreviation diary_entries :: "database \<Rightarrow> DiaryEntry list" where
  "diary_entries db \<equiv> diary_entries_table (tables_of db)"

abbreviation user_by_device_id :: "database \<Rightarrow> string \<Rightarrow> User option" where
  "user_by_device_id db d \<equiv> user_by_device_id_on (tables_of db) d"

abbreviation entry_by_uuid :: "database \<Rightarrow> int \<Rightarrow> string \<Rightarrow> DiaryEntry option" where
  "entry_by_uuid db uid uuid \<equiv> entry_by_uuid_on (tables_of db) uid uuid"

definition register_device :: "clock \<Rightarrow> UserCreate \<Rightarrow> database \<Rightarrow> outcome \<times> database" where
  "register_device now user_data db =
     map_prod id Abs_database (register_device_on now user_data (tables_of db))"

definition create_diary_entry ::
  "clock \<Rightarrow> DiaryEntryCreate \<Rightarrow> database \<Rightarrow> outcome \<times> database" where
  "create_diary_entry now entry_data db =
     map_prod id Abs_database (create_diary_entry_on now entry_data (tables_of db))"

definition get_diary_entries :: "string \<Rightarrow> database \<Rightarrow> outcome \<Rightarrow> bool" where
  "get_diary_entries d db out = get_diary_entries_on d (tables_of db) out"

definition update_diary_entry ::
  "clock \<Rightarrow> string \<Rightarrow> DiaryEntryUpdate \<Rightarrow> string \<Rightarrow> database \<Rightarrow> outcome \<times> database" where
  "update_diary_entry now uuid entry_data d db =
     map_prod id Abs_database (update_diary_entry_on now uuid entry_data d (tables_of db))"

text \<open>
  The register request as it arrives: the body either has the required string field
  \<^verbatim>\<open>device_id\<close> or lacks it. Validation against \<^verbatim>\<open>UserCreate\<close> happens before the
  handler runs; the schema puts no condition on the string itself.
\<close>

definition validate_UserCreate :: "string option \<Rightarrow> error + UserCreate" where
  "validate_UserCreate body =
     (case body of None \<Rightarrow> Inl RequestValidationError
                 | Some d \<Rightarrow> Inr \<lparr>UserCreate.device_id = d\<rparr>)"

definition register_request :: "clock \<Rightarrow> string option \<Rightarrow> database \<Rightarrow> outcome \<times> database" where
  "register_request now body db =
     (case validate_UserCreate body of
        Inl e \<Rightarrow> (Inl e, db)
      | Inr user_data \<Rightarrow> register_device now user_data db)"

section \<open>The response envelope\<close>

text \<open>
  An outcome carries the envelope (success flag, message, optional payload) when the
  handler returned an \<^verbatim>\<open>APIResponse\<close>.
\<close>

fun carries_envelope :: "outcome \<Rightarrow> bool" where
  "carries_envelope (Inr (Response r)) = True"
| "carries_envelope (Inr (Rows entries)) = False"
| "carries_envelope (Inl e) = False"

section \<open>Example stores and requests\<close>

text \<open>
  A clock whose \<open>k\<close>-th reading is \<open>t + k\<close>. The store right after
  \<^verbatim>\<open>create_tables()\<close>, and a store with one registered device that owns three entries,
  two of them with the same \<open>entry_date\<close>.
\<close>

definition clock_at :: "datetime \<Rightarrow> clock" where
  "clock_at t k = t + int k"

definition empty_db :: database where
  "empty_db = Abs_database empty_tables"

definition user1 :: User where
  "user1 = \<lparr>User.user_id = 1, User.device_id = ''dev-1'',
             User.created_at = 100, User.updated_at = 100\<rparr>"

definition entry1 :: DiaryEntry where
  "entry1 = \<lparr>DiaryEntry.entry_id = 1, DiaryEntry.user_id = 1,
              DiaryEntry.entry_uuid = ''uuid-a'', DiaryEntry.entry_date = 20240101,
              DiaryEntry.mood_score = 3, DiaryEntry.mood_percentage = 60,
              DiaryEntry.activities = Some [''run'', ''meditate''],
              DiaryEntry.notes = Some ''fine'',
              DiaryEntry.created_at = 110, DiaryEntry.updated_at = 110\<rparr>"

definition entry2 :: DiaryEntry where
  "entry2 = \<lparr>DiaryEntry.entry_id = 2, DiaryEntry.user_id = 1,
              DiaryEntry.entry_uuid = ''uuid-b'', DiaryEntry.entry_date = 20240301,
              DiaryEntry.mood_score = 4, DiaryEntry.mood_percentage = 80,
              DiaryEntry.activities = Some [], DiaryEntry.notes = Some [],
              DiaryEntry.created_at = 120, DiaryEntry.updated_at = 120\<rparr>"

definition entry3 :: DiaryEntry where
  "entry3 = \<lparr>DiaryEntry.entry_id = 3, DiaryEntry.user_id = 1,
              DiaryEntry.entry_uuid = ''uuid-c'', DiaryEntry.entry_date = 20240301,
              DiaryEntry.mood_score = 1, DiaryEntry.mood_percentage = 10,
              DiaryEntry.activities = None, DiaryEntry.notes = None,
              DiaryEntry.created_at = 130, DiaryEntry.updated_at = 130\<rparr>"

definition tables1 :: tables where
  "tables1 = \<lparr>users_table = [user1], diary_entries_table = [entry1, entry2, entry3],
               users_seq = 1, diary_entries_seq = 3\<rparr>"

definition db1 :: database where
  "db1 = Abs_database tables1"

definition new_entry :: "string \<Rightarrow> string \<Rightarrow> DiaryEntryCreate" where
  "new_entry d uuid =
     \<lparr>DiaryEntryCreate.entry_uuid = uuid, DiaryEntryCreate.entry_date = 20240201,
      DiaryEntryCreate.mood_score = 2, DiaryEntryCreate.mood_percentage = 40,
      DiaryEntryCreate.activities = Some [], DiaryEntryCreate.notes = Some [],
      DiaryEntryCreate.device_id = d\<rparr>"

text \<open>
  A store with two devices: the first owns entries dated 2024-01-01, 2024-03-01 and
  2024-02-01 (in that row order), the second owns one entry, stored between them.
\<close>

definition user2 :: User where
  "user2 = \<lparr>User.user_id = 2, User.device_id = ''dev-2'',
             User.created_at = 105, User.updated_at = 105\<rparr>"

definition entry4 :: DiaryEntry where
  "entry4 = \<lparr>DiaryEntry.entry_id = 4, DiaryEntry.user_id = 1,
              DiaryEntry.entry_uuid = ''uuid-d'', DiaryEntry.entry_date = 20240201,
              DiaryEntry.mood_score = 5, DiaryEntry.mood_percentage = 100,
              DiaryEntry.activities = Some [''read''], DiaryEntry.notes = Some ''good'',
              DiaryEntry.created_at = 140, DiaryEntry.updated_at = 140\<rparr>"

definition entry5 :: DiaryEntry where
  "entry5 = \<lparr>DiaryEntry.entry_id = 3, DiaryEntry.user_id = 2,
              DiaryEntry.entry_uuid = ''uuid-a'', DiaryEntry.entry_date = 20240215,
              DiaryEntry.mood_score = 2, DiaryEntry.mood_percentage = 30,
              DiaryEntry.activities = None, DiaryEntry.notes = Some ''other'',
              DiaryEntry.created_at = 135, DiaryEntry.updated_at = 135\<rparr>"

definition tables2 :: tables where
  "tables2 = \<lparr>users_table = [user1, user2],
               diary_entries_table = [entry1, entry2, entry5, entry4],
               users_seq = 2, diary_entries_seq = 4\<rparr>"

definition db2 :: database where
  "db2 = Abs_database tables2"

text \<open>A store whose two devices own no entry.\<close>

definition tables_no_entries :: tables where
  "tables_no_entries =
     \<lparr>users_table = [user1, user2], diary_entries_table = [], users_seq = 2,
      diary_entries_seq = 0\<rparr>"

definition db_no_entries :: database where
  "db_no_entries = Abs_database tables_no_entries"

text \<open>
  Update bodies that give one field only: \<^verbatim>\<open>{"notes": v}\<close> and \<^verbatim>\<open>{"mood_score": null}\<close>.
  A device id of 256 characters, and strings with a NUL between two letters.
\<close>

definition notes_only :: "string option \<Rightarrow> DiaryEntryUpdate" where
  "notes_only v =
     \<lparr>DiaryEntryUpdate.entry_date = None, DiaryEntryUpdate.mood_score = None,
      DiaryEntryUpdate.mood_percentage = None, DiaryEntryUpdate.activities = None,
      DiaryEntryUpdate.notes = v, fields_set = {''notes''}\<rparr>"

definition mood_score_null :: DiaryEntryUpdate where
  "mood_score_null =
     \<lparr>DiaryEntryUpdate.entry_date = None, DiaryEntryUpdate.mood_score = None,
      DiaryEntryUpdate.mood_percentage = None, DiaryEntryUpdate.activities = None,
      DiaryEntryUpdate.notes = None, fields_set = {''mood_score''}\<rparr>"

definition long_id :: string where
  "long_id = replicate 256 (CHR ''a'')"

definition nul_string :: string where
  "nul_string = [CHR ''a'', CHR 0x00, CHR ''b'']"

section \<open>Queries\<close>

lemma first_filter_None: "first (filter P xs) = None \<longleftrightarrow> (\<forall>x\<in>set xs. \<not> P x)"
  by (induction xs) (auto simp: first_def)

lemma first_filter_Some: "first (filter P xs) = Some x \<Longrightarrow> x \<in> set xs \<and> P x"
  by (induction xs) (auto simp: first_def split: if_splits)

lemma first_filter_exists: "x \<in> set xs \<Longrightarrow> P x \<Longrightarrow> \<exists>y. first (filter P xs) = Some y"
  by (induction xs) (auto simp: first_def)

lemma first_filter_only:
  assumes "x \<in> set xs" and "P x" and "\<And>y. y \<in> set xs \<Longrightarrow> P y \<Longrightarrow> y = x"
  shows "first (filter P xs) = Some x"
proof -
  from first_filter_exists[of x xs P, OF assms(1,2)] obtain y where y: "first (filter P xs) = Some y"
    by blast
  from first_filter_Some[OF y] have "y \<in> set xs" and "P y" by simp_all
  then have "y = x" by (rule assms(3))
  with y show ?thesis by simp
qed

lemma first_filter_replace:
  assumes "first (filter P xs) = Some old" and "P row"
  shows "first (filter P (map (\<lambda>r. if f r = f old then row else r) xs)) = Some row"
  using assms
proof (induction xs)
  case Nil
  then show ?case by (simp add: first_def)
next
  case (Cons x xs)
  show ?case
  proof (cases "P x")
    case True
    with Cons.prems have "x = old" by (simp add: first_def)
    with Cons.prems show ?thesis by (simp add: first_def)
  next
    case False
    with Cons.prems have "first (filter P xs) = Some old" by simp
    from Cons.IH[OF this Cons.prems(2)] False Cons.prems(2) show ?thesis
      by (simp add: first_def)
  qed
qed

lemma distinct_map_eq:
  assumes "distinct (map f xs)" and "x \<in> set xs" and "y \<in> set xs" and "f x = f y"
  shows "x = y"
  using assms by (meson distinct_map inj_onD)

section \<open>What a store guarantees\<close>

lemma store_ok_user:
  assumes "store_ok t" and "u \<in> set (users_table t)"
  shows "\<not> contains_nul (User.device_id u)" and "length (User.device_id u) \<le> 255"
    and "User.user_id u \<le> users_seq t"
  using assms by (auto simp: store_ok_def user_row_ok_def list_all_iff)

lemma store_ok_entry:
  assumes "store_ok t" and "e \<in> set (diary_entries_table t)"
  shows "entry_row_ok e" and "DiaryEntry.entry_id e \<le> diary_entries_seq t"
    and "DiaryEntry.user_id e \<in> set (map User.user_id (users_table t))"
  using assms by (auto simp: store_ok_def list_all_iff)

lemma user_by_device_id_on_found:
  assumes "store_ok t" and "u \<in> set (users_table t)"
  shows "user_by_device_id_on t (User.device_id u) = Some u"
  unfolding user_by_device_id_on_def
proof (rule first_filter_only[where P = "\<lambda>y. User.device_id y = User.device_id u"])
  show "u \<in> set (users_table t)" by fact
  show "User.device_id u = User.device_id u" ..
next
  fix y assume y: "y \<in> set (users_table t)" "User.device_id y = User.device_id u"
  from assms(1) have d: "distinct (map User.device_id (users_table t))"
    by (simp add: store_ok_def)
  show "y = u" by (rule distinct_map_eq[OF d y(1) assms(2) y(2)])
qed

lemma user_by_device_id_on_None:
  "user_by_device_id_on t d = None \<longleftrightarrow> d \<notin> set (map User.device_id (users_table t))"
  by (auto simp: user_by_device_id_on_def first_filter_None)

lemma user_by_device_id_on_Some:
  assumes "user_by_device_id_on t d = Some u"
  shows "u \<in> set (users_table t)" and "User.device_id u = d"
  using first_filter_Some[OF assms[unfolded user_by_device_id_on_def]] by simp_all

lemma entry_by_uuid_on_Some:
  assumes "entry_by_uuid_on t uid uuid = Some e"
  shows "e \<in> set (diary_entries_table t)" and "DiaryEntry.user_id e = uid"
    and "DiaryEntry.entry_uuid e = uuid"
  using first_filter_Some[OF assms[unfolded entry_by_uuid_on_def]] by simp_all

lemma entry_by_uuid_on_None:
  "entry_by_uuid_on t uid uuid = None \<longleftrightarrow>
     (\<forall>e\<in>set (diary_entries_table t). \<not> (DiaryEntry.user_id e = uid \<and> DiaryEntry.entry_uuid e = uuid))"
  by (simp add: entry_by_uuid_on_def first_filter_None)

lemma entry_by_uuid_on_exists:
  assumes "e \<in> set (diary_entries_table t)" and "DiaryEntry.user_id e = uid"
      and "DiaryEntry.entry_uuid e = uuid"
  shows "\<exists>y. entry_by_uuid_on t uid uuid = Some y"
  unfolding entry_by_uuid_on_def
  using first_filter_exists[of e "diary_entries_table t"
      "\<lambda>e. DiaryEntry.user_id e = uid \<and> DiaryEntry.entry_uuid e = uuid"] assms
  by simp

lemma entry_by_uuid_on_only:
  assumes "old \<in> set (diary_entries_table t)" and "DiaryEntry.user_id old = uid"
      and "DiaryEntry.entry_uuid old = uuid"
      and "\<forall>e\<in>set (diary_entries_table t).
             DiaryEntry.user_id e = uid \<and> DiaryEntry.entry_uuid e = uuid \<longrightarrow> e = old"
  shows "entry_by_uuid_on t uid uuid = Some old"
  unfolding entry_by_uuid_on_def
proof (rule first_filter_only[where
         P = "\<lambda>e. DiaryEntry.user_id e = uid \<and> DiaryEntry.entry_uuid e = uuid"])
  show "old \<in> set (diary_entries_table t)" by fact
  show "DiaryEntry.user_id old = uid \<and> DiaryEntry.entry_uuid old = uuid"
    using assms(2,3) by simp
next
  fix y assume "y \<in> set (diary_entries_table t)"
    and "DiaryEntry.user_id y = uid \<and> DiaryEntry.entry_uuid y = uuid"
  with assms(4) show "y = old" by blast
qed

lemma select_user_found:
  assumes "store_ok t" and "u \<in> set (users_table t)"
  shows "select_user t (User.device_id u) = Inr (Some u)"
  using store_ok_user(1)[OF assms] user_by_device_id_on_found[OF assms]
  by (simp add: select_user_def)

lemma select_entry_stored:
  assumes "store_ok t" and "e \<in> set (diary_entries_table t)"
  shows "select_entry t uid (DiaryEntry.entry_uuid e) =
           Inr (entry_by_uuid_on t uid (DiaryEntry.entry_uuid e))"
  using store_ok_entry(1)[OF assms] by (simp add: select_entry_def entry_row_ok_def)

lemma varchar_Inr:
  assumes "varchar n s = Inr stored"
  shows "length stored \<le> n" and "set stored \<subseteq> set s"
  using assms by (auto simp: varchar_def split: if_splits dest: in_set_takeD)

lemma varchar_fits: "length s \<le> n \<Longrightarrow> varchar n s = Inr s"
  by (simp add: varchar_def)

section \<open>The handlers keep the tables a store\<close>

lemma store_ok_empty_tables: "store_ok empty_tables"
  by (simp add: store_ok_def empty_tables_def)

lemma insert_user_store_ok:
  assumes ok: "store_ok t" and ins: "insert_user now d t = Inr (u, t')"
  shows "store_ok t'"
proof -
  from ins obtain stored where
    nul: "\<not> contains_nul d" and v: "varchar 255 d = Inr stored" and
    fresh: "stored \<notin> set (map User.device_id (users_table t))" and
    u: "u = \<lparr>User.user_id = users_seq t + 1, User.device_id = stored,
              User.created_at = now 0, User.updated_at = now 1\<rparr>" and
    t': "t' = t\<lparr>users_table := users_table t @ [u], users_seq := users_seq t + 1\<rparr>"
    by (auto simp: insert_user_def Let_def split: if_splits sum.splits)
  from varchar_Inr[OF v] nul have row: "user_row_ok u"
    by (auto simp: user_row_ok_def contains_nul_def u)
  from ok have "users_seq t + 1 \<notin> set (map User.user_id (users_table t))"
    by (fastforce simp: store_ok_def list_all_iff)
  with ok fresh row show ?thesis
    unfolding t' store_ok_def by (auto simp: u list_all_iff)
qed

lemma register_device_on_store_ok:
  assumes "store_ok t"
  shows "store_ok (snd (register_device_on now user_data t))"
  using assms insert_user_store_ok[OF assms]
  by (auto simp: register_device_on_def split: sum.splits option.splits)

lemma insert_entry_store_ok:
  assumes ok: "store_ok t" and ins: "insert_entry now uid entry_data t = Inr (e, t')"
  shows "store_ok t'"
proof -
  from ins obtain stored where
    c: "\<not> contains_nul (DiaryEntryCreate.entry_uuid entry_data)"
       "text_param_ok (DiaryEntryCreate.notes entry_data)"
       "int4 (DiaryEntryCreate.mood_score entry_data)"
       "int4 (DiaryEntryCreate.mood_percentage entry_data)"
       "jsonb_ok (DiaryEntryCreate.activities entry_data)" and
    v: "varchar 36 (DiaryEntryCreate.entry_uuid entry_data) = Inr stored" and
    fk: "uid \<in> set (map User.user_id (users_table t))" and
    e: "e = \<lparr>DiaryEntry.entry_id = diary_entries_seq t + 1,
              DiaryEntry.user_id = uid,
              DiaryEntry.entry_uuid = stored,
              DiaryEntry.entry_date = DiaryEntryCreate.entry_date entry_data,
              DiaryEntry.mood_score = DiaryEntryCreate.mood_score entry_data,
              DiaryEntry.mood_percentage = DiaryEntryCreate.mood_percentage entry_data,
              DiaryEntry.activities = DiaryEntryCreate.activities entry_data,
              DiaryEntry.notes = DiaryEntryCreate.notes entry_data,
              DiaryEntry.created_at = now 0, DiaryEntry.updated_at = now 1\<rparr>" and
    t': "t' = t\<lparr>diary_entries_table := diary_entries_table t @ [e],
                 diary_entries_seq := diary_entries_seq t + 1\<rparr>"
    by (auto simp: insert_entry_def Let_def split: if_splits sum.splits)
  from varchar_Inr[OF v] c have row: "entry_row_ok e"
    by (auto simp: entry_row_ok_def contains_nul_def e)
  have id: "DiaryEntry.entry_id e = diary_entries_seq t + 1" and own: "DiaryEntry.user_id e = uid"
    by (simp_all add: e)
  from ok have "diary_entries_seq t + 1 \<notin> set (map DiaryEntry.entry_id (diary_entries_table t))"
    by (fastforce simp: store_ok_def list_all_iff)
  with ok fk row id own show ?thesis
    unfolding t' store_ok_def by (auto simp: list_all_iff)
qed

lemma create_diary_entry_on_store_ok:
  assumes "store_ok t"
  shows "store_ok (snd (create_diary_entry_on now entry_data t))"
  using assms insert_entry_store_ok[OF assms]
  by (auto simp: create_diary_entry_on_def split: sum.splits option.splits)

section \<open>The update loop and the flush\<close>

lemma fold_setattr_identity:
  "DiaryEntry_object.entry_id (fold setattr items obj) = DiaryEntry_object.entry_id obj \<and>
   DiaryEntry_object.user_id (fold setattr items obj) = DiaryEntry_object.user_id obj \<and>
   DiaryEntry_object.entry_uuid (fold setattr items obj) = DiaryEntry_object.entry_uuid obj \<and>
   DiaryEntry_object.created_at (fold setattr items obj) = DiaryEntry_object.created_at obj \<and>
   DiaryEntry_object.updated_at (fold setattr items obj) = DiaryEntry_object.updated_at obj"
proof (induction items arbitrary: obj)
  case Nil
  show ?case by simp
next
  case (Cons i items)
  show ?case using Cons.IH[of "setattr i obj"] by (cases i) simp_all
qed

lemma updated_entry_date:
  "DiaryEntry_object.entry_date (fold setattr (dict_exclude_unset ed) obj) =
     (if ''entry_date'' \<in> fields_set ed then DiaryEntryUpdate.entry_date ed
      else DiaryEntry_object.entry_date obj)"
  by (simp add: dict_exclude_unset_def)

lemma updated_mood_score:
  "DiaryEntry_object.mood_score (fold setattr (dict_exclude_unset ed) obj) =
     (if ''mood_score'' \<in> fields_set ed then DiaryEntryUpdate.mood_score ed
      else DiaryEntry_object.mood_score obj)"
  by (simp add: dict_exclude_unset_def)

lemma updated_mood_percentage:
  "DiaryEntry_object.mood_percentage (fold setattr (dict_exclude_unset ed) obj) =
     (if ''mood_percentage'' \<in> fields_set ed then DiaryEntryUpdate.mood_percentage ed
      else DiaryEntry_object.mood_percentage obj)"
  by (simp add: dict_exclude_unset_def)

lemma updated_activities:
  "DiaryEntry_object.activities (fold setattr (dict_exclude_unset ed) obj) =
     (if ''activities'' \<in> fields_set ed then DiaryEntryUpdate.activities ed
      else DiaryEntry_object.activities obj)"
  by (simp add: dict_exclude_unset_def)

lemma updated_notes:
  "DiaryEntry_object.notes (fold setattr (dict_exclude_unset ed) obj) =
     (if ''notes'' \<in> fields_set ed then DiaryEntryUpdate.notes ed
      else DiaryEntry_object.notes obj)"
  by (simp add: dict_exclude_unset_def)

lemma keys_dict_exclude_unset:
  "key ` set (dict_exclude_unset ed) =
     fields_set ed \<inter> {''entry_date'', ''mood_score'', ''mood_percentage'', ''activities'', ''notes''}"
  by (auto simp: dict_exclude_unset_def)

text \<open>What a flush that is taken writes.\<close>

lemma flush_entry_changed:
  assumes "flush_entry now loaded obj = Inr row" and "obj \<noteq> load loaded"
  shows "text_param_ok (DiaryEntry_object.notes obj) \<and>
         int4_opt (DiaryEntry_object.mood_score obj) \<and>
         int4_opt (DiaryEntry_object.mood_percentage obj) \<and>
         jsonb_ok (DiaryEntry_object.activities obj) \<and>
         (\<exists>d s p. DiaryEntry_object.entry_date obj = Some d \<and>
                  DiaryEntry_object.mood_score obj = Some s \<and>
                  DiaryEntry_object.mood_percentage obj = Some p \<and>
                  row = \<lparr>DiaryEntry.entry_id = DiaryEntry_object.entry_id obj,
                         DiaryEntry.user_id = DiaryEntry_object.user_id obj,
                         DiaryEntry.entry_uuid = DiaryEntry_object.entry_uuid obj,
                         DiaryEntry.entry_date = d,
                         DiaryEntry.mood_score = s,
                         DiaryEntry.mood_percentage = p,
                         DiaryEntry.activities = DiaryEntry_object.activities obj,
                         DiaryEntry.notes = DiaryEntry_object.notes obj,
                         DiaryEntry.created_at = DiaryEntry_object.created_at obj,
                         DiaryEntry.updated_at = now 0\<rparr>)"
  using assms by (simp add: flush_entry_def split: if_splits option.splits)

lemma flush_entry_unchanged: "flush_entry now loaded (load loaded) = Inr loaded"
  by (simp add: flush_entry_def)

lemma flush_entry_identity:
  assumes "flush_entry now loaded obj = Inr row"
      and "DiaryEntry_object.entry_id obj = DiaryEntry.entry_id loaded"
      and "DiaryEntry_object.user_id obj = DiaryEntry.user_id loaded"
      and "DiaryEntry_object.entry_uuid obj = DiaryEntry.entry_uuid loaded"
      and "DiaryEntry_object.created_at obj = DiaryEntry.created_at loaded"
  shows "DiaryEntry.entry_id row = DiaryEntry.entry_id loaded"
    and "DiaryEntry.user_id row = DiaryEntry.user_id loaded"
    and "DiaryEntry.entry_uuid row = DiaryEntry.entry_uuid loaded"
    and "DiaryEntry.created_at row = DiaryEntry.created_at loaded"
proof -
  have "DiaryEntry.entry_id row = DiaryEntry.entry_id loaded \<and>
        DiaryEntry.user_id row = DiaryEntry.user_id loaded \<and>
        DiaryEntry.entry_uuid row = DiaryEntry.entry_uuid loaded \<and>
        DiaryEntry.created_at row = DiaryEntry.created_at loaded"
  proof (cases "obj = load loaded")
    case True
    with assms(1) show ?thesis by (simp add: flush_entry_unchanged)
  next
    case False
    from flush_entry_changed[OF assms(1) False] assms(2-5) show ?thesis by auto
  qed
  then show "DiaryEntry.entry_id row = DiaryEntry.entry_id loaded"
    and "DiaryEntry.user_id row = DiaryEntry.user_id loaded"
    and "DiaryEntry.entry_uuid row = DiaryEntry.entry_uuid loaded"
    and "DiaryEntry.created_at row = DiaryEntry.created_at loaded"
    by simp_all
qed

lemma flush_entry_values:
  assumes "flush_entry now loaded obj = Inr row"
  shows "Some (DiaryEntry.entry_date row) = DiaryEntry_object.entry_date obj"
    and "Some (DiaryEntry.mood_score row) = DiaryEntry_object.mood_score obj"
    and "Some (DiaryEntry.mood_percentage row) = DiaryEntry_object.mood_percentage obj"
    and "DiaryEntry.activities row = DiaryEntry_object.activities obj"
    and "DiaryEntry.notes row = DiaryEntry_object.notes obj"
proof -
  have "Some (DiaryEntry.entry_date row) = DiaryEntry_object.entry_date obj \<and>
        Some (DiaryEntry.mood_score row) = DiaryEntry_object.mood_score obj \<and>
        Some (DiaryEntry.mood_percentage row) = DiaryEntry_object.mood_percentage obj \<and>
        DiaryEntry.activities row = DiaryEntry_object.activities obj \<and>
        DiaryEntry.notes row = DiaryEntry_object.notes obj"
  proof (cases "obj = load loaded")
    case True
    with assms have "row = loaded" by (simp add: flush_entry_unchanged)
    with True show ?thesis by (simp add: load_def)
  next
    case False
    from flush_entry_changed[OF assms False] show ?thesis by auto
  qed
  then show "Some (DiaryEntry.entry_date row) = DiaryEntry_object.entry_date obj"
    and "Some (DiaryEntry.mood_score row) = DiaryEntry_object.mood_score obj"
    and "Some (DiaryEntry.mood_percentage row) = DiaryEntry_object.mood_percentage obj"
    and "DiaryEntry.activities row = DiaryEntry_object.activities obj"
    and "DiaryEntry.notes row = DiaryEntry_object.notes obj"
    by simp_all
qed

lemma flush_entry_row_ok:
  assumes "flush_entry now loaded obj = Inr row" and "entry_row_ok loaded"
      and "DiaryEntry_object.entry_uuid obj = DiaryEntry.entry_uuid loaded"
  shows "entry_row_ok row"
proof (cases "obj = load loaded")
  case True
  with assms show ?thesis by (simp add: flush_entry_unchanged)
next
  case False
  from flush_entry_changed[OF assms(1) False] assms(2,3) show ?thesis
    by (auto simp: entry_row_ok_def int4_opt_def)
qed

text \<open>When a flush is taken and when it is refused.\<close>

lemma flush_entry_taken:
  assumes "text_param_ok (DiaryEntry_object.notes obj)"
      and "int4_opt (DiaryEntry_object.mood_score obj)"
      and "int4_opt (DiaryEntry_object.mood_percentage obj)"
      and "jsonb_ok (DiaryEntry_object.activities obj)"
      and "DiaryEntry_object.entry_date obj \<noteq> None"
      and "DiaryEntry_object.mood_score obj \<noteq> None"
      and "DiaryEntry_object.mood_percentage obj \<noteq> None"
  shows "\<exists>row. flush_entry now loaded obj = Inr row"
  using assms by (auto simp: flush_entry_def)

lemma flush_entry_null:
  assumes "DiaryEntry_object.entry_date obj = None \<or> DiaryEntry_object.mood_score obj = None \<or>
           DiaryEntry_object.mood_percentage obj = None"
  shows "\<exists>e. flush_entry now loaded obj = Inl e"
proof -
  from assms have "obj \<noteq> load loaded" by (auto simp: load_def)
  with assms show ?thesis by (auto simp: flush_entry_def split: option.splits)
qed

lemma flush_entry_null_only:
  assumes "DiaryEntry_object.entry_date obj = None \<or> DiaryEntry_object.mood_score obj = None \<or>
           DiaryEntry_object.mood_percentage obj = None"
      and "text_param_ok (DiaryEntry_object.notes obj)"
      and "int4_opt (DiaryEntry_object.mood_score obj)"
      and "int4_opt (DiaryEntry_object.mood_percentage obj)"
      and "jsonb_ok (DiaryEntry_object.activities obj)"
  shows "flush_entry now loaded obj = Inl IntegrityError"
proof -
  from assms(1) have "obj \<noteq> load loaded" by (auto simp: load_def)
  with assms show ?thesis by (auto simp: flush_entry_def split: option.splits)
qed

lemma flush_entry_nul_notes:
  assumes "\<not> text_param_ok (DiaryEntry_object.notes obj)" and "text_param_ok (DiaryEntry.notes loaded)"
  shows "flush_entry now loaded obj = Inl ValueError"
proof -
  from assms have "obj \<noteq> load loaded" by (auto simp: load_def)
  with assms(1) show ?thesis by (simp add: flush_entry_def)
qed

section \<open>The update handler on the tables\<close>

lemma update_diary_entry_on_found:
  assumes "select_user t d = Inr (Some u)"
      and "select_entry t (User.user_id u) uuid = Inr (Some old)"
  shows "update_diary_entry_on now uuid ed d t =
           (case flush_entry now old (fold setattr (dict_exclude_unset ed) (load old)) of
              Inl e \<Rightarrow> (Inl (HTTPException 500 (Formatted ''Update failed: '' e)), t)
            | Inr row \<Rightarrow>
                (Inr (Response \<lparr>success = True,
                        message = ''Diary entry updated successfully'',
                        data = Some [(''entry_id'', PyInt (DiaryEntry.entry_id row)),
                                     (''entry_uuid'', PyStr (DiaryEntry.entry_uuid row))]\<rparr>),
                 t\<lparr>diary_entries_table :=
                      map (\<lambda>r. if DiaryEntry.entry_id r = DiaryEntry.entry_id old
                                then row else r)
                          (diary_entries_table t)\<rparr>))"
  using assms by (simp add: update_diary_entry_on_def commit_entry_def Let_def split: sum.splits)

lemma update_diary_entry_on_cases:
  "(\<exists>c x. update_diary_entry_on now uuid ed d t = (Inl (HTTPException c x), t)) \<or>
   (\<exists>old row. old \<in> set (diary_entries_table t) \<and>
      DiaryEntry.entry_uuid old = uuid \<and>
      flush_entry now old (fold setattr (dict_exclude_unset ed) (load old)) = Inr row \<and>
      update_diary_entry_on now uuid ed d t =
        (Inr (Response \<lparr>success = True,
                message = ''Diary entry updated successfully'',
                data = Some [(''entry_id'', PyInt (DiaryEntry.entry_id row)),
                             (''entry_uuid'', PyStr (DiaryEntry.entry_uuid row))]\<rparr>),
         t\<lparr>diary_entries_table :=
              map (\<lambda>r. if DiaryEntry.entry_id r = DiaryEntry.entry_id old then row else r)
                  (diary_entries_table t)\<rparr>))"
proof (cases "select_user t d")
  case (Inl e)
  then show ?thesis by (simp add: update_diary_entry_on_def)
next
  case (Inr uo)
  note su = this
  show ?thesis
  proof (cases uo)
    case None
    with su show ?thesis by (simp add: update_diary_entry_on_def)
  next
    case (Some u)
    note u = this
    show ?thesis
    proof (cases "select_entry t (User.user_id u) uuid")
      case (Inl e)
      with su u show ?thesis by (simp add: update_diary_entry_on_def)
    next
      case (Inr eo)
      note se = this
      show ?thesis
      proof (cases eo)
        case None
        with su u se show ?thesis by (simp add: update_diary_entry_on_def)
      next
        case (Some old)
        from se Some have lookup: "entry_by_uuid_on t (User.user_id u) uuid = Some old"
          by (auto simp: select_entry_def split: if_splits)
        note mem = entry_by_uuid_on_Some[OF lookup]
        from su u have su': "select_user t d = Inr (Some u)" by simp
        from se Some have se': "select_entry t (User.user_id u) uuid = Inr (Some old)" by simp
        note found = update_diary_entry_on_found[OF su' se', of now ed]
        show ?thesis
        proof (cases "flush_entry now old (fold setattr (dict_exclude_unset ed) (load old))")
          case (Inl e)
          with found have "update_diary_entry_on now uuid ed d t =
              (Inl (HTTPException 500 (Formatted ''Update failed: '' e)), t)" by simp
          then show ?thesis by blast
        next
          case (Inr row)
          with found have "update_diary_entry_on now uuid ed d t =
        (Inr (Response \<lparr>success = True,
                message = ''Diary entry updated successfully'',
                data = Some [(''entry_id'', PyInt (DiaryEntry.entry_id row)),
                             (''entry_uuid'', PyStr (DiaryEntry.entry_uuid row))]\<rparr>),
         t\<lparr>diary_entries_table :=
              map (\<lambda>r. if DiaryEntry.entry_id r = DiaryEntry.entry_id old then row else r)
                  (diary_entries_table t)\<rparr>)" by simp
          with mem(1,3) Inr show ?thesis by blast
        qed
      qed
    qed
  qed
qed

text \<open>The row a successful update writes keeps the identity of the row it replaces.\<close>

lemma flushed_identity:
  assumes "flush_entry now old (fold setattr items (load old)) = Inr row"
  shows "DiaryEntry.entry_id row = DiaryEntry.entry_id old"
    and "DiaryEntry.user_id row = DiaryEntry.user_id old"
    and "DiaryEntry.entry_uuid row = DiaryEntry.entry_uuid old"
    and "DiaryEntry.created_at row = DiaryEntry.created_at old"
proof -
  note f = fold_setattr_identity[of items "load old"]
  have a: "DiaryEntry_object.entry_id (fold setattr items (load old)) = DiaryEntry.entry_id old"
    using f by (simp add: load_def)
  have b: "DiaryEntry_object.user_id (fold setattr items (load old)) = DiaryEntry.user_id old"
    using f by (simp add: load_def)
  have c: "DiaryEntry_object.entry_uuid (fold setattr items (load old)) = DiaryEntry.entry_uuid old"
    using f by (simp add: load_def)
  have d: "DiaryEntry_object.created_at (fold setattr items (load old)) = DiaryEntry.created_at old"
    using f by (simp add: load_def)
  note i = flush_entry_identity[OF assms a b c d]
  show "DiaryEntry.entry_id row = DiaryEntry.entry_id old" by (rule i(1))
  show "DiaryEntry.user_id row = DiaryEntry.user_id old" by (rule i(2))
  show "DiaryEntry.entry_uuid row = DiaryEntry.entry_uuid old" by (rule i(3))
  show "DiaryEntry.created_at row = DiaryEntry.created_at old" by (rule i(4))
qed

lemma flushed_row_ok:
  assumes "flush_entry now old (fold setattr items (load old)) = Inr row" and "entry_row_ok old"
  shows "entry_row_ok row"
proof -
  have c: "DiaryEntry_object.entry_uuid (fold setattr items (load old)) = DiaryEntry.entry_uuid old"
    using fold_setattr_identity[of items "load old"] by (simp add: load_def)
  show ?thesis by (rule flush_entry_row_ok[OF assms(1,2) c])
qed

lemma replace_keeps:
  assumes "f row = f old" and "distinct (map g xs)" and "old \<in> set xs"
  shows "map f (map (\<lambda>r. if g r = g old then row else r) xs) = map f xs"
proof -
  have "\<And>r. r \<in> set xs \<Longrightarrow> f (if g r = g old then row else r) = f r"
  proof -
    fix r assume r: "r \<in> set xs"
    show "f (if g r = g old then row else r) = f r"
    proof (cases "g r = g old")
      case True
      from distinct_map_eq[OF assms(2) r assms(3) True] assms(1) True show ?thesis by simp
    next
      case False
      then show ?thesis by simp
    qed
  qed
  then show ?thesis by (simp cong: map_cong)
qed

lemma replace_is_old:
  assumes "distinct (map g xs)" and "old \<in> set xs"
  shows "map (\<lambda>r. if g r = g old then row else r) xs = map (\<lambda>r. if r = old then row else r) xs"
proof (rule map_cong[OF refl])
  fix r assume r: "r \<in> set xs"
  show "(if g r = g old then row else r) = (if r = old then row else r)"
  proof (cases "g r = g old")
    case True
    from distinct_map_eq[OF assms(1) r assms(2) True] True show ?thesis by simp
  next
    case False
    then have "r \<noteq> old" by auto
    with False show ?thesis by simp
  qed
qed

text \<open>The identity columns of every row, and the users table, after any update.\<close>

lemma update_diary_entry_on_rows:
  assumes pk: "distinct (map DiaryEntry.entry_id (diary_entries_table t))"
  shows "map DiaryEntry.entry_id (diary_entries_table (snd (update_diary_entry_on now uuid ed d t))) =
           map DiaryEntry.entry_id (diary_entries_table t) \<and>
         map DiaryEntry.user_id (diary_entries_table (snd (update_diary_entry_on now uuid ed d t))) =
           map DiaryEntry.user_id (diary_entries_table t) \<and>
         map DiaryEntry.entry_uuid (diary_entries_table (snd (update_diary_entry_on now uuid ed d t))) =
           map DiaryEntry.entry_uuid (diary_entries_table t) \<and>
         map DiaryEntry.created_at (diary_entries_table (snd (update_diary_entry_on now uuid ed d t))) =
           map DiaryEntry.created_at (diary_entries_table t) \<and>
         users_table (snd (update_diary_entry_on now uuid ed d t)) = users_table t \<and>
         users_seq (snd (update_diary_entry_on now uuid ed d t)) = users_seq t \<and>
         diary_entries_seq (snd (update_diary_entry_on now uuid ed d t)) = diary_entries_seq t"
  using update_diary_entry_on_cases[of now uuid ed d t]
proof (elim disjE exE conjE)
  fix c x assume "update_diary_entry_on now uuid ed d t = (Inl (HTTPException c x), t)"
  then show ?thesis by simp
next
  fix old row
  assume mem: "old \<in> set (diary_entries_table t)"
    and fl: "flush_entry now old (fold setattr (dict_exclude_unset ed) (load old)) = Inr row"
    and r: "update_diary_entry_on now uuid ed d t =
        (Inr (Response \<lparr>success = True,
                message = ''Diary entry updated successfully'',
                data = Some [(''entry_id'', PyInt (DiaryEntry.entry_id row)),
                             (''entry_uuid'', PyStr (DiaryEntry.entry_uuid row))]\<rparr>),
         t\<lparr>diary_entries_table :=
              map (\<lambda>r. if DiaryEntry.entry_id r = DiaryEntry.entry_id old then row else r)
                  (diary_entries_table t)\<rparr>)"
  note i = flushed_identity[OF fl]
  have 1: "map DiaryEntry.entry_id (map (\<lambda>r. if DiaryEntry.entry_id r = DiaryEntry.entry_id old then row else r)
                  (diary_entries_table t)) = map DiaryEntry.entry_id (diary_entries_table t)"
    by (rule replace_keeps[OF i(1) pk mem])
  have 2: "map DiaryEntry.user_id (map (\<lambda>r. if DiaryEntry.entry_id r = DiaryEntry.entry_id old then row else r)
                  (diary_entries_table t)) = map DiaryEntry.user_id (diary_entries_table t)"
    by (rule replace_keeps[OF i(2) pk mem])
  have 3: "map DiaryEntry.entry_uuid (map (\<lambda>r. if DiaryEntry.entry_id r = DiaryEntry.entry_id old then row else r)
                  (diary_entries_table t)) = map DiaryEntry.entry_uuid (diary_entries_table t)"
    by (rule replace_keeps[OF i(3) pk mem])
  have 4: "map DiaryEntry.created_at (map (\<lambda>r. if DiaryEntry.entry_id r = DiaryEntry.entry_id old then row else r)
                  (diary_entries_table t)) = map DiaryEntry.created_at (diary_entries_table t)"
    by (rule replace_keeps[OF i(4) pk mem])
  show ?thesis unfolding r using 1 2 3 4 by simp
qed

lemma update_diary_entry_on_store_ok:
  assumes ok: "store_ok t"
  shows "store_ok (snd (update_diary_entry_on now uuid ed d t))"
  using update_diary_entry_on_cases[of now uuid ed d t]
proof (elim disjE exE conjE)
  fix c x assume "update_diary_entry_on now uuid ed d t = (Inl (HTTPException c x), t)"
  with ok show ?thesis by simp
next
  fix old row
  assume mem: "old \<in> set (diary_entries_table t)"
    and fl: "flush_entry now old (fold setattr (dict_exclude_unset ed) (load old)) = Inr row"
    and r: "update_diary_entry_on now uuid ed d t =
        (Inr (Response \<lparr>success = True,
                message = ''Diary entry updated successfully'',
                data = Some [(''entry_id'', PyInt (DiaryEntry.entry_id row)),
                             (''entry_uuid'', PyStr (DiaryEntry.entry_uuid row))]\<rparr>),
         t\<lparr>diary_entries_table :=
              map (\<lambda>r. if DiaryEntry.entry_id r = DiaryEntry.entry_id old then row else r)
                  (diary_entries_table t)\<rparr>)"
  from ok have pk: "distinct (map DiaryEntry.entry_id (diary_entries_table t))"
    by (simp add: store_ok_def)
  note i = flushed_identity[OF fl]
  note o = store_ok_entry[OF ok mem]
  have rowok: "entry_row_ok row" by (rule flushed_row_ok[OF fl o(1)])
  have 1: "map DiaryEntry.entry_id (map (\<lambda>r. if DiaryEntry.entry_id r = DiaryEntry.entry_id old then row else r)
                  (diary_entries_table t)) = map DiaryEntry.entry_id (diary_entries_table t)"
    by (rule replace_keeps[OF i(1) pk mem])
  have all: "list_all (\<lambda>e. DiaryEntry.entry_id e \<le> diary_entries_seq t \<and> entry_row_ok e \<and>
                    DiaryEntry.user_id e \<in> set (map User.user_id (users_table t)))
              (map (\<lambda>r. if DiaryEntry.entry_id r = DiaryEntry.entry_id old then row else r)
                  (diary_entries_table t))"
    unfolding list_all_iff
  proof
    fix e assume "e \<in> set (map (\<lambda>r. if DiaryEntry.entry_id r = DiaryEntry.entry_id old then row else r)
                  (diary_entries_table t))"
    then have "e = row \<or> e \<in> set (diary_entries_table t)" by auto
    then show "DiaryEntry.entry_id e \<le> diary_entries_seq t \<and> entry_row_ok e \<and>
                    DiaryEntry.user_id e \<in> set (map User.user_id (users_table t))"
    proof
      assume "e = row"
      with i(1,2) o(2,3) rowok show ?thesis by simp
    next
      assume e: "e \<in> set (diary_entries_table t)"
      from store_ok_entry[OF ok e] show ?thesis by simp
    qed
  qed
  from ok have u: "distinct (map User.user_id (users_table t))"
     "distinct (map User.device_id (users_table t))"
     "list_all (\<lambda>u. User.user_id u \<le> users_seq t \<and> user_row_ok u) (users_table t)"
    by (simp_all add: store_ok_def)
  have pk': "distinct (map DiaryEntry.entry_id (map (\<lambda>r. if DiaryEntry.entry_id r = DiaryEntry.entry_id old then row else r)
                  (diary_entries_table t)))"
    unfolding 1 by (rule pk)
  have sel: "\<And>X. users_table (t\<lparr>diary_entries_table := X\<rparr>) = users_table t"
    "\<And>X. users_seq (t\<lparr>diary_entries_table := X\<rparr>) = users_seq t"
    "\<And>X. diary_entries_seq (t\<lparr>diary_entries_table := X\<rparr>) = diary_entries_seq t"
    "\<And>X. diary_entries_table (t\<lparr>diary_entries_table := X\<rparr>) = X"
    by simp_all
  show ?thesis unfolding r store_ok_def
    by (simp only: snd_conv sel pk' all u simp_thms)
qed

section \<open>From the tables to the store\<close>

lemma tables_of_ok: "store_ok (tables_of db)"
  using tables_of[of db] by simp

lemma tables_of_Abs: "store_ok t \<Longrightarrow> tables_of (Abs_database t) = t"
  by (simp add: Abs_database_inverse)

lemma lift_fst: "fst (map_prod id Abs_database r) = fst r"
  by (cases r) simp

lemma lift_snd: "store_ok (snd r) \<Longrightarrow> tables_of (snd (map_prod id Abs_database r)) = snd r"
  by (cases r) (simp add: tables_of_Abs)

lemma lift_eq:
  assumes "store_ok (snd r)"
  shows "map_prod id Abs_database r = (out, db') \<longleftrightarrow> r = (out, tables_of db')"
proof
  assume a: "map_prod id Abs_database r = (out, db')"
  then have "fst r = out" and "Abs_database (snd r) = db'" by (cases r, simp)+
  with assms have "fst r = out" and "snd r = tables_of db'" by (auto simp: tables_of_Abs)
  then show "r = (out, tables_of db')" by (cases r) simp
next
  assume "r = (out, tables_of db')"
  then show "map_prod id Abs_database r = (out, db')" by (simp add: tables_of_inverse)
qed

lemma register_device_eq:
  "register_device now user_data db = (out, db') \<longleftrightarrow>
     register_device_on now user_data (tables_of db) = (out, tables_of db')"
  unfolding register_device_def
  by (rule lift_eq[OF register_device_on_store_ok[OF tables_of_ok]])

lemma create_diary_entry_eq:
  "create_diary_entry now entry_data db = (out, db') \<longleftrightarrow>
     create_diary_entry_on now entry_data (tables_of db) = (out, tables_of db')"
  unfolding create_diary_entry_def
  by (rule lift_eq[OF create_diary_entry_on_store_ok[OF tables_of_ok]])

lemma update_diary_entry_eq:
  "update_diary_entry now uuid entry_data d db = (out, db') \<longleftrightarrow>
     update_diary_entry_on now uuid entry_data d (tables_of db) = (out, tables_of db')"
  unfolding update_diary_entry_def
  by (rule lift_eq[OF update_diary_entry_on_store_ok[OF tables_of_ok]])

lemma register_device_tables:
  "tables_of (snd (register_device now user_data db)) =
     snd (register_device_on now user_data (tables_of db))"
  unfolding register_device_def
  by (rule lift_snd[OF register_device_on_store_ok[OF tables_of_ok]])

lemma create_diary_entry_tables:
  "tables_of (snd (create_diary_entry now entry_data db)) =
     snd (create_diary_entry_on now entry_data (tables_of db))"
  unfolding create_diary_entry_def
  by (rule lift_snd[OF create_diary_entry_on_store_ok[OF tables_of_ok]])

lemma update_diary_entry_tables:
  "tables_of (snd (update_diary_entry now uuid entry_data d db)) =
     snd (update_diary_entry_on now uuid entry_data d (tables_of db))"
  unfolding update_diary_entry_def
  by (rule lift_snd[OF update_diary_entry_on_store_ok[OF tables_of_ok]])

lemma register_device_fst:
  "fst (register_device now user_data db) = fst (register_device_on now user_data (tables_of db))"
  unfolding register_device_def by (rule lift_fst)

lemma create_diary_entry_fst:
  "fst (create_diary_entry now entry_data db) =
     fst (create_diary_entry_on now entry_data (tables_of db))"
  unfolding create_diary_entry_def by (rule lift_fst)

lemma update_diary_entry_fst:
  "fst (update_diary_entry now uuid entry_data d db) =
     fst (update_diary_entry_on now uuid entry_data d (tables_of db))"
  unfolding update_diary_entry_def by (rule lift_fst)

text \<open>A handler that hands back the tables it was given hands back the store.\<close>

lemma register_device_unchanged:
  "register_device_on now user_data (tables_of db) = (out, tables_of db) \<Longrightarrow>
   register_device now user_data db = (out, db)"
  by (simp add: register_device_eq)

lemma create_diary_entry_unchanged:
  "create_diary_entry_on now entry_data (tables_of db) = (out, tables_of db) \<Longrightarrow>
   create_diary_entry now entry_data db = (out, db)"
  by (simp add: create_diary_entry_eq)

lemma update_diary_entry_unchanged:
  "update_diary_entry_on now uuid entry_data d (tables_of db) = (out, tables_of db) \<Longrightarrow>
   update_diary_entry now uuid entry_data d db = (out, db)"
  by (simp add: update_diary_entry_eq)

text \<open>What the store guarantees of the rows a handler looks at.\<close>

lemma select_user_registered:
  assumes "u \<in> set (users db)"
  shows "select_user (tables_of db) (User.device_id u) = Inr (Some u)"
  by (rule select_user_found[OF tables_of_ok assms])

lemma select_user_lookup:
  assumes "user_by_device_id db d = Some u"
  shows "select_user (tables_of db) d = Inr (Some u)"
proof -
  note m = user_by_device_id_on_Some[OF assms]
  from select_user_registered[OF m(1)] m(2) show ?thesis by simp
qed

lemma select_user_unknown:
  assumes "\<not> contains_nul d" and "d \<notin> set (map User.device_id (users db))"
  shows "select_user (tables_of db) d = Inr None"
  using assms by (simp add: select_user_def user_by_device_id_on_None)

lemma select_entry_only:
  assumes "old \<in> set (diary_entries db)"
      and "\<forall>e\<in>set (diary_entries db).
             DiaryEntry.user_id e = DiaryEntry.user_id old \<and>
             DiaryEntry.entry_uuid e = DiaryEntry.entry_uuid old \<longrightarrow> e = old"
  shows "select_entry (tables_of db) (DiaryEntry.user_id old) (DiaryEntry.entry_uuid old) =
           Inr (Some old)"
proof -
  have "entry_by_uuid_on (tables_of db) (DiaryEntry.user_id old) (DiaryEntry.entry_uuid old) = Some old"
    by (rule entry_by_uuid_on_only[OF assms(1) refl refl assms(2)])
  with select_entry_stored[OF tables_of_ok assms(1), of "DiaryEntry.user_id old"]
  show ?thesis by simp
qed

text \<open>The primary key of the entries table, in every store.\<close>

lemma entry_id_primary_key: "distinct (map DiaryEntry.entry_id (diary_entries db))"
  using tables_of_ok[of db] by (simp add: store_ok_def)

section \<open>The example stores\<close>

lemma store_ok_tables1: "store_ok tables1"
  by (simp add: store_ok_def tables1_def user1_def entry1_def entry2_def entry3_def
        user_row_ok_def entry_row_ok_def contains_nul_def int4_def jsonb_ok_def text_param_ok_def)

lemma store_ok_tables2: "store_ok tables2"
  by (simp add: store_ok_def tables2_def user1_def user2_def entry1_def entry2_def entry4_def
        entry5_def user_row_ok_def entry_row_ok_def contains_nul_def int4_def jsonb_ok_def
        text_param_ok_def)

lemma store_ok_tables_no_entries: "store_ok tables_no_entries"
  by (simp add: store_ok_def tables_no_entries_def user1_def user2_def user_row_ok_def
        contains_nul_def)

lemma tables_of_empty_db: "tables_of empty_db = empty_tables"
  unfolding empty_db_def by (rule tables_of_Abs[OF store_ok_empty_tables])

lemma tables_of_db1: "tables_of db1 = tables1"
  unfolding db1_def by (rule tables_of_Abs[OF store_ok_tables1])

lemma tables_of_db2: "tables_of db2 = tables2"
  unfolding db2_def by (rule tables_of_Abs[OF store_ok_tables2])

lemma tables_of_db_no_entries: "tables_of db_no_entries = tables_no_entries"
  unfolding db_no_entries_def by (rule tables_of_Abs[OF store_ok_tables_no_entries])

lemma rows_db1: "users db1 = [user1]" "diary_entries db1 = [entry1, entry2, entry3]"
  by (simp_all add: tables_of_db1 tables1_def)

lemma rows_db2: "users db2 = [user1, user2]" "diary_entries db2 = [entry1, entry2, entry5, entry4]"
  by (simp_all add: tables_of_db2 tables2_def)

lemma rows_db_no_entries: "users db_no_entries = [user1, user2]" "diary_entries db_no_entries = []"
  by (simp_all add: tables_of_db_no_entries tables_no_entries_def)

lemma db1_entry1:
  shows "user1 \<in> set (users db1)" and "User.device_id user1 = ''dev-1''"
    and "entry1 \<in> set (diary_entries db1)"
    and "DiaryEntry.user_id entry1 = User.user_id user1"
    and "DiaryEntry.entry_uuid entry1 = ''uuid-a''"
    and "\<forall>e\<in>set (diary_entries db1).
           DiaryEntry.user_id e = User.user_id user1 \<and> DiaryEntry.entry_uuid e = ''uuid-a'' \<longrightarrow>
           e = entry1"
  unfolding rows_db1 by (simp_all add: user1_def entry1_def entry2_def entry3_def)

section \<open>Create\<close>

lemma create_conflict:
  assumes "user_by_device_id db (DiaryEntryCreate.device_id entry_data) = Some user"
      and "e \<in> set (diary_entries db)"
      and "DiaryEntry.user_id e = User.user_id user"
      and "DiaryEntry.entry_uuid e = DiaryEntryCreate.entry_uuid entry_data"
  shows "create_diary_entry now entry_data db =
           (Inl (HTTPException 409 (Text ''Diary entry already exists'')), db)"
proof -
  have su: "select_user (tables_of db) (DiaryEntryCreate.device_id entry_data) = Inr (Some user)"
    by (rule select_user_lookup[OF assms(1)])
  from entry_by_uuid_on_exists[OF assms(2,3,4)] obtain y where
    y: "entry_by_uuid (db) (User.user_id user) (DiaryEntryCreate.entry_uuid entry_data) = Some y"
    by blast
  from select_entry_stored[OF tables_of_ok assms(2), of "User.user_id user"] assms(4) y
  have se: "select_entry (tables_of db) (User.user_id user) (DiaryEntryCreate.entry_uuid entry_data)
              = Inr (Some y)"
    by simp
  have "create_diary_entry_on now entry_data (tables_of db) =
          (Inl (HTTPException 409 (Text ''Diary entry already exists'')), tables_of db)"
    by (simp add: create_diary_entry_on_def su se)
  then show ?thesis by (rule create_diary_entry_unchanged)
qed

lemma user_by_device_id_db1: "user_by_device_id db1 ''dev-1'' = Some user1"
  by (simp add: tables_of_db1 user_by_device_id_on_def tables1_def user1_def first_def)

text \<open>
  Claim C3. When the device resolves to a user and the table already holds an entry with
  that user's id and the payload's \<open>entry_uuid\<close>, \<open>create_diary_entry\<close> raises 409
  "Diary entry already exists" and leaves the store as it found it: the existing entry
  is not changed and no row is added.
\<close>

theorem create_duplicate_conflict:
  assumes "user_by_device_id db (DiaryEntryCreate.device_id entry_data) = Some user"
      and "e \<in> set (diary_entries db)"
      and "DiaryEntry.user_id e = User.user_id user"
      and "DiaryEntry.entry_uuid e = DiaryEntryCreate.entry_uuid entry_data"
  shows "create_diary_entry now entry_data db =
           (Inl (HTTPException 409 (Text ''Diary entry already exists'')), db)"
  using assms by (rule create_conflict)

theorem create_duplicate_conflict_witness:
  "create_diary_entry (clock_at 200) (new_entry ''dev-1'' ''uuid-b'') db1 =
     (Inl (HTTPException 409 (Text ''Diary entry already exists'')), db1)"
proof -
  have 1: "user_by_device_id db1 (DiaryEntryCreate.device_id (new_entry ''dev-1'' ''uuid-b''))
             = Some user1"
    by (simp add: user_by_device_id_db1 new_entry_def)
  have 2: "entry2 \<in> set (diary_entries db1)"
    by (simp add: tables_of_db1 tables1_def)
  have 3: "DiaryEntry.user_id entry2 = User.user_id user1"
    by (simp add: entry2_def user1_def)
  have 4: "DiaryEntry.entry_uuid entry2 = DiaryEntryCreate.entry_uuid (new_entry ''dev-1'' ''uuid-b'')"
    by (simp add: entry2_def new_entry_def)
  show ?thesis by (rule create_duplicate_conflict [OF 1 2 3 4])
qed

lemma contains_nul_nul_string: "contains_nul nul_string"
  by (simp add: contains_nul_def nul_string_def)

lemma nul_not_registered:
  assumes "contains_nul d"
  shows "d \<notin> set (map User.device_id (users db))"
proof
  assume "d \<in> set (map User.device_id (users db))"
  then obtain u where u: "u \<in> set (users db)" "User.device_id u = d" by auto
  from store_ok_user(1)[OF tables_of_ok u(1)] u(2) assms show False by simp
qed

text \<open>
  Claim C4 as stated fails: a device id that contains a NUL character is the id of no
  registered user, yet \<open>create_diary_entry\<close> does not answer 404 for it. The lookup
  itself raises, and the handler answers 500.
\<close>

theorem create_unregistered_nul_counterexample:
  "nul_string \<notin> set (map User.device_id (users db1)) \<and>
   create_diary_entry (clock_at 200) (new_entry nul_string ''uuid-z'') db1 =
     (Inl (HTTPException 500 (Formatted ''Upload failed: '' ValueError)), db1)"
proof -
  have "create_diary_entry_on (clock_at 200) (new_entry nul_string ''uuid-z'') (tables_of db1) =
          (Inl (HTTPException 500 (Formatted ''Upload failed: '' ValueError)), tables_of db1)"
    by (simp add: create_diary_entry_on_def select_user_def new_entry_def contains_nul_nul_string)
  from create_diary_entry_unchanged[OF this] nul_not_registered[OF contains_nul_nul_string, of db1]
  show ?thesis by simp
qed

text \<open>
  Claim C4, amended. Let the payload's device id be the id of no row of the users
  table. If it contains no NUL character, \<open>create_diary_entry\<close> raises 404
  "Device not registered", whatever the rest of the payload is; if it contains one,
  the handler answers 500 "Upload failed: ...". In both cases the store is returned as
  it was: no user and no entry is inserted. (A device id with a NUL character is never
  the id of a stored row.)
\<close>

theorem create_unregistered_not_found:
  "(\<not> contains_nul (DiaryEntryCreate.device_id entry_data) \<and>
    DiaryEntryCreate.device_id entry_data \<notin> set (map User.device_id (users db)) \<longrightarrow>
      create_diary_entry now entry_data db =
        (Inl (HTTPException 404 (Text ''Device not registered'')), db)) \<and>
   (contains_nul (DiaryEntryCreate.device_id entry_data) \<longrightarrow>
      DiaryEntryCreate.device_id entry_data \<notin> set (map User.device_id (users db)) \<and>
      create_diary_entry now entry_data db =
        (Inl (HTTPException 500 (Formatted ''Upload failed: '' ValueError)), db))"
proof (intro conjI impI)
  assume a: "\<not> contains_nul (DiaryEntryCreate.device_id entry_data) \<and>
    DiaryEntryCreate.device_id entry_data \<notin> set (map User.device_id (users db))"
  then have "select_user (tables_of db) (DiaryEntryCreate.device_id entry_data) = Inr None"
    by (simp add: select_user_unknown)
  then have "create_diary_entry_on now entry_data (tables_of db) =
               (Inl (HTTPException 404 (Text ''Device not registered'')), tables_of db)"
    by (simp add: create_diary_entry_on_def)
  then show "create_diary_entry now entry_data db =
        (Inl (HTTPException 404 (Text ''Device not registered'')), db)"
    by (rule create_diary_entry_unchanged)
next
  assume a: "contains_nul (DiaryEntryCreate.device_id entry_data)"
  then show "DiaryEntryCreate.device_id entry_data \<notin> set (map User.device_id (users db))"
    by (rule nul_not_registered)
  from a have "create_diary_entry_on now entry_data (tables_of db) =
          (Inl (HTTPException 500 (Formatted ''Upload failed: '' ValueError)), tables_of db)"
    by (simp add: create_diary_entry_on_def select_user_def)
  then show "create_diary_entry now entry_data db =
        (Inl (HTTPException 500 (Formatted ''Upload failed: '' ValueError)), db)"
    by (rule create_diary_entry_unchanged)
qed

theorem create_unregistered_not_found_witness:
  "create_diary_entry (clock_at 200) (new_entry ''dev-9'' ''uuid-a'') db1 =
     (Inl (HTTPException 404 (Text ''Device not registered'')), db1) \<and>
   create_diary_entry (clock_at 200) (new_entry ''dev-1 '' ''uuid-a'') db1 =
     (Inl (HTTPException 404 (Text ''Device not registered'')), db1) \<and>
   create_diary_entry (clock_at 200) (new_entry [CHR 0x00] ''uuid-a'') db1 =
     (Inl (HTTPException 500 (Formatted ''Upload failed: '' ValueError)), db1)"
proof -
  have u: "map User.device_id (users db1) = [''dev-1'']"
    by (simp add: tables_of_db1 tables1_def user1_def)
  have 1: "\<not> contains_nul (DiaryEntryCreate.device_id (new_entry ''dev-9'' ''uuid-a'')) \<and>
        DiaryEntryCreate.device_id (new_entry ''dev-9'' ''uuid-a'') \<notin> set (map User.device_id (users db1))"
    unfolding u by (simp add: new_entry_def contains_nul_def)
  have 2: "\<not> contains_nul (DiaryEntryCreate.device_id (new_entry ''dev-1 '' ''uuid-a'')) \<and>
        DiaryEntryCreate.device_id (new_entry ''dev-1 '' ''uuid-a'') \<notin> set (map User.device_id (users db1))"
    unfolding u by (simp add: new_entry_def contains_nul_def)
  have 3: "contains_nul (DiaryEntryCreate.device_id (new_entry [CHR 0x00] ''uuid-a''))"
    by (simp add: new_entry_def contains_nul_def)
  from create_unregistered_not_found[of "new_entry ''dev-9'' ''uuid-a''" db1 "clock_at 200"] 1
       create_unregistered_not_found[of "new_entry ''dev-1 '' ''uuid-a''" db1 "clock_at 200"] 2
       create_unregistered_not_found[of "new_entry [CHR 0x00] ''uuid-a''" db1 "clock_at 200"] 3
  show ?thesis by blast
qed

section \<open>Registration\<close>

lemma register_device_on_existing:
  assumes "select_user t (UserCreate.device_id user_data) = Inr (Some u)"
  shows "register_device_on now user_data t =
     (Inr (Response \<lparr>success = True, message = ''Device already exists'',
             data = Some [(''user_id'', PyInt (User.user_id u)),
                          (''device_id'', PyStr (User.device_id u))]\<rparr>), t)"
  using assms by (simp add: register_device_on_def)

lemma register_device_on_new:
  assumes "\<not> contains_nul (UserCreate.device_id user_data)"
      and "length (UserCreate.device_id user_data) \<le> 255"
      and "UserCreate.device_id user_data \<notin> set (map User.device_id (users_table t))"
  shows "register_device_on now user_data t =
     (Inr (Response \<lparr>success = True, message = ''Device registered successfully'',
             data = Some [(''user_id'', PyInt (users_seq t + 1)),
                          (''device_id'', PyStr (UserCreate.device_id user_data))]\<rparr>),
      t\<lparr>users_table := users_table t @
            [\<lparr>User.user_id = users_seq t + 1, User.device_id = UserCreate.device_id user_data,
              User.created_at = now 0, User.updated_at = now 1\<rparr>],
        users_seq := users_seq t + 1\<rparr>)"
proof -
  from assms(1,3) have "select_user t (UserCreate.device_id user_data) = Inr None"
    by (simp add: select_user_def user_by_device_id_on_None)
  moreover from assms have "insert_user now (UserCreate.device_id user_data) t =
     Inr (\<lparr>User.user_id = users_seq t + 1, User.device_id = UserCreate.device_id user_data,
              User.created_at = now 0, User.updated_at = now 1\<rparr>,
      t\<lparr>users_table := users_table t @
            [\<lparr>User.user_id = users_seq t + 1, User.device_id = UserCreate.device_id user_data,
              User.created_at = now 0, User.updated_at = now 1\<rparr>],
        users_seq := users_seq t + 1\<rparr>)"
    by (simp add: insert_user_def varchar_fits Let_def)
  ultimately show ?thesis by (simp add: register_device_on_def)
qed

lemma register_device_existing:
  assumes "u \<in> set (users db)"
  shows "register_device now \<lparr>UserCreate.device_id = User.device_id u\<rparr> db =
     (Inr (Response \<lparr>success = True, message = ''Device already exists'',
             data = Some [(''user_id'', PyInt (User.user_id u)),
                          (''device_id'', PyStr (User.device_id u))]\<rparr>), db)"
proof -
  have "select_user (tables_of db) (UserCreate.device_id \<lparr>UserCreate.device_id = User.device_id u\<rparr>)
          = Inr (Some u)"
    using select_user_registered[OF assms] by simp
  from register_device_on_existing[OF this, of now] show ?thesis
    by (rule register_device_unchanged)
qed

lemma one_row_of_key:
  assumes "distinct (map f xs)" and "x \<in> set xs"
  shows "length (filter (\<lambda>y. f y = f x) xs) = 1"
  using assms
proof (induction xs)
  case Nil
  then show ?case by simp
next
  case (Cons a xs)
  show ?case
  proof (cases "a = x")
    case True
    with Cons.prems(1) have "f x \<notin> f ` set xs" by simp
    then have "\<forall>y\<in>set xs. f y \<noteq> f x" by (metis imageI)
    then have "filter (\<lambda>y. f y = f x) xs = []" by (simp add: filter_empty_conv)
    with True show ?thesis by simp
  next
    case False
    with Cons.prems have x: "x \<in> set xs" and d: "distinct (map f xs)" by simp_all
    from Cons.prems(1) x have "f a \<noteq> f x" by auto
    with Cons.IH[OF d x] show ?thesis by simp
  qed
qed

lemma one_user_of_device:
  assumes "u \<in> set (users db)"
  shows "length (filter (\<lambda>y. User.device_id y = User.device_id u) (users db)) = 1"
proof -
  from tables_of_ok[of db] have "distinct (map User.device_id (users db))"
    by (simp add: store_ok_def)
  from one_row_of_key[OF this assms] show ?thesis .
qed

lemma varchar_long_id: "varchar 255 long_id = Inl DataError"
  by (simp add: varchar_def long_id_def list_all_iff)

lemma long_id_no_nul: "\<not> contains_nul long_id"
  by (simp add: contains_nul_def long_id_def)

lemma register_device_long_id:
  "register_device now \<lparr>UserCreate.device_id = long_id\<rparr> empty_db =
     (Inl (HTTPException 500 (Formatted ''Registration failed: '' DataError)), empty_db)"
proof -
  have "register_device_on now \<lparr>UserCreate.device_id = long_id\<rparr> (tables_of empty_db) =
     (Inl (HTTPException 500 (Formatted ''Registration failed: '' DataError)), tables_of empty_db)"
    by (simp add: register_device_on_def select_user_def long_id_no_nul insert_user_def
          varchar_long_id user_by_device_id_on_def first_def tables_of_empty_db empty_tables_def)
  then show ?thesis by (rule register_device_unchanged)
qed

lemma register_device_nul:
  assumes "contains_nul (UserCreate.device_id user_data)"
  shows "register_device now user_data db =
     (Inl (HTTPException 500 (Formatted ''Registration failed: '' ValueError)), db)"
proof -
  from assms have "register_device_on now user_data (tables_of db) =
     (Inl (HTTPException 500 (Formatted ''Registration failed: '' ValueError)), tables_of db)"
    by (simp add: register_device_on_def select_user_def)
  then show ?thesis by (rule register_device_unchanged)
qed

text \<open>
  Claim C2 as stated fails: not every device id can be registered. For an id of 256
  letters the lookup finds nothing, the INSERT is refused by the column
  (\<^verbatim>\<open>String(255)\<close>), and both calls answer 500 with no row stored; for an id with a NUL
  character the lookup itself raises, in both calls.
\<close>

theorem register_twice_counterexample:
  "register_device (clock_at 200) \<lparr>UserCreate.device_id = long_id\<rparr> empty_db =
     (Inl (HTTPException 500 (Formatted ''Registration failed: '' DataError)), empty_db) \<and>
   register_device (clock_at 300) \<lparr>UserCreate.device_id = long_id\<rparr> empty_db =
     (Inl (HTTPException 500 (Formatted ''Registration failed: '' DataError)), empty_db) \<and>
   register_device (clock_at 200) \<lparr>UserCreate.device_id = nul_string\<rparr> empty_db =
     (Inl (HTTPException 500 (Formatted ''Registration failed: '' ValueError)), empty_db) \<and>
   register_device (clock_at 300) \<lparr>UserCreate.device_id = nul_string\<rparr> empty_db =
     (Inl (HTTPException 500 (Formatted ''Registration failed: '' ValueError)), empty_db)"
  by (simp add: register_device_long_id register_device_nul contains_nul_nul_string)

text \<open>
  Claim C2, amended. For a device id of at most 255 characters without a NUL
  character, two calls of \<open>register_device\<close> in sequence both return a successful
  response with the same \<open>user_id\<close> and the device id; the second one says
  "Device already exists" and returns the store of the first call unchanged, and that
  store holds exactly one row for the device. When the users table held no row for the
  device before, the first call says "Device registered successfully" and the table
  has grown by one row.
\<close>

theorem register_twice:
  assumes nul: "\<not> contains_nul (UserCreate.device_id user_data)"
      and len: "length (UserCreate.device_id user_data) \<le> 255"
      and r1: "register_device now user_data db = (out1, db_a)"
      and r2: "register_device now' user_data db_a = (out2, db_b)"
  shows "\<exists>uid m.
           out1 = Inr (Response \<lparr>success = True, message = m,
                    data = Some [(''user_id'', PyInt uid),
                                 (''device_id'', PyStr (UserCreate.device_id user_data))]\<rparr>) \<and>
           out2 = Inr (Response \<lparr>success = True, message = ''Device already exists'',
                    data = Some [(''user_id'', PyInt uid),
                                 (''device_id'', PyStr (UserCreate.device_id user_data))]\<rparr>) \<and>
           db_b = db_a \<and>
           length (filter (\<lambda>u. User.device_id u = UserCreate.device_id user_data) (users db_a)) = 1 \<and>
           (if UserCreate.device_id user_data \<in> set (map User.device_id (users db))
            then m = ''Device already exists'' \<and> db_a = db
            else m = ''Device registered successfully'' \<and>
                 length (users db_a) = length (users db) + 1)"
proof -
  have ud: "user_data = \<lparr>UserCreate.device_id = UserCreate.device_id user_data\<rparr>" by simp
  have second: "\<And>u. u \<in> set (users db_a) \<Longrightarrow> User.device_id u = UserCreate.device_id user_data \<Longrightarrow>
      out2 = Inr (Response \<lparr>success = True, message = ''Device already exists'',
                    data = Some [(''user_id'', PyInt (User.user_id u)),
                                 (''device_id'', PyStr (UserCreate.device_id user_data))]\<rparr>) \<and>
      db_b = db_a \<and>
      length (filter (\<lambda>u. User.device_id u = UserCreate.device_id user_data) (users db_a)) = 1"
  proof -
    fix u assume u: "u \<in> set (users db_a)" "User.device_id u = UserCreate.device_id user_data"
    from register_device_existing[OF u(1), of now'] u(2) ud
    have "register_device now' user_data db_a =
     (Inr (Response \<lparr>success = True, message = ''Device already exists'',
             data = Some [(''user_id'', PyInt (User.user_id u)),
                          (''device_id'', PyStr (UserCreate.device_id user_data))]\<rparr>), db_a)"
      by simp
    with r2 one_user_of_device[OF u(1)] u(2)
    show "out2 = Inr (Response \<lparr>success = True, message = ''Device already exists'',
                    data = Some [(''user_id'', PyInt (User.user_id u)),
                                 (''device_id'', PyStr (UserCreate.device_id user_data))]\<rparr>) \<and>
      db_b = db_a \<and>
      length (filter (\<lambda>u. User.device_id u = UserCreate.device_id user_data) (users db_a)) = 1"
      by simp
  qed
  show ?thesis
  proof (cases "UserCreate.device_id user_data \<in> set (map User.device_id (users db))")
    case True
    then obtain u where u: "u \<in> set (users db)" "User.device_id u = UserCreate.device_id user_data"
      by auto
    from register_device_existing[OF u(1), of now] u(2) ud
    have "register_device now user_data db =
     (Inr (Response \<lparr>success = True, message = ''Device already exists'',
             data = Some [(''user_id'', PyInt (User.user_id u)),
                          (''device_id'', PyStr (UserCreate.device_id user_data))]\<rparr>), db)"
      by simp
    with r1 have 1: "out1 = Inr (Response \<lparr>success = True, message = ''Device already exists'',
             data = Some [(''user_id'', PyInt (User.user_id u)),
                          (''device_id'', PyStr (UserCreate.device_id user_data))]\<rparr>)"
      and a: "db_a = db" by simp_all
    from u(1) a have "u \<in> set (users db_a)" by simp
    from second[OF this u(2)] 1 a True show ?thesis by simp
  next
    case False
    let ?u = "\<lparr>User.user_id = users_seq (tables_of db) + 1,
               User.device_id = UserCreate.device_id user_data,
               User.created_at = now 0, User.updated_at = now 1\<rparr>"
    from r1 have "register_device_on now user_data (tables_of db) = (out1, tables_of db_a)"
      by (simp add: register_device_eq)
    with register_device_on_new[OF nul len False, of now]
    have 1: "out1 = Inr (Response \<lparr>success = True, message = ''Device registered successfully'',
             data = Some [(''user_id'', PyInt (users_seq (tables_of db) + 1)),
                          (''device_id'', PyStr (UserCreate.device_id user_data))]\<rparr>)"
      and a: "tables_of db_a = (tables_of db)\<lparr>users_table := users db @ [?u],
                 users_seq := users_seq (tables_of db) + 1\<rparr>"
      by simp_all
    from a have ua: "users db_a = users db @ [?u]" by simp
    then have mem: "?u \<in> set (users db_a)" by simp
    have "User.device_id ?u = UserCreate.device_id user_data" by simp
    from second[OF mem this] 1 ua False show ?thesis by simp
  qed
qed

theorem register_twice_witness:
  "fst (register_device (clock_at 200) \<lparr>UserCreate.device_id = ''dev-9''\<rparr> empty_db) =
     Inr (Response \<lparr>success = True, message = ''Device registered successfully'',
             data = Some [(''user_id'', PyInt 1), (''device_id'', PyStr ''dev-9'')]\<rparr>) \<and>
   users (snd (register_device (clock_at 200) \<lparr>UserCreate.device_id = ''dev-9''\<rparr> empty_db)) =
     [\<lparr>User.user_id = 1, User.device_id = ''dev-9'',
       User.created_at = 200, User.updated_at = 201\<rparr>] \<and>
   register_device (clock_at 300) \<lparr>UserCreate.device_id = ''dev-9''\<rparr>
       (snd (register_device (clock_at 200) \<lparr>UserCreate.device_id = ''dev-9''\<rparr> empty_db)) =
     (Inr (Response \<lparr>success = True, message = ''Device already exists'',
             data = Some [(''user_id'', PyInt 1), (''device_id'', PyStr ''dev-9'')]\<rparr>),
      snd (register_device (clock_at 200) \<lparr>UserCreate.device_id = ''dev-9''\<rparr> empty_db))"
proof -
  let ?ud = "\<lparr>UserCreate.device_id = ''dev-9''\<rparr>"
  let ?r1 = "register_device (clock_at 200) ?ud empty_db"
  let ?r2 = "register_device (clock_at 300) ?ud (snd ?r1)"
  have nul: "\<not> contains_nul (UserCreate.device_id ?ud)" by (simp add: contains_nul_def)
  have len: "length (UserCreate.device_id ?ud) \<le> 255" by simp
  have fresh: "UserCreate.device_id ?ud \<notin> set (map User.device_id (users_table (tables_of empty_db)))"
    by (simp add: tables_of_empty_db empty_tables_def)
  have f1: "fst ?r1 = Inr (Response \<lparr>success = True, message = ''Device registered successfully'',
             data = Some [(''user_id'', PyInt 1), (''device_id'', PyStr ''dev-9'')]\<rparr>)"
    unfolding register_device_fst register_device_on_new[OF nul len fresh]
    by (simp add: tables_of_empty_db empty_tables_def)
  have s1: "users (snd ?r1) = [\<lparr>User.user_id = 1, User.device_id = ''dev-9'',
       User.created_at = 200, User.updated_at = 201\<rparr>]"
    unfolding register_device_tables register_device_on_new[OF nul len fresh]
    by (simp add: tables_of_empty_db empty_tables_def clock_at_def)
  have r1: "?r1 = (fst ?r1, snd ?r1)" by simp
  have r2: "?r2 = (fst ?r2, snd ?r2)" by simp
  from register_twice[OF nul len r1 r2] f1 have "fst ?r2 = Inr (Response \<lparr>success = True, message = ''Device already exists'',
             data = Some [(''user_id'', PyInt 1), (''device_id'', PyStr ''dev-9'')]\<rparr>)"
    and "snd ?r2 = snd ?r1"
    by auto
  with f1 s1 show ?thesis by (simp add: prod_eq_iff)
qed

section \<open>Validation of the register request\<close>

lemma user_with_device:
  assumes "\<not> contains_nul d" and "length d \<le> 255"
  shows "\<exists>uid m db'.
           register_device now \<lparr>UserCreate.device_id = d\<rparr> db =
             (Inr (Response \<lparr>success = True, message = m,
                     data = Some [(''user_id'', PyInt uid), (''device_id'', PyStr d)]\<rparr>), db') \<and>
           (\<exists>u\<in>set (users db'). User.device_id u = d \<and> User.user_id u = uid) \<and>
           (if d \<in> set (map User.device_id (users db))
            then m = ''Device already exists'' \<and> db' = db
            else m = ''Device registered successfully'' \<and>
                 length (users db') = length (users db) + 1)"
proof (cases "d \<in> set (map User.device_id (users db))")
  case True
  then obtain u where u: "u \<in> set (users db)" "User.device_id u = d" by auto
  from register_device_existing[OF u(1), of now] u True show ?thesis by auto
next
  case False
  let ?ud = "\<lparr>UserCreate.device_id = d\<rparr>"
  let ?u = "\<lparr>User.user_id = users_seq (tables_of db) + 1, User.device_id = d,
             User.created_at = now 0, User.updated_at = now 1\<rparr>"
  let ?r = "register_device now ?ud db"
  have nul: "\<not> contains_nul (UserCreate.device_id ?ud)" using assms by simp
  have len: "length (UserCreate.device_id ?ud) \<le> 255" using assms by simp
  have fresh: "UserCreate.device_id ?ud \<notin> set (map User.device_id (users db))" using False by simp
  have f: "fst ?r = Inr (Response \<lparr>success = True, message = ''Device registered successfully'',
             data = Some [(''user_id'', PyInt (users_seq (tables_of db) + 1)), (''device_id'', PyStr d)]\<rparr>)"
    unfolding register_device_fst register_device_on_new[OF nul len fresh] by simp
  have s: "users (snd ?r) = users db @ [?u]"
    unfolding register_device_tables register_device_on_new[OF nul len fresh] by simp
  have "?r = (fst ?r, snd ?r)" by simp
  with f have "?r = (Inr (Response \<lparr>success = True, message = ''Device registered successfully'',
             data = Some [(''user_id'', PyInt (users_seq (tables_of db) + 1)), (''device_id'', PyStr d)]\<rparr>), snd ?r)"
    by simp
  moreover have "\<exists>u\<in>set (users (snd ?r)). User.device_id u = d \<and> User.user_id u = users_seq (tables_of db) + 1"
    unfolding s by simp
  moreover have "length (users (snd ?r)) = length (users db) + 1" unfolding s by simp
  ultimately show ?thesis using False by auto
qed

text \<open>
  Claim C9 as stated fails for the empty string: the schema declares \<^verbatim>\<open>device_id: str\<close>
  with no constraint and the handler makes no check, so registering the empty string
  on the empty store succeeds and inserts a user whose device id is the empty string.
\<close>

theorem register_empty_device_id_counterexample:
  "fst (register_request (clock_at 200) (Some []) empty_db) =
     Inr (Response \<lparr>success = True, message = ''Device registered successfully'',
             data = Some [(''user_id'', PyInt 1), (''device_id'', PyStr [])]\<rparr>) \<and>
   users (snd (register_request (clock_at 200) (Some []) empty_db)) =
     [\<lparr>User.user_id = 1, User.device_id = [], User.created_at = 200, User.updated_at = 201\<rparr>]"
proof -
  let ?ud = "\<lparr>UserCreate.device_id = []\<rparr>"
  have nul: "\<not> contains_nul (UserCreate.device_id ?ud)" by (simp add: contains_nul_def)
  have len: "length (UserCreate.device_id ?ud) \<le> 255" by simp
  have fresh: "UserCreate.device_id ?ud \<notin> set (map User.device_id (users_table (tables_of empty_db)))"
    by (simp add: tables_of_empty_db empty_tables_def)
  have r: "register_request (clock_at 200) (Some []) empty_db = register_device (clock_at 200) ?ud empty_db"
    by (simp add: register_request_def validate_UserCreate_def)
  show ?thesis
    unfolding r register_device_fst register_device_tables register_device_on_new[OF nul len fresh]
    by (simp add: tables_of_empty_db empty_tables_def clock_at_def)
qed

text \<open>
  Claim C9, amended. A register request without \<^verbatim>\<open>device_id\<close> fails validation and the
  store is returned as it was, so no user is inserted. A request whose \<^verbatim>\<open>device_id\<close> is
  the empty string is not rejected: it returns a successful response, and afterwards
  the users table holds a row with the empty device id and the returned \<open>user_id\<close>;
  when the table held no such row before, the response says
  "Device registered successfully" and the table has grown by one row.
\<close>

theorem register_request_validation:
  "register_request now None db = (Inl RequestValidationError, db) \<and>
   (\<exists>uid m db'.
      register_request now (Some []) db =
        (Inr (Response \<lparr>success = True, message = m,
                data = Some [(''user_id'', PyInt uid), (''device_id'', PyStr [])]\<rparr>), db') \<and>
      (\<exists>u\<in>set (users db'). User.device_id u = [] \<and> User.user_id u = uid) \<and>
      (if [] \<in> set (map User.device_id (users db))
       then m = ''Device already exists'' \<and> db' = db
       else m = ''Device registered successfully'' \<and>
            length (users db') = length (users db) + 1))"
proof
  show "register_request now None db = (Inl RequestValidationError, db)"
    by (simp add: register_request_def validate_UserCreate_def)
next
  have r: "register_request now (Some []) db = register_device now \<lparr>UserCreate.device_id = []\<rparr> db"
    by (simp add: register_request_def validate_UserCreate_def)
  have "\<not> contains_nul []" by (simp add: contains_nul_def)
  from user_with_device[OF this, of now db] show "\<exists>uid m db'.
      register_request now (Some []) db =
        (Inr (Response \<lparr>success = True, message = m,
                data = Some [(''user_id'', PyInt uid), (''device_id'', PyStr [])]\<rparr>), db') \<and>
      (\<exists>u\<in>set (users db'). User.device_id u = [] \<and> User.user_id u = uid) \<and>
      (if [] \<in> set (map User.device_id (users db))
       then m = ''Device already exists'' \<and> db' = db
       else m = ''Device registered successfully'' \<and>
            length (users db') = length (users db) + 1)"
    unfolding r by simp
qed

theorem register_request_validation_witness:
  "register_request (clock_at 200) None db1 = (Inl RequestValidationError, db1) \<and>
   (\<exists>uid db'.
      register_request (clock_at 200) (Some []) db1 =
        (Inr (Response \<lparr>success = True, message = ''Device registered successfully'',
                data = Some [(''user_id'', PyInt uid), (''device_id'', PyStr [])]\<rparr>), db') \<and>
      length (users db') = 2)"
proof -
  have u: "map User.device_id (users db1) = [''dev-1'']" "length (users db1) = 1"
    by (simp_all add: tables_of_db1 tables1_def user1_def)
  from register_request_validation[of "clock_at 200" db1] show ?thesis
    unfolding u by auto
qed

section \<open>Update\<close>

lemma flushed_values:
  assumes "flush_entry now old (fold setattr (dict_exclude_unset ed) (load old)) = Inr row"
  shows "(if ''entry_date'' \<in> fields_set ed then DiaryEntryUpdate.entry_date ed
          else Some (DiaryEntry.entry_date old)) = Some (DiaryEntry.entry_date row)"
    and "(if ''mood_score'' \<in> fields_set ed then DiaryEntryUpdate.mood_score ed
          else Some (DiaryEntry.mood_score old)) = Some (DiaryEntry.mood_score row)"
    and "(if ''mood_percentage'' \<in> fields_set ed then DiaryEntryUpdate.mood_percentage ed
          else Some (DiaryEntry.mood_percentage old)) = Some (DiaryEntry.mood_percentage row)"
    and "DiaryEntry.activities row =
           (if ''activities'' \<in> fields_set ed then DiaryEntryUpdate.activities ed
            else DiaryEntry.activities old)"
    and "DiaryEntry.notes row =
           (if ''notes'' \<in> fields_set ed then DiaryEntryUpdate.notes ed
            else DiaryEntry.notes old)"
proof -
  note v = flush_entry_values[OF assms]
  show "(if ''entry_date'' \<in> fields_set ed then DiaryEntryUpdate.entry_date ed
          else Some (DiaryEntry.entry_date old)) = Some (DiaryEntry.entry_date row)"
    unfolding v(1) updated_entry_date by (simp add: load_def)
  show "(if ''mood_score'' \<in> fields_set ed then DiaryEntryUpdate.mood_score ed
          else Some (DiaryEntry.mood_score old)) = Some (DiaryEntry.mood_score row)"
    unfolding v(2) updated_mood_score by (simp add: load_def)
  show "(if ''mood_percentage'' \<in> fields_set ed then DiaryEntryUpdate.mood_percentage ed
          else Some (DiaryEntry.mood_percentage old)) = Some (DiaryEntry.mood_percentage row)"
    unfolding v(3) updated_mood_percentage by (simp add: load_def)
  show "DiaryEntry.activities row =
           (if ''activities'' \<in> fields_set ed then DiaryEntryUpdate.activities ed
            else DiaryEntry.activities old)"
    unfolding v(4) updated_activities by (simp add: load_def)
  show "DiaryEntry.notes row =
           (if ''notes'' \<in> fields_set ed then DiaryEntryUpdate.notes ed
            else DiaryEntry.notes old)"
    unfolding v(5) updated_notes by (simp add: load_def)
qed

text \<open>The fields a request does not give, in the row a flush writes.\<close>

lemma flushed_frame:
  assumes "flush_entry now old (fold setattr (dict_exclude_unset ed) (load old)) = Inr row"
  shows "(''entry_date'' \<notin> fields_set ed \<longrightarrow>
            DiaryEntry.entry_date row = DiaryEntry.entry_date old) \<and>
         (''mood_score'' \<notin> fields_set ed \<longrightarrow>
            DiaryEntry.mood_score row = DiaryEntry.mood_score old) \<and>
         (''mood_percentage'' \<notin> fields_set ed \<longrightarrow>
            DiaryEntry.mood_percentage row = DiaryEntry.mood_percentage old) \<and>
         (''activities'' \<notin> fields_set ed \<longrightarrow>
            DiaryEntry.activities row = DiaryEntry.activities old) \<and>
         (''notes'' \<notin> fields_set ed \<longrightarrow> DiaryEntry.notes row = DiaryEntry.notes old)"
proof (intro conjI impI)
  note v = flushed_values[OF assms]
  assume "''entry_date'' \<notin> fields_set ed"
  with v(1) show "DiaryEntry.entry_date row = DiaryEntry.entry_date old" by simp
next
  note v = flushed_values[OF assms]
  assume "''mood_score'' \<notin> fields_set ed"
  with v(2) show "DiaryEntry.mood_score row = DiaryEntry.mood_score old" by simp
next
  note v = flushed_values[OF assms]
  assume "''mood_percentage'' \<notin> fields_set ed"
  with v(3) show "DiaryEntry.mood_percentage row = DiaryEntry.mood_percentage old" by simp
next
  note v = flushed_values[OF assms]
  assume "''activities'' \<notin> fields_set ed"
  with v(4) show "DiaryEntry.activities row = DiaryEntry.activities old" by simp
next
  note v = flushed_values[OF assms]
  assume "''notes'' \<notin> fields_set ed"
  with v(5) show "DiaryEntry.notes row = DiaryEntry.notes old" by simp
qed

text \<open>The fields a request gives, in the row a flush writes.\<close>

lemma flushed_present:
  assumes "flush_entry now old (fold setattr (dict_exclude_unset ed) (load old)) = Inr row"
  shows "(''entry_date'' \<in> fields_set ed \<longrightarrow>
            DiaryEntryUpdate.entry_date ed = Some (DiaryEntry.entry_date row)) \<and>
         (''mood_score'' \<in> fields_set ed \<longrightarrow>
            DiaryEntryUpdate.mood_score ed = Some (DiaryEntry.mood_score row)) \<and>
         (''mood_percentage'' \<in> fields_set ed \<longrightarrow>
            DiaryEntryUpdate.mood_percentage ed = Some (DiaryEntry.mood_percentage row)) \<and>
         (''activities'' \<in> fields_set ed \<longrightarrow>
            DiaryEntry.activities row = DiaryEntryUpdate.activities ed) \<and>
         (''notes'' \<in> fields_set ed \<longrightarrow> DiaryEntry.notes row = DiaryEntryUpdate.notes ed)"
proof (intro conjI impI)
  note v = flushed_values[OF assms]
  assume "''entry_date'' \<in> fields_set ed"
  with v(1) show "DiaryEntryUpdate.entry_date ed = Some (DiaryEntry.entry_date row)" by simp
next
  note v = flushed_values[OF assms]
  assume "''mood_score'' \<in> fields_set ed"
  with v(2) show "DiaryEntryUpdate.mood_score ed = Some (DiaryEntry.mood_score row)" by simp
next
  note v = flushed_values[OF assms]
  assume "''mood_percentage'' \<in> fields_set ed"
  with v(3) show "DiaryEntryUpdate.mood_percentage ed = Some (DiaryEntry.mood_percentage row)" by simp
next
  note v = flushed_values[OF assms]
  assume "''activities'' \<in> fields_set ed"
  with v(4) show "DiaryEntry.activities row = DiaryEntryUpdate.activities ed" by simp
next
  note v = flushed_values[OF assms]
  assume "''notes'' \<in> fields_set ed"
  with v(5) show "DiaryEntry.notes row = DiaryEntryUpdate.notes ed" by simp
qed

text \<open>The update of the one entry of a registered device that has the path's uuid.\<close>

lemma update_diary_entry_found:
  assumes u: "u \<in> set (users db)" and d: "User.device_id u = d"
      and old: "old \<in> set (diary_entries db)"
      and own: "DiaryEntry.user_id old = User.user_id u"
      and id: "DiaryEntry.entry_uuid old = uuid"
      and only: "\<forall>e\<in>set (diary_entries db).
                   DiaryEntry.user_id e = User.user_id u \<and> DiaryEntry.entry_uuid e = uuid \<longrightarrow> e = old"
  shows "update_diary_entry_on now uuid ed d (tables_of db) =
           (case flush_entry now old (fold setattr (dict_exclude_unset ed) (load old)) of
              Inl e \<Rightarrow> (Inl (HTTPException 500 (Formatted ''Update failed: '' e)), tables_of db)
            | Inr row \<Rightarrow>
                (Inr (Response \<lparr>success = True,
                        message = ''Diary entry updated successfully'',
                        data = Some [(''entry_id'', PyInt (DiaryEntry.entry_id row)),
                                     (''entry_uuid'', PyStr (DiaryEntry.entry_uuid row))]\<rparr>),
                 (tables_of db)\<lparr>diary_entries_table :=
                      map (\<lambda>r. if r = old then row else r) (diary_entries db)\<rparr>))"
proof -
  from select_user_registered[OF u] d
  have su: "select_user (tables_of db) d = Inr (Some u)" by simp
  from only own id have only': "\<forall>e\<in>set (diary_entries db).
             DiaryEntry.user_id e = DiaryEntry.user_id old \<and>
             DiaryEntry.entry_uuid e = DiaryEntry.entry_uuid old \<longrightarrow> e = old"
    by simp
  from select_entry_only[OF old only'] own id
  have se: "select_entry (tables_of db) (User.user_id u) uuid = Inr (Some old)" by simp
  from tables_of_ok[of db] have pk: "distinct (map DiaryEntry.entry_id (diary_entries db))"
    by (simp add: store_ok_def)
  have rep: "\<And>row. map (\<lambda>r. if DiaryEntry.entry_id r = DiaryEntry.entry_id old then row else r)
                     (diary_entries db) =
                 map (\<lambda>r. if r = old then row else r) (diary_entries db)"
    by (rule replace_is_old[OF pk old])
  show ?thesis
    unfolding update_diary_entry_on_found[OF su se] rep ..
qed

lemma update_diary_entry_rejected:
  assumes u: "u \<in> set (users db)" and d: "User.device_id u = d"
      and old: "old \<in> set (diary_entries db)"
      and own: "DiaryEntry.user_id old = User.user_id u"
      and id: "DiaryEntry.entry_uuid old = uuid"
      and only: "\<forall>e\<in>set (diary_entries db).
                   DiaryEntry.user_id e = User.user_id u \<and> DiaryEntry.entry_uuid e = uuid \<longrightarrow> e = old"
      and fl: "flush_entry now old (fold setattr (dict_exclude_unset ed) (load old)) = Inl x"
  shows "update_diary_entry now uuid ed d db =
           (Inl (HTTPException 500 (Formatted ''Update failed: '' x)), db)"
proof -
  have "update_diary_entry_on now uuid ed d (tables_of db) =
          (Inl (HTTPException 500 (Formatted ''Update failed: '' x)), tables_of db)"
    unfolding update_diary_entry_found[OF u d old own id only] fl by simp
  then show ?thesis by (rule update_diary_entry_unchanged)
qed

lemma update_diary_entry_accepted:
  assumes u: "u \<in> set (users db)" and d: "User.device_id u = d"
      and old: "old \<in> set (diary_entries db)"
      and own: "DiaryEntry.user_id old = User.user_id u"
      and id: "DiaryEntry.entry_uuid old = uuid"
      and only: "\<forall>e\<in>set (diary_entries db).
                   DiaryEntry.user_id e = User.user_id u \<and> DiaryEntry.entry_uuid e = uuid \<longrightarrow> e = old"
      and fl: "flush_entry now old (fold setattr (dict_exclude_unset ed) (load old)) = Inr row"
  shows "fst (update_diary_entry now uuid ed d db) =
           Inr (Response \<lparr>success = True,
                  message = ''Diary entry updated successfully'',
                  data = Some [(''entry_id'', PyInt (DiaryEntry.entry_id old)),
                               (''entry_uuid'', PyStr uuid)]\<rparr>)"
    and "diary_entries (snd (update_diary_entry now uuid ed d db)) =
           map (\<lambda>r. if r = old then row else r) (diary_entries db)"
proof -
  note i = flushed_identity[OF fl]
  show "fst (update_diary_entry now uuid ed d db) =
           Inr (Response \<lparr>success = True,
                  message = ''Diary entry updated successfully'',
                  data = Some [(''entry_id'', PyInt (DiaryEntry.entry_id old)),
                               (''entry_uuid'', PyStr uuid)]\<rparr>)"
    unfolding update_diary_entry_fst update_diary_entry_found[OF u d old own id only] fl
    using i(1,3) id by simp
  show "diary_entries (snd (update_diary_entry now uuid ed d db)) =
           map (\<lambda>r. if r = old then row else r) (diary_entries db)"
    unfolding update_diary_entry_tables update_diary_entry_found[OF u d old own id only] fl
    by simp
qed

text \<open>Every row after an update, next to the row it was before.\<close>

lemma update_diary_entry_on_frame:
  assumes pk: "distinct (map DiaryEntry.entry_id (diary_entries_table t))"
  shows "list_all2 (\<lambda>new old.
            (''entry_date'' \<notin> fields_set ed \<longrightarrow>
               DiaryEntry.entry_date new = DiaryEntry.entry_date old) \<and>
            (''mood_score'' \<notin> fields_set ed \<longrightarrow>
               DiaryEntry.mood_score new = DiaryEntry.mood_score old) \<and>
            (''mood_percentage'' \<notin> fields_set ed \<longrightarrow>
               DiaryEntry.mood_percentage new = DiaryEntry.mood_percentage old) \<and>
            (''activities'' \<notin> fields_set ed \<longrightarrow>
               DiaryEntry.activities new = DiaryEntry.activities old) \<and>
            (''notes'' \<notin> fields_set ed \<longrightarrow> DiaryEntry.notes new = DiaryEntry.notes old))
          (diary_entries_table (snd (update_diary_entry_on now uuid ed d t)))
          (diary_entries_table t)"
  using update_diary_entry_on_cases[of now uuid ed d t]
proof (elim disjE exE conjE)
  fix c x assume "update_diary_entry_on now uuid ed d t = (Inl (HTTPException c x), t)"
  then show ?thesis by (simp add: list_all2_same)
next
  fix old row
  assume mem: "old \<in> set (diary_entries_table t)"
    and fl: "flush_entry now old (fold setattr (dict_exclude_unset ed) (load old)) = Inr row"
    and r: "update_diary_entry_on now uuid ed d t =
        (Inr (Response \<lparr>success = True,
                message = ''Diary entry updated successfully'',
                data = Some [(''entry_id'', PyInt (DiaryEntry.entry_id row)),
                             (''entry_uuid'', PyStr (DiaryEntry.entry_uuid row))]\<rparr>),
         t\<lparr>diary_entries_table :=
              map (\<lambda>r. if DiaryEntry.entry_id r = DiaryEntry.entry_id old then row else r)
                  (diary_entries_table t)\<rparr>)"
  have rep: "map (\<lambda>r. if DiaryEntry.entry_id r = DiaryEntry.entry_id old then row else r)
                  (diary_entries_table t) =
             map (\<lambda>r. if r = old then row else r) (diary_entries_table t)"
    by (rule replace_is_old[OF pk mem])
  note f = flushed_frame[OF fl]
  show ?thesis unfolding r rep using f
    by (simp add: list_all2_map1 list_all2_same)
qed

lemma dict_notes_only:
  "fields_set ed = {''notes''} \<Longrightarrow> dict_exclude_unset ed = [Notes (DiaryEntryUpdate.notes ed)]"
  by (simp add: dict_exclude_unset_def)

lemma flush_notes_only:
  assumes "fields_set ed = {''notes''}" and "text_param_ok (DiaryEntryUpdate.notes ed)"
      and "entry_row_ok old"
  shows "flush_entry now old (fold setattr (dict_exclude_unset ed) (load old)) =
           Inr (if DiaryEntryUpdate.notes ed = DiaryEntry.notes old then old
                else old\<lparr>DiaryEntry.notes := DiaryEntryUpdate.notes ed,
                         DiaryEntry.updated_at := now 0\<rparr>)"
proof (cases "DiaryEntryUpdate.notes ed = DiaryEntry.notes old")
  case True
  then have "fold setattr (dict_exclude_unset ed) (load old) = load old"
    unfolding dict_notes_only[OF assms(1)] by (simp add: load_def)
  with True show ?thesis by (simp add: flush_entry_unchanged)
next
  case False
  then have ne: "fold setattr (dict_exclude_unset ed) (load old) \<noteq> load old"
    unfolding dict_notes_only[OF assms(1)] by (auto simp: load_def)
  have obj: "fold setattr (dict_exclude_unset ed) (load old) =
               (load old)\<lparr>DiaryEntry_object.notes := DiaryEntryUpdate.notes ed\<rparr>"
    unfolding dict_notes_only[OF assms(1)] by simp
  from assms(3) have ok: "int4 (DiaryEntry.mood_score old)" "int4 (DiaryEntry.mood_percentage old)"
    "jsonb_ok (DiaryEntry.activities old)"
    by (simp_all add: entry_row_ok_def)
  have "flush_entry now old ((load old)\<lparr>DiaryEntry_object.notes := DiaryEntryUpdate.notes ed\<rparr>) =
          Inr (old\<lparr>DiaryEntry.notes := DiaryEntryUpdate.notes ed, DiaryEntry.updated_at := now 0\<rparr>)"
    using ne[unfolded obj] assms(2) ok
    by (cases old) (simp add: flush_entry_def load_def int4_opt_def)
  with False obj show ?thesis by simp
qed

text \<open>
  Claim C1 as stated fails for a value the store does not take: with only \<open>notes\<close>
  given, and its value a string with a NUL character, the commit raises, the handler
  answers 500 and \<open>notes\<close> keeps the value it had, not the new one.
\<close>

theorem update_notes_nul_counterexample:
  "update_diary_entry (clock_at 200) ''uuid-a'' (notes_only (Some nul_string)) ''dev-1'' db1 =
     (Inl (HTTPException 500 (Formatted ''Update failed: '' ValueError)), db1) \<and>
   diary_entries db1 = [entry1, entry2, entry3] \<and>
   DiaryEntry.notes entry1 = Some ''fine'' \<and>
   DiaryEntryUpdate.notes (notes_only (Some nul_string)) = Some nul_string \<and>
   Some ''fine'' \<noteq> Some nul_string"
proof -
  have su: "select_user (tables_of db1) ''dev-1'' = Inr (Some user1)"
    by (simp add: select_user_def contains_nul_def user_by_device_id_db1)
  have se: "select_entry (tables_of db1) (User.user_id user1) ''uuid-a'' = Inr (Some entry1)"
    by (simp add: select_entry_def contains_nul_def entry_by_uuid_on_def tables_of_db1 tables1_def
          user1_def entry1_def entry2_def entry3_def first_def)
  have nb: "\<not> text_param_ok (DiaryEntry_object.notes
              (fold setattr (dict_exclude_unset (notes_only (Some nul_string))) (load entry1)))"
    by (simp add: updated_notes notes_only_def text_param_ok_def contains_nul_nul_string)
  have ob: "text_param_ok (DiaryEntry.notes entry1)"
    by (simp add: entry1_def text_param_ok_def contains_nul_def)
  have "update_diary_entry_on (clock_at 200) ''uuid-a'' (notes_only (Some nul_string)) ''dev-1''
          (tables_of db1) =
        (Inl (HTTPException 500 (Formatted ''Update failed: '' ValueError)), tables_of db1)"
    unfolding update_diary_entry_on_found[OF su se] flush_entry_nul_notes[OF nb ob] by simp
  from update_diary_entry_unchanged[OF this] show ?thesis
    by (simp add: tables_of_db1 tables1_def entry1_def notes_only_def nul_string_def)
qed

text \<open>
  Claim C1, amended. After \<open>update_diary_entry\<close>, whatever the request and the
  outcome, every row of the entries table is the row that was at its place before with
  every one of the five fields whose name is not in the request's \<open>fields_set\<close>
  holding the value it had. Let further the device be the id of a row \<open>u\<close> of the users
  table, let \<open>old\<close> be the one row of the entries table with \<open>u\<close>'s id and the path's
  uuid, and let the request give only \<open>notes\<close>, with a value the store takes (null, or a
  string without a NUL character). Then the update succeeds, \<open>old\<close> is replaced by the row
  that differs from it in \<open>notes\<close>, which is the request's value, and in \<open>updated_at\<close>,
  which is read from the clock (a request that gives the value \<open>notes\<close> already has
  leaves the row as it is), and no other row changes. When instead the request gives
  \<open>notes\<close> as a string with a NUL character, the handler answers 500
  "Update failed: ..." and the store is unchanged.
\<close>

theorem update_keeps_absent_fields:
  assumes r: "update_diary_entry now uuid entry_data d db = (out, db')"
  shows "list_all2 (\<lambda>new old.
            (''entry_date'' \<notin> fields_set entry_data \<longrightarrow>
               DiaryEntry.entry_date new = DiaryEntry.entry_date old) \<and>
            (''mood_score'' \<notin> fields_set entry_data \<longrightarrow>
               DiaryEntry.mood_score new = DiaryEntry.mood_score old) \<and>
            (''mood_percentage'' \<notin> fields_set entry_data \<longrightarrow>
               DiaryEntry.mood_percentage new = DiaryEntry.mood_percentage old) \<and>
            (''activities'' \<notin> fields_set entry_data \<longrightarrow>
               DiaryEntry.activities new = DiaryEntry.activities old) \<and>
            (''notes'' \<notin> fields_set entry_data \<longrightarrow>
               DiaryEntry.notes new = DiaryEntry.notes old))
          (diary_entries db') (diary_entries db) \<and>
         (\<forall>u\<in>set (users db). \<forall>old\<in>set (diary_entries db).
            User.device_id u = d \<and>
            DiaryEntry.user_id old = User.user_id u \<and> DiaryEntry.entry_uuid old = uuid \<and>
            (\<forall>e\<in>set (diary_entries db).
               DiaryEntry.user_id e = User.user_id u \<and> DiaryEntry.entry_uuid e = uuid \<longrightarrow> e = old) \<and>
            fields_set entry_data = {''notes''} \<and>
            text_param_ok (DiaryEntryUpdate.notes entry_data) \<longrightarrow>
              out = Inr (Response \<lparr>success = True,
                      message = ''Diary entry updated successfully'',
                      data = Some [(''entry_id'', PyInt (DiaryEntry.entry_id old)),
                                   (''entry_uuid'', PyStr uuid)]\<rparr>) \<and>
              diary_entries db' =
                map (\<lambda>r. if r = old
                          then (if DiaryEntryUpdate.notes entry_data = DiaryEntry.notes old then old
                                else old\<lparr>DiaryEntry.notes := DiaryEntryUpdate.notes entry_data,
                                         DiaryEntry.updated_at := now 0\<rparr>)
                          else r)
                    (diary_entries db)) \<and>
         (\<forall>u\<in>set (users db). \<forall>old\<in>set (diary_entries db).
            User.device_id u = d \<and>
            DiaryEntry.user_id old = User.user_id u \<and> DiaryEntry.entry_uuid old = uuid \<and>
            (\<forall>e\<in>set (diary_entries db).
               DiaryEntry.user_id e = User.user_id u \<and> DiaryEntry.entry_uuid e = uuid \<longrightarrow> e = old) \<and>
            ''notes'' \<in> fields_set entry_data \<and>
            \<not> text_param_ok (DiaryEntryUpdate.notes entry_data) \<longrightarrow>
              out = Inl (HTTPException 500 (Formatted ''Update failed: '' ValueError)) \<and>
              db' = db)"
proof (intro conjI ballI impI; (elim conjE)?)
  from r have s: "snd (update_diary_entry now uuid entry_data d db) = db'" by simp
  from tables_of_ok[of db] have pk: "distinct (map DiaryEntry.entry_id (diary_entries db))"
    by (simp add: store_ok_def)
  from update_diary_entry_on_frame[OF pk, of entry_data now uuid d]
  show "list_all2 (\<lambda>new old.
            (''entry_date'' \<notin> fields_set entry_data \<longrightarrow>
               DiaryEntry.entry_date new = DiaryEntry.entry_date old) \<and>
            (''mood_score'' \<notin> fields_set entry_data \<longrightarrow>
               DiaryEntry.mood_score new = DiaryEntry.mood_score old) \<and>
            (''mood_percentage'' \<notin> fields_set entry_data \<longrightarrow>
               DiaryEntry.mood_percentage new = DiaryEntry.mood_percentage old) \<and>
            (''activities'' \<notin> fields_set entry_data \<longrightarrow>
               DiaryEntry.activities new = DiaryEntry.activities old) \<and>
            (''notes'' \<notin> fields_set entry_data \<longrightarrow>
               DiaryEntry.notes new = DiaryEntry.notes old))
          (diary_entries db') (diary_entries db)"
    unfolding update_diary_entry_tables[symmetric] s .
next
  fix u old
  assume u: "u \<in> set (users db)" and old: "old \<in> set (diary_entries db)"
    and d: "User.device_id u = d"
    and own: "DiaryEntry.user_id old = User.user_id u"
    and id: "DiaryEntry.entry_uuid old = uuid"
    and only: "\<forall>e\<in>set (diary_entries db).
               DiaryEntry.user_id e = User.user_id u \<and> DiaryEntry.entry_uuid e = uuid \<longrightarrow> e = old"
    and fs: "fields_set entry_data = {''notes''}"
    and tp: "text_param_ok (DiaryEntryUpdate.notes entry_data)"
  note fl = flush_notes_only[OF fs tp store_ok_entry(1)[OF tables_of_ok old], of now]
  note a = update_diary_entry_accepted[OF u d old own id only fl]
  from a(1) r show "out = Inr (Response \<lparr>success = True,
                      message = ''Diary entry updated successfully'',
                      data = Some [(''entry_id'', PyInt (DiaryEntry.entry_id old)),
                                   (''entry_uuid'', PyStr uuid)]\<rparr>)"
    by simp
  from a(2) r show "diary_entries db' =
                map (\<lambda>r. if r = old
                          then (if DiaryEntryUpdate.notes entry_data = DiaryEntry.notes old then old
                                else old\<lparr>DiaryEntry.notes := DiaryEntryUpdate.notes entry_data,
                                         DiaryEntry.updated_at := now 0\<rparr>)
                          else r)
                    (diary_entries db)"
    by simp
next
  fix u old
  assume u: "u \<in> set (users db)" and old: "old \<in> set (diary_entries db)"
    and d: "User.device_id u = d"
    and own: "DiaryEntry.user_id old = User.user_id u"
    and id: "DiaryEntry.entry_uuid old = uuid"
    and only: "\<forall>e\<in>set (diary_entries db).
               DiaryEntry.user_id e = User.user_id u \<and> DiaryEntry.entry_uuid e = uuid \<longrightarrow> e = old"
    and fs: "''notes'' \<in> fields_set entry_data"
    and tp: "\<not> text_param_ok (DiaryEntryUpdate.notes entry_data)"
  from fs tp have nb: "\<not> text_param_ok (DiaryEntry_object.notes
        (fold setattr (dict_exclude_unset entry_data) (load old)))"
    by (simp add: updated_notes)
  from store_ok_entry(1)[OF tables_of_ok old] have ob: "text_param_ok (DiaryEntry.notes old)"
    by (simp add: entry_row_ok_def)
  note rej = update_diary_entry_rejected[OF u d old own id only
      flush_entry_nul_notes[OF nb ob, of now]]
  from rej r show "out = Inl (HTTPException 500 (Formatted ''Update failed: '' ValueError))"
    by simp
  from rej r show "db' = db" by simp
qed

theorem update_keeps_absent_fields_witness:
  "fst (update_diary_entry (clock_at 200) ''uuid-a'' (notes_only (Some ''better'')) ''dev-2'' db2) =
     Inr (Response \<lparr>success = True, message = ''Diary entry updated successfully'',
            data = Some [(''entry_id'', PyInt 3), (''entry_uuid'', PyStr ''uuid-a'')]\<rparr>) \<and>
   diary_entries
     (snd (update_diary_entry (clock_at 200) ''uuid-a'' (notes_only (Some ''better'')) ''dev-2'' db2)) =
     [entry1, entry2,
      entry5\<lparr>DiaryEntry.notes := Some ''better'', DiaryEntry.updated_at := 200\<rparr>, entry4] \<and>
   list_all2 (\<lambda>new old.
        DiaryEntry.entry_date new = DiaryEntry.entry_date old \<and>
        DiaryEntry.mood_score new = DiaryEntry.mood_score old \<and>
        DiaryEntry.mood_percentage new = DiaryEntry.mood_percentage old \<and>
        DiaryEntry.activities new = DiaryEntry.activities old)
     (diary_entries
        (snd (update_diary_entry (clock_at 200) ''uuid-a'' (notes_only (Some ''better'')) ''dev-2'' db2)))
     [entry1, entry2, entry5, entry4] \<and>
   update_diary_entry (clock_at 200) ''uuid-a'' (notes_only (Some nul_string)) ''dev-2'' db2 =
     (Inl (HTTPException 500 (Formatted ''Update failed: '' ValueError)), db2)"
proof -
  let ?ed = "notes_only (Some ''better'')"
  let ?r = "update_diary_entry (clock_at 200) ''uuid-a'' ?ed ''dev-2'' db2"
  have r: "?r = (fst ?r, snd ?r)" by simp
  note t = update_keeps_absent_fields[OF r]
  have fs: "fields_set ?ed = {''notes''}" by (simp add: notes_only_def)
  have u: "user2 \<in> set (users db2)" by (simp add: rows_db2)
  have old: "entry5 \<in> set (diary_entries db2)" by (simp add: rows_db2)
  have p: "User.device_id user2 = ''dev-2'' \<and>
            DiaryEntry.user_id entry5 = User.user_id user2 \<and> DiaryEntry.entry_uuid entry5 = ''uuid-a'' \<and>
            (\<forall>e\<in>set (diary_entries db2).
               DiaryEntry.user_id e = User.user_id user2 \<and> DiaryEntry.entry_uuid e = ''uuid-a'' \<longrightarrow> e = entry5) \<and>
            fields_set ?ed = {''notes''} \<and>
            text_param_ok (DiaryEntryUpdate.notes ?ed)"
    unfolding rows_db2
    by (simp add: user2_def entry1_def entry2_def entry4_def entry5_def notes_only_def
          text_param_ok_def contains_nul_def)
  from t have "list_all2 (\<lambda>new old.
            (''entry_date'' \<notin> fields_set ?ed \<longrightarrow>
               DiaryEntry.entry_date new = DiaryEntry.entry_date old) \<and>
            (''mood_score'' \<notin> fields_set ?ed \<longrightarrow>
               DiaryEntry.mood_score new = DiaryEntry.mood_score old) \<and>
            (''mood_percentage'' \<notin> fields_set ?ed \<longrightarrow>
               DiaryEntry.mood_percentage new = DiaryEntry.mood_percentage old) \<and>
            (''activities'' \<notin> fields_set ?ed \<longrightarrow>
               DiaryEntry.activities new = DiaryEntry.activities old) \<and>
            (''notes'' \<notin> fields_set ?ed \<longrightarrow>
               DiaryEntry.notes new = DiaryEntry.notes old))
          (diary_entries (snd ?r)) (diary_entries db2)"
    by (rule conjunct1)
  then have 3: "list_all2 (\<lambda>new old.
        DiaryEntry.entry_date new = DiaryEntry.entry_date old \<and>
        DiaryEntry.mood_score new = DiaryEntry.mood_score old \<and>
        DiaryEntry.mood_percentage new = DiaryEntry.mood_percentage old \<and>
        DiaryEntry.activities new = DiaryEntry.activities old)
     (diary_entries (snd ?r)) [entry1, entry2, entry5, entry4]"
    unfolding fs rows_db2 by simp
  from t have B: "\<forall>u\<in>set (users db2). \<forall>old\<in>set (diary_entries db2).
            User.device_id u = ''dev-2'' \<and>
            DiaryEntry.user_id old = User.user_id u \<and> DiaryEntry.entry_uuid old = ''uuid-a'' \<and>
            (\<forall>e\<in>set (diary_entries db2).
               DiaryEntry.user_id e = User.user_id u \<and> DiaryEntry.entry_uuid e = ''uuid-a'' \<longrightarrow> e = old) \<and>
            fields_set ?ed = {''notes''} \<and>
            text_param_ok (DiaryEntryUpdate.notes ?ed) \<longrightarrow>
              fst ?r = Inr (Response \<lparr>success = True,
                      message = ''Diary entry updated successfully'',
                      data = Some [(''entry_id'', PyInt (DiaryEntry.entry_id old)),
                                   (''entry_uuid'', PyStr ''uuid-a'')]\<rparr>) \<and>
              diary_entries (snd ?r) =
                map (\<lambda>r. if r = old
                          then (if DiaryEntryUpdate.notes ?ed = DiaryEntry.notes old then old
                                else old\<lparr>DiaryEntry.notes := DiaryEntryUpdate.notes ?ed,
                                         DiaryEntry.updated_at := clock_at 200 0\<rparr>)
                          else r)
                    (diary_entries db2)"
    by (rule conjunct2[THEN conjunct1])
  have 12: "fst ?r = Inr (Response \<lparr>success = True,
                      message = ''Diary entry updated successfully'',
                      data = Some [(''entry_id'', PyInt (DiaryEntry.entry_id entry5)),
                                   (''entry_uuid'', PyStr ''uuid-a'')]\<rparr>) \<and>
              diary_entries (snd ?r) =
                map (\<lambda>r. if r = entry5
                          then (if DiaryEntryUpdate.notes ?ed = DiaryEntry.notes entry5 then entry5
                                else entry5\<lparr>DiaryEntry.notes := DiaryEntryUpdate.notes ?ed,
                                         DiaryEntry.updated_at := clock_at 200 0\<rparr>)
                          else r)
                    (diary_entries db2)"
    by (rule B[rule_format, OF u old p])
  have e: "DiaryEntry.entry_id entry5 = 3" "DiaryEntryUpdate.notes ?ed = Some ''better''"
    "DiaryEntry.notes entry5 = Some ''other''" "clock_at 200 0 = 200"
    "entry1 \<noteq> entry5" "entry2 \<noteq> entry5" "entry4 \<noteq> entry5"
    by (simp_all add: entry1_def entry2_def entry4_def entry5_def notes_only_def clock_at_def)
  from 12 have 1: "fst ?r = Inr (Response \<lparr>success = True, message = ''Diary entry updated successfully'',
            data = Some [(''entry_id'', PyInt 3), (''entry_uuid'', PyStr ''uuid-a'')]\<rparr>)"
    unfolding e by (rule conjunct1)
  from 12 have 2: "diary_entries (snd ?r) = [entry1, entry2,
      entry5\<lparr>DiaryEntry.notes := Some ''better'', DiaryEntry.updated_at := 200\<rparr>, entry4]"
    unfolding rows_db2 by (simp add: e)
  let ?en = "notes_only (Some nul_string)"
  let ?rn = "update_diary_entry (clock_at 200) ''uuid-a'' ?en ''dev-2'' db2"
  have rn: "?rn = (fst ?rn, snd ?rn)" by simp
  have pn: "User.device_id user2 = ''dev-2'' \<and>
            DiaryEntry.user_id entry5 = User.user_id user2 \<and> DiaryEntry.entry_uuid entry5 = ''uuid-a'' \<and>
            (\<forall>e\<in>set (diary_entries db2).
               DiaryEntry.user_id e = User.user_id user2 \<and> DiaryEntry.entry_uuid e = ''uuid-a'' \<longrightarrow> e = entry5) \<and>
            ''notes'' \<in> fields_set ?en \<and>
            \<not> text_param_ok (DiaryEntryUpdate.notes ?en)"
    unfolding rows_db2
    by (simp add: user2_def entry1_def entry2_def entry4_def entry5_def notes_only_def
          text_param_ok_def contains_nul_nul_string)
  note tn = update_keeps_absent_fields[OF rn, THEN conjunct2, THEN conjunct2, rule_format,
      OF u old pn]
  from tn have 4: "?rn = (Inl (HTTPException 500 (Formatted ''Update failed: '' ValueError)), db2)"
    by (simp add: prod_eq_iff)
  from 1 2 3 4 show ?thesis by (intro conjI)
qed

text \<open>
  Claim C7. On a store whose \<open>entry_id\<close> is a primary key (as it is in every store
  the handlers can reach from the empty one), \<open>update_diary_entry\<close> leaves the
  \<open>entry_id\<close>, \<open>user_id\<close>, \<open>entry_uuid\<close> and \<open>created_at\<close> of every entry as
  they were, whatever the request, and does not touch the users table: the items of the
  update dictionary are drawn from the five content fields only.
\<close>

theorem update_preserves_identity:
  assumes pk: "distinct (map DiaryEntry.entry_id (diary_entries db))"
      and r: "update_diary_entry now uuid entry_data d db = (out, db')"
  shows "map DiaryEntry.entry_id (diary_entries db') = map DiaryEntry.entry_id (diary_entries db) \<and>
         map DiaryEntry.user_id (diary_entries db') = map DiaryEntry.user_id (diary_entries db) \<and>
         map DiaryEntry.entry_uuid (diary_entries db') = map DiaryEntry.entry_uuid (diary_entries db) \<and>
         map DiaryEntry.created_at (diary_entries db') = map DiaryEntry.created_at (diary_entries db) \<and>
         users db' = users db"
proof -
  from r have "snd (update_diary_entry now uuid entry_data d db) = db'" by simp
  then have "tables_of db' = snd (update_diary_entry_on now uuid entry_data d (tables_of db))"
    using update_diary_entry_tables[of now uuid entry_data d db] by simp
  with update_diary_entry_on_rows[OF pk, of now uuid entry_data d] show ?thesis by simp
qed

theorem update_preserves_identity_witness:
  "map DiaryEntry.entry_id
     (diary_entries (snd (update_diary_entry (clock_at 200) ''uuid-a'' (notes_only (Some ''better'')) ''dev-1'' db1)))
     = [1, 2, 3] \<and>
   map DiaryEntry.user_id
     (diary_entries (snd (update_diary_entry (clock_at 200) ''uuid-a'' (notes_only (Some ''better'')) ''dev-1'' db1)))
     = [1, 1, 1] \<and>
   map DiaryEntry.entry_uuid
     (diary_entries (snd (update_diary_entry (clock_at 200) ''uuid-a'' (notes_only (Some ''better'')) ''dev-1'' db1)))
     = [''uuid-a'', ''uuid-b'', ''uuid-c''] \<and>
   map DiaryEntry.created_at
     (diary_entries (snd (update_diary_entry (clock_at 200) ''uuid-a'' (notes_only (Some ''better'')) ''dev-1'' db1)))
     = [110, 120, 130] \<and>
   users (snd (update_diary_entry (clock_at 200) ''uuid-a'' (notes_only (Some ''better'')) ''dev-1'' db1)) = [user1]"
proof -
  have pk: "distinct (map DiaryEntry.entry_id (diary_entries db1))"
    by (simp add: rows_db1 entry1_def entry2_def entry3_def)
  have r: "update_diary_entry (clock_at 200) ''uuid-a'' (notes_only (Some ''better'')) ''dev-1'' db1 =
             (fst (update_diary_entry (clock_at 200) ''uuid-a'' (notes_only (Some ''better'')) ''dev-1'' db1),
              snd (update_diary_entry (clock_at 200) ''uuid-a'' (notes_only (Some ''better'')) ''dev-1'' db1))"
    by simp
  from update_preserves_identity[OF pk r]
  show ?thesis by (simp add: rows_db1 entry1_def entry2_def entry3_def)
qed

lemma flush_null_refused:
  assumes "null_in_required_column ed"
  shows "\<exists>x. flush_entry now old (fold setattr (dict_exclude_unset ed) (load old)) = Inl x"
proof (rule flush_entry_null)
  from assms show
    "DiaryEntry_object.entry_date (fold setattr (dict_exclude_unset ed) (load old)) = None \<or>
     DiaryEntry_object.mood_score (fold setattr (dict_exclude_unset ed) (load old)) = None \<or>
     DiaryEntry_object.mood_percentage (fold setattr (dict_exclude_unset ed) (load old)) = None"
    unfolding updated_entry_date updated_mood_score updated_mood_percentage
      null_in_required_column_def
    by auto
qed

lemma flush_taken:
  assumes nn: "\<not> null_in_required_column ed"
      and n: "''notes'' \<in> fields_set ed \<longrightarrow> text_param_ok (DiaryEntryUpdate.notes ed)"
      and s: "''mood_score'' \<in> fields_set ed \<longrightarrow> int4_opt (DiaryEntryUpdate.mood_score ed)"
      and p: "''mood_percentage'' \<in> fields_set ed \<longrightarrow> int4_opt (DiaryEntryUpdate.mood_percentage ed)"
      and a: "''activities'' \<in> fields_set ed \<longrightarrow> jsonb_ok (DiaryEntryUpdate.activities ed)"
      and ok: "entry_row_ok old"
  shows "\<exists>row. flush_entry now old (fold setattr (dict_exclude_unset ed) (load old)) = Inr row"
proof (rule flush_entry_taken)
  from ok have o: "text_param_ok (DiaryEntry.notes old)" "int4 (DiaryEntry.mood_score old)"
    "int4 (DiaryEntry.mood_percentage old)" "jsonb_ok (DiaryEntry.activities old)"
    by (simp_all add: entry_row_ok_def)
  show "text_param_ok (DiaryEntry_object.notes (fold setattr (dict_exclude_unset ed) (load old)))"
    unfolding updated_notes using n o(1) by (simp add: load_def)
  show "int4_opt (DiaryEntry_object.mood_score (fold setattr (dict_exclude_unset ed) (load old)))"
    unfolding updated_mood_score using s o(2) by (simp add: load_def int4_opt_def)
  show "int4_opt (DiaryEntry_object.mood_percentage (fold setattr (dict_exclude_unset ed) (load old)))"
    unfolding updated_mood_percentage using p o(3) by (simp add: load_def int4_opt_def)
  show "jsonb_ok (DiaryEntry_object.activities (fold setattr (dict_exclude_unset ed) (load old)))"
    unfolding updated_activities using a o(4) by (simp add: load_def)
  show "DiaryEntry_object.entry_date (fold setattr (dict_exclude_unset ed) (load old)) \<noteq> None"
    unfolding updated_entry_date using nn by (simp add: load_def null_in_required_column_def)
  show "DiaryEntry_object.mood_score (fold setattr (dict_exclude_unset ed) (load old)) \<noteq> None"
    unfolding updated_mood_score using nn by (simp add: load_def null_in_required_column_def)
  show "DiaryEntry_object.mood_percentage (fold setattr (dict_exclude_unset ed) (load old)) \<noteq> None"
    unfolding updated_mood_percentage using nn by (simp add: load_def null_in_required_column_def)
qed

lemma update_mood_score_null_example:
  "update_diary_entry (clock_at 200) ''uuid-a'' mood_score_null ''dev-1'' db1 =
     (Inl (HTTPException 500 (Formatted ''Update failed: '' IntegrityError)), db1)"
proof -
  have u1: "user1 \<in> set (users db1)" by (simp add: rows_db1)
  have d1: "User.device_id user1 = ''dev-1''" by (simp add: user1_def)
  have o1: "entry1 \<in> set (diary_entries db1)" by (simp add: rows_db1)
  have own1: "DiaryEntry.user_id entry1 = User.user_id user1" by (simp add: entry1_def user1_def)
  have id1: "DiaryEntry.entry_uuid entry1 = ''uuid-a''" by (simp add: entry1_def)
  have only1: "\<forall>e\<in>set (diary_entries db1).
                 DiaryEntry.user_id e = User.user_id user1 \<and> DiaryEntry.entry_uuid e = ''uuid-a'' \<longrightarrow>
                 e = entry1"
    unfolding rows_db1 by (simp add: user1_def entry1_def entry2_def entry3_def)
  have fl: "flush_entry (clock_at 200) entry1
              (fold setattr (dict_exclude_unset mood_score_null) (load entry1)) = Inl IntegrityError"
  proof (rule flush_entry_null_only)
    show "DiaryEntry_object.entry_date (fold setattr (dict_exclude_unset mood_score_null) (load entry1)) = None \<or>
          DiaryEntry_object.mood_score (fold setattr (dict_exclude_unset mood_score_null) (load entry1)) = None \<or>
          DiaryEntry_object.mood_percentage (fold setattr (dict_exclude_unset mood_score_null) (load entry1)) = None"
      unfolding updated_mood_score by (simp add: mood_score_null_def)
    show "text_param_ok (DiaryEntry_object.notes (fold setattr (dict_exclude_unset mood_score_null) (load entry1)))"
      unfolding updated_notes
      by (simp add: mood_score_null_def load_def entry1_def text_param_ok_def contains_nul_def)
    show "int4_opt (DiaryEntry_object.mood_score (fold setattr (dict_exclude_unset mood_score_null) (load entry1)))"
      unfolding updated_mood_score by (simp add: mood_score_null_def int4_opt_def)
    show "int4_opt (DiaryEntry_object.mood_percentage (fold setattr (dict_exclude_unset mood_score_null) (load entry1)))"
      unfolding updated_mood_percentage
      by (simp add: mood_score_null_def load_def entry1_def int4_opt_def int4_def)
    show "jsonb_ok (DiaryEntry_object.activities (fold setattr (dict_exclude_unset mood_score_null) (load entry1)))"
      unfolding updated_activities
      by (simp add: mood_score_null_def load_def entry1_def jsonb_ok_def contains_nul_def)
  qed
  show ?thesis by (rule update_diary_entry_rejected[OF u1 d1 o1 own1 id1 only1 fl])
qed

text \<open>
  Claim C10. Let the device be the id of a row \<open>u\<close> of the users table and \<open>old\<close> the
  one row of the entries table with \<open>u\<close>'s id and the path's uuid. A field that the
  request gives explicitly is assigned to the loaded entry with the request's value,
  \<^verbatim>\<open>None\<close> included. When a \<^verbatim>\<open>nullable=False\<close> column is given \<^verbatim>\<open>None\<close>, the assignment
  is made and the failure is the store's: the commit raises, the handler answers 500
  "Update failed: ..." and the store is unchanged. Every outcome is either such a 500
  with the store unchanged, or a success after which \<open>old\<close> is replaced by a row that
  holds the request's value in every field the request gives, so a field given as null
  is null afterwards. The update succeeds when no \<^verbatim>\<open>nullable=False\<close> column is given
  \<^verbatim>\<open>None\<close> and every given value is one its column takes. In particular the request
  \<^verbatim>\<open>{"notes": null}\<close> succeeds and clears \<open>notes\<close>.
\<close>

theorem update_null_is_assigned:
  assumes u: "u \<in> set (users db)" and d: "User.device_id u = d"
      and old: "old \<in> set (diary_entries db)"
      and own: "DiaryEntry.user_id old = User.user_id u"
      and id: "DiaryEntry.entry_uuid old = uuid"
      and only: "\<forall>e\<in>set (diary_entries db).
                   DiaryEntry.user_id e = User.user_id u \<and> DiaryEntry.entry_uuid e = uuid \<longrightarrow> e = old"
  shows
    "(''entry_date'' \<in> fields_set ed \<longrightarrow>
        DiaryEntry_object.entry_date (fold setattr (dict_exclude_unset ed) (load old))
          = DiaryEntryUpdate.entry_date ed) \<and>
     (''mood_score'' \<in> fields_set ed \<longrightarrow>
        DiaryEntry_object.mood_score (fold setattr (dict_exclude_unset ed) (load old))
          = DiaryEntryUpdate.mood_score ed) \<and>
     (''mood_percentage'' \<in> fields_set ed \<longrightarrow>
        DiaryEntry_object.mood_percentage (fold setattr (dict_exclude_unset ed) (load old))
          = DiaryEntryUpdate.mood_percentage ed) \<and>
     (''activities'' \<in> fields_set ed \<longrightarrow>
        DiaryEntry_object.activities (fold setattr (dict_exclude_unset ed) (load old))
          = DiaryEntryUpdate.activities ed) \<and>
     (''notes'' \<in> fields_set ed \<longrightarrow>
        DiaryEntry_object.notes (fold setattr (dict_exclude_unset ed) (load old))
          = DiaryEntryUpdate.notes ed) \<and>
     (null_in_required_column ed \<longrightarrow>
        (\<exists>x. update_diary_entry now uuid ed d db =
               (Inl (HTTPException 500 (Formatted ''Update failed: '' x)), db))) \<and>
     (\<forall>out db'. update_diary_entry now uuid ed d db = (out, db') \<longrightarrow>
        (\<exists>x. out = Inl (HTTPException 500 (Formatted ''Update failed: '' x)) \<and> db' = db) \<or>
        (\<exists>new.
           out = Inr (Response \<lparr>success = True,
                   message = ''Diary entry updated successfully'',
                   data = Some [(''entry_id'', PyInt (DiaryEntry.entry_id old)),
                                (''entry_uuid'', PyStr uuid)]\<rparr>) \<and>
           diary_entries db' = map (\<lambda>r. if r = old then new else r) (diary_entries db) \<and>
           (''entry_date'' \<in> fields_set ed \<longrightarrow>
              DiaryEntryUpdate.entry_date ed = Some (DiaryEntry.entry_date new)) \<and>
           (''mood_score'' \<in> fields_set ed \<longrightarrow>
              DiaryEntryUpdate.mood_score ed = Some (DiaryEntry.mood_score new)) \<and>
           (''mood_percentage'' \<in> fields_set ed \<longrightarrow>
              DiaryEntryUpdate.mood_percentage ed = Some (DiaryEntry.mood_percentage new)) \<and>
           (''activities'' \<in> fields_set ed \<longrightarrow>
              DiaryEntry.activities new = DiaryEntryUpdate.activities ed) \<and>
           (''notes'' \<in> fields_set ed \<longrightarrow>
              DiaryEntry.notes new = DiaryEntryUpdate.notes ed))) \<and>
     (\<not> null_in_required_column ed \<and>
      (''notes'' \<in> fields_set ed \<longrightarrow> text_param_ok (DiaryEntryUpdate.notes ed)) \<and>
      (''mood_score'' \<in> fields_set ed \<longrightarrow> int4_opt (DiaryEntryUpdate.mood_score ed)) \<and>
      (''mood_percentage'' \<in> fields_set ed \<longrightarrow> int4_opt (DiaryEntryUpdate.mood_percentage ed)) \<and>
      (''activities'' \<in> fields_set ed \<longrightarrow> jsonb_ok (DiaryEntryUpdate.activities ed)) \<longrightarrow>
        (\<exists>resp db'. update_diary_entry now uuid ed d db = (Inr (Response resp), db'))) \<and>
     (fields_set ed = {''notes''} \<and> DiaryEntryUpdate.notes ed = None \<longrightarrow>
        (\<exists>resp db'.
           update_diary_entry now uuid ed d db = (Inr (Response resp), db') \<and>
           diary_entries db' =
             map (\<lambda>r. if r = old
                       then (if DiaryEntry.notes old = None then old
                             else old\<lparr>DiaryEntry.notes := None, DiaryEntry.updated_at := now 0\<rparr>)
                       else r)
                 (diary_entries db)))"
proof (intro conjI)
  show "''entry_date'' \<in> fields_set ed \<longrightarrow>
        DiaryEntry_object.entry_date (fold setattr (dict_exclude_unset ed) (load old))
          = DiaryEntryUpdate.entry_date ed"
    by (simp add: updated_entry_date)
  show "''mood_score'' \<in> fields_set ed \<longrightarrow>
        DiaryEntry_object.mood_score (fold setattr (dict_exclude_unset ed) (load old))
          = DiaryEntryUpdate.mood_score ed"
    by (simp add: updated_mood_score)
  show "''mood_percentage'' \<in> fields_set ed \<longrightarrow>
        DiaryEntry_object.mood_percentage (fold setattr (dict_exclude_unset ed) (load old))
          = DiaryEntryUpdate.mood_percentage ed"
    by (simp add: updated_mood_percentage)
  show "''activities'' \<in> fields_set ed \<longrightarrow>
        DiaryEntry_object.activities (fold setattr (dict_exclude_unset ed) (load old))
          = DiaryEntryUpdate.activities ed"
    by (simp add: updated_activities)
  show "''notes'' \<in> fields_set ed \<longrightarrow>
        DiaryEntry_object.notes (fold setattr (dict_exclude_unset ed) (load old))
          = DiaryEntryUpdate.notes ed"
    by (simp add: updated_notes)
  show "null_in_required_column ed \<longrightarrow>
        (\<exists>x. update_diary_entry now uuid ed d db =
               (Inl (HTTPException 500 (Formatted ''Update failed: '' x)), db))"
  proof
    assume "null_in_required_column ed"
    from flush_null_refused[OF this, of now old] obtain x where
      fl: "flush_entry now old (fold setattr (dict_exclude_unset ed) (load old)) = Inl x" ..
    from update_diary_entry_rejected[OF u d old own id only fl]
    show "\<exists>x. update_diary_entry now uuid ed d db =
               (Inl (HTTPException 500 (Formatted ''Update failed: '' x)), db)" ..
  qed
  show "\<forall>out db'. update_diary_entry now uuid ed d db = (out, db') \<longrightarrow>
        (\<exists>x. out = Inl (HTTPException 500 (Formatted ''Update failed: '' x)) \<and> db' = db) \<or>
        (\<exists>new.
           out = Inr (Response \<lparr>success = True,
                   message = ''Diary entry updated successfully'',
                   data = Some [(''entry_id'', PyInt (DiaryEntry.entry_id old)),
                                (''entry_uuid'', PyStr uuid)]\<rparr>) \<and>
           diary_entries db' = map (\<lambda>r. if r = old then new else r) (diary_entries db) \<and>
           (''entry_date'' \<in> fields_set ed \<longrightarrow>
              DiaryEntryUpdate.entry_date ed = Some (DiaryEntry.entry_date new)) \<and>
           (''mood_score'' \<in> fields_set ed \<longrightarrow>
              DiaryEntryUpdate.mood_score ed = Some (DiaryEntry.mood_score new)) \<and>
           (''mood_percentage'' \<in> fields_set ed \<longrightarrow>
              DiaryEntryUpdate.mood_percentage ed = Some (DiaryEntry.mood_percentage new)) \<and>
           (''activities'' \<in> fields_set ed \<longrightarrow>
              DiaryEntry.activities new = DiaryEntryUpdate.activities ed) \<and>
           (''notes'' \<in> fields_set ed \<longrightarrow>
              DiaryEntry.notes new = DiaryEntryUpdate.notes ed))"
  proof (intro allI impI)
    fix out db' assume r: "update_diary_entry now uuid ed d db = (out, db')"
    show "(\<exists>x. out = Inl (HTTPException 500 (Formatted ''Update failed: '' x)) \<and> db' = db) \<or>
        (\<exists>new.
           out = Inr (Response \<lparr>success = True,
                   message = ''Diary entry updated successfully'',
                   data = Some [(''entry_id'', PyInt (DiaryEntry.entry_id old)),
                                (''entry_uuid'', PyStr uuid)]\<rparr>) \<and>
           diary_entries db' = map (\<lambda>r. if r = old then new else r) (diary_entries db) \<and>
           (''entry_date'' \<in> fields_set ed \<longrightarrow>
              DiaryEntryUpdate.entry_date ed = Some (DiaryEntry.entry_date new)) \<and>
           (''mood_score'' \<in> fields_set ed \<longrightarrow>
              DiaryEntryUpdate.mood_score ed = Some (DiaryEntry.mood_score new)) \<and>
           (''mood_percentage'' \<in> fields_set ed \<longrightarrow>
              DiaryEntryUpdate.mood_percentage ed = Some (DiaryEntry.mood_percentage new)) \<and>
           (''activities'' \<in> fields_set ed \<longrightarrow>
              DiaryEntry.activities new = DiaryEntryUpdate.activities ed) \<and>
           (''notes'' \<in> fields_set ed \<longrightarrow>
              DiaryEntry.notes new = DiaryEntryUpdate.notes ed))"
    proof (cases "flush_entry now old (fold setattr (dict_exclude_unset ed) (load old))")
      case (Inl x)
      from update_diary_entry_rejected[OF u d old own id only Inl] r
      have "out = Inl (HTTPException 500 (Formatted ''Update failed: '' x)) \<and> db' = db" by simp
      then show ?thesis by blast
    next
      case (Inr row)
      note a = update_diary_entry_accepted[OF u d old own id only Inr]
      from a(1) r have 1: "out = Inr (Response \<lparr>success = True,
                   message = ''Diary entry updated successfully'',
                   data = Some [(''entry_id'', PyInt (DiaryEntry.entry_id old)),
                                (''entry_uuid'', PyStr uuid)]\<rparr>)" by simp
      from a(2) r have 2: "diary_entries db' = map (\<lambda>r. if r = old then row else r) (diary_entries db)"
        by simp
      note 3 = flushed_present[OF Inr]
      show ?thesis
        by (rule disjI2, rule exI[of _ row], intro conjI 1 2 3[THEN conjunct1]
              3[THEN conjunct2, THEN conjunct1]
              3[THEN conjunct2, THEN conjunct2, THEN conjunct1]
              3[THEN conjunct2, THEN conjunct2, THEN conjunct2, THEN conjunct1]
              3[THEN conjunct2, THEN conjunct2, THEN conjunct2, THEN conjunct2])
    qed
  qed
  show "\<not> null_in_required_column ed \<and>
      (''notes'' \<in> fields_set ed \<longrightarrow> text_param_ok (DiaryEntryUpdate.notes ed)) \<and>
      (''mood_score'' \<in> fields_set ed \<longrightarrow> int4_opt (DiaryEntryUpdate.mood_score ed)) \<and>
      (''mood_percentage'' \<in> fields_set ed \<longrightarrow> int4_opt (DiaryEntryUpdate.mood_percentage ed)) \<and>
      (''activities'' \<in> fields_set ed \<longrightarrow> jsonb_ok (DiaryEntryUpdate.activities ed)) \<longrightarrow>
        (\<exists>resp db'. update_diary_entry now uuid ed d db = (Inr (Response resp), db'))"
  proof
    assume c: "\<not> null_in_required_column ed \<and>
      (''notes'' \<in> fields_set ed \<longrightarrow> text_param_ok (DiaryEntryUpdate.notes ed)) \<and>
      (''mood_score'' \<in> fields_set ed \<longrightarrow> int4_opt (DiaryEntryUpdate.mood_score ed)) \<and>
      (''mood_percentage'' \<in> fields_set ed \<longrightarrow> int4_opt (DiaryEntryUpdate.mood_percentage ed)) \<and>
      (''activities'' \<in> fields_set ed \<longrightarrow> jsonb_ok (DiaryEntryUpdate.activities ed))"
    note ok = store_ok_entry(1)[OF tables_of_ok old]
    from flush_taken[OF c[THEN conjunct1] c[THEN conjunct2, THEN conjunct1]
        c[THEN conjunct2, THEN conjunct2, THEN conjunct1]
        c[THEN conjunct2, THEN conjunct2, THEN conjunct2, THEN conjunct1]
        c[THEN conjunct2, THEN conjunct2, THEN conjunct2, THEN conjunct2] ok, of now]
    obtain row where
      fl: "flush_entry now old (fold setattr (dict_exclude_unset ed) (load old)) = Inr row" ..
    note a = update_diary_entry_accepted[OF u d old own id only fl]
    have "update_diary_entry now uuid ed d db =
            (fst (update_diary_entry now uuid ed d db), snd (update_diary_entry now uuid ed d db))"
      by simp
    then show "\<exists>resp db'. update_diary_entry now uuid ed d db = (Inr (Response resp), db')"
      unfolding a(1) by blast
  qed
  show "fields_set ed = {''notes''} \<and> DiaryEntryUpdate.notes ed = None \<longrightarrow>
        (\<exists>resp db'.
           update_diary_entry now uuid ed d db = (Inr (Response resp), db') \<and>
           diary_entries db' =
             map (\<lambda>r. if r = old
                       then (if DiaryEntry.notes old = None then old
                             else old\<lparr>DiaryEntry.notes := None, DiaryEntry.updated_at := now 0\<rparr>)
                       else r)
                 (diary_entries db))"
  proof
    assume c: "fields_set ed = {''notes''} \<and> DiaryEntryUpdate.notes ed = None"
    then have fs: "fields_set ed = {''notes''}" and n: "DiaryEntryUpdate.notes ed = None"
      by simp_all
    have tp: "text_param_ok (DiaryEntryUpdate.notes ed)" unfolding n by (simp add: text_param_ok_def)
    note fl = flush_notes_only[OF fs tp store_ok_entry(1)[OF tables_of_ok old], of now]
    note a = update_diary_entry_accepted[OF u d old own id only fl]
    have e: "(None = DiaryEntry.notes old) = (DiaryEntry.notes old = None)" by auto
    have p: "update_diary_entry now uuid ed d db =
            (fst (update_diary_entry now uuid ed d db), snd (update_diary_entry now uuid ed d db))"
      by simp
    from a(2) have 2: "diary_entries (snd (update_diary_entry now uuid ed d db)) =
             map (\<lambda>r. if r = old
                       then (if DiaryEntry.notes old = None then old
                             else old\<lparr>DiaryEntry.notes := None, DiaryEntry.updated_at := now 0\<rparr>)
                       else r)
                 (diary_entries db)"
      unfolding n e .
    from p[unfolded a(1)] 2 show "\<exists>resp db'.
           update_diary_entry now uuid ed d db = (Inr (Response resp), db') \<and>
           diary_entries db' =
             map (\<lambda>r. if r = old
                       then (if DiaryEntry.notes old = None then old
                             else old\<lparr>DiaryEntry.notes := None, DiaryEntry.updated_at := now 0\<rparr>)
                       else r)
                 (diary_entries db)"
      by blast
  qed
qed

theorem update_null_is_assigned_witness:
  "(\<exists>resp db'.
      update_diary_entry (clock_at 200) ''uuid-a'' (notes_only None) ''dev-2'' db2 =
        (Inr (Response resp), db') \<and>
      diary_entries db' =
        [entry1, entry2,
         entry5\<lparr>DiaryEntry.notes := None, DiaryEntry.updated_at := 200\<rparr>, entry4]) \<and>
   DiaryEntry_object.mood_score
     (fold setattr (dict_exclude_unset mood_score_null) (load entry1)) = None \<and>
   (\<exists>x. update_diary_entry (clock_at 200) ''uuid-a'' mood_score_null ''dev-1'' db1 =
          (Inl (HTTPException 500 (Formatted ''Update failed: '' x)), db1)) \<and>
   update_diary_entry (clock_at 200) ''uuid-a'' mood_score_null ''dev-1'' db1 =
     (Inl (HTTPException 500 (Formatted ''Update failed: '' IntegrityError)), db1)"
proof -
  have u2: "user2 \<in> set (users db2)" by (simp add: rows_db2)
  have d2: "User.device_id user2 = ''dev-2''" by (simp add: user2_def)
  have o2: "entry5 \<in> set (diary_entries db2)" by (simp add: rows_db2)
  have own2: "DiaryEntry.user_id entry5 = User.user_id user2" by (simp add: entry5_def user2_def)
  have id2: "DiaryEntry.entry_uuid entry5 = ''uuid-a''" by (simp add: entry5_def)
  have only2: "\<forall>e\<in>set (diary_entries db2).
                 DiaryEntry.user_id e = User.user_id user2 \<and> DiaryEntry.entry_uuid e = ''uuid-a'' \<longrightarrow>
                 e = entry5"
    unfolding rows_db2 by (simp add: user2_def entry1_def entry2_def entry4_def entry5_def)
  have u1: "user1 \<in> set (users db1)" by (simp add: rows_db1)
  have d1: "User.device_id user1 = ''dev-1''" by (simp add: user1_def)
  have o1: "entry1 \<in> set (diary_entries db1)" by (simp add: rows_db1)
  have own1: "DiaryEntry.user_id entry1 = User.user_id user1" by (simp add: entry1_def user1_def)
  have id1: "DiaryEntry.entry_uuid entry1 = ''uuid-a''" by (simp add: entry1_def)
  have only1: "\<forall>e\<in>set (diary_entries db1).
                 DiaryEntry.user_id e = User.user_id user1 \<and> DiaryEntry.entry_uuid e = ''uuid-a'' \<longrightarrow>
                 e = entry1"
    unfolding rows_db1 by (simp add: user1_def entry1_def entry2_def entry3_def)
  note t2 = update_null_is_assigned[OF u2 d2 o2 own2 id2 only2, of "notes_only None" "clock_at 200"]
  note t1 = update_null_is_assigned[OF u1 d1 o1 own1 id1 only1, of mood_score_null "clock_at 200"]
  have c2: "fields_set (notes_only None) = {''notes''} \<and> DiaryEntryUpdate.notes (notes_only None) = None"
    by (simp add: notes_only_def)
  have c1: "null_in_required_column mood_score_null" "''mood_score'' \<in> fields_set mood_score_null"
    "DiaryEntryUpdate.mood_score mood_score_null = None"
    by (simp_all add: null_in_required_column_def mood_score_null_def)
  have e: "DiaryEntry.notes entry5 \<noteq> None" "clock_at 200 0 = 200"
    "entry1 \<noteq> entry5" "entry2 \<noteq> entry5" "entry4 \<noteq> entry5"
    by (simp_all add: entry1_def entry2_def entry4_def entry5_def clock_at_def)
  have "fields_set (notes_only None) = {''notes''} \<and>
        DiaryEntryUpdate.notes (notes_only None) = None \<longrightarrow>
        (\<exists>resp db'.
           update_diary_entry (clock_at 200) ''uuid-a'' (notes_only None) ''dev-2'' db2 =
             (Inr (Response resp), db') \<and>
           diary_entries db' =
             map (\<lambda>r. if r = entry5
                       then (if DiaryEntry.notes entry5 = None then entry5
                             else entry5\<lparr>DiaryEntry.notes := None,
                                         DiaryEntry.updated_at := clock_at 200 0\<rparr>)
                       else r)
                 (diary_entries db2))"
    by (rule t2[THEN conjunct2, THEN conjunct2, THEN conjunct2, THEN conjunct2, THEN conjunct2,
          THEN conjunct2, THEN conjunct2, THEN conjunct2])
  from this[rule_format, OF c2] have A: "\<exists>resp db'.
      update_diary_entry (clock_at 200) ''uuid-a'' (notes_only None) ''dev-2'' db2 =
        (Inr (Response resp), db') \<and>
      diary_entries db' =
        [entry1, entry2,
         entry5\<lparr>DiaryEntry.notes := None, DiaryEntry.updated_at := 200\<rparr>, entry4]"
    unfolding rows_db2 by (simp add: e)
  from t1 c1(2,3) have B: "DiaryEntry_object.mood_score
     (fold setattr (dict_exclude_unset mood_score_null) (load entry1)) = None"
    by simp
  have "null_in_required_column mood_score_null \<longrightarrow>
        (\<exists>x. update_diary_entry (clock_at 200) ''uuid-a'' mood_score_null ''dev-1'' db1 =
               (Inl (HTTPException 500 (Formatted ''Update failed: '' x)), db1))"
    by (rule t1[THEN conjunct2, THEN conjunct2, THEN conjunct2, THEN conjunct2, THEN conjunct2,
          THEN conjunct1])
  from this[rule_format, OF c1(1)] have C:
    "\<exists>x. update_diary_entry (clock_at 200) ''uuid-a'' mood_score_null ''dev-1'' db1 =
          (Inl (HTTPException 500 (Formatted ''Update failed: '' x)), db1)" .
  from A B C update_mood_score_null_example show ?thesis by (intro conjI)
qed

section \<open>List\<close>

lemma get_diary_entries_selected:
  assumes "select_user (tables_of db) d = Inr (Some user)"
  shows "get_diary_entries d db out \<longleftrightarrow>
           (\<exists>entries. out = Inr (Rows entries) \<and>
              order_by_entry_date_desc
                (filter (\<lambda>e. DiaryEntry.user_id e = User.user_id user) (diary_entries db)) entries)"
  using assms
  by (auto simp: get_diary_entries_def get_diary_entries_on_def split: sum.splits returned.splits)

lemma get_diary_entries_registered:
  assumes "u \<in> set (users db)" and "User.device_id u = d"
  shows "get_diary_entries d db out \<longleftrightarrow>
           (\<exists>entries. out = Inr (Rows entries) \<and>
              order_by_entry_date_desc
                (filter (\<lambda>e. DiaryEntry.user_id e = User.user_id u) (diary_entries db)) entries)"
proof -
  from select_user_registered[OF assms(1)] assms(2)
  have "select_user (tables_of db) d = Inr (Some u)" by simp
  then show ?thesis by (rule get_diary_entries_selected)
qed

lemma order_by_entry_date_desc_exists:
  "order_by_entry_date_desc rows (rev (sort_key DiaryEntry.entry_date rows))"
proof -
  have "sorted (map DiaryEntry.entry_date (sort_key DiaryEntry.entry_date rows))"
    by (rule sorted_sort_key)
  then have "sorted_wrt (\<lambda>a b. DiaryEntry.entry_date a \<le> DiaryEntry.entry_date b)
               (sort_key DiaryEntry.entry_date rows)"
    by (simp add: sorted_wrt_map)
  then show ?thesis
    by (simp add: order_by_entry_date_desc_def sorted_wrt_rev)
qed

lemma order_by_entry_date_desc_Nil: "order_by_entry_date_desc [] result \<longleftrightarrow> result = []"
  by (auto simp: order_by_entry_date_desc_def)

text \<open>
  Claim C5. Let the device be the id of a row \<open>u\<close> of the users table. Then
  \<open>get_diary_entries\<close> has a successful outcome, and its outcomes are exactly the
  successes whose rows are the rows of the entries table with \<open>u\<close>'s id (as a multiset:
  each such row once per occurrence, no other row), arranged with \<open>entry_date\<close> never
  increasing. When no row of the entries table has \<open>u\<close>'s id, the one outcome is the
  empty list, returned as a success.
\<close>

theorem list_owned_entries_desc:
  assumes u: "u \<in> set (users db)" and d: "User.device_id u = d"
  shows "(\<exists>entries. get_diary_entries d db (Inr (Rows entries))) \<and>
         (\<forall>out. get_diary_entries d db out \<longleftrightarrow>
            (\<exists>entries. out = Inr (Rows entries) \<and>
               mset entries =
                 mset (filter (\<lambda>e. DiaryEntry.user_id e = User.user_id u) (diary_entries db)) \<and>
               sorted_wrt (\<lambda>a b. DiaryEntry.entry_date b \<le> DiaryEntry.entry_date a) entries)) \<and>
         ((\<forall>e\<in>set (diary_entries db). DiaryEntry.user_id e \<noteq> User.user_id u) \<longrightarrow>
            get_diary_entries d db (Inr (Rows [])) \<and>
            (\<forall>out. get_diary_entries d db out \<longrightarrow> out = Inr (Rows [])))"
proof (intro conjI allI impI)
  show "\<exists>entries. get_diary_entries d db (Inr (Rows entries))"
    unfolding get_diary_entries_registered[OF u d]
    using order_by_entry_date_desc_exists by blast
next
  fix out
  show "get_diary_entries d db out \<longleftrightarrow>
            (\<exists>entries. out = Inr (Rows entries) \<and>
               mset entries =
                 mset (filter (\<lambda>e. DiaryEntry.user_id e = User.user_id u) (diary_entries db)) \<and>
               sorted_wrt (\<lambda>a b. DiaryEntry.entry_date b \<le> DiaryEntry.entry_date a) entries)"
    unfolding get_diary_entries_registered[OF u d] order_by_entry_date_desc_def ..
next
  assume "\<forall>e\<in>set (diary_entries db). DiaryEntry.user_id e \<noteq> User.user_id u"
  then have "filter (\<lambda>e. DiaryEntry.user_id e = User.user_id u) (diary_entries db) = []"
    by (simp add: filter_empty_conv)
  then show "get_diary_entries d db (Inr (Rows []))"
    by (simp add: get_diary_entries_registered[OF u d] order_by_entry_date_desc_Nil)
next
  fix out
  assume "\<forall>e\<in>set (diary_entries db). DiaryEntry.user_id e \<noteq> User.user_id u"
    and g: "get_diary_entries d db out"
  then have "filter (\<lambda>e. DiaryEntry.user_id e = User.user_id u) (diary_entries db) = []"
    by (simp add: filter_empty_conv)
  with g show "out = Inr (Rows [])"
    by (auto simp: get_diary_entries_registered[OF u d] order_by_entry_date_desc_Nil)
qed

theorem list_owned_entries_desc_witness:
  "get_diary_entries ''dev-1'' db2 (Inr (Rows [entry2, entry4, entry1])) \<and>
   map DiaryEntry.entry_date [entry2, entry4, entry1] = [20240301, 20240201, 20240101] \<and>
   diary_entries db2 = [entry1, entry2, entry5, entry4] \<and>
   \<not> get_diary_entries ''dev-1'' db2 (Inr (Rows [entry1, entry2, entry4])) \<and>
   \<not> get_diary_entries ''dev-1'' db2 (Inr (Rows [entry2, entry5, entry4, entry1])) \<and>
   get_diary_entries ''dev-2'' db2 (Inr (Rows [entry5])) \<and>
   \<not> get_diary_entries ''dev-2'' db2 (Inr (Rows [entry2, entry4, entry1])) \<and>
   get_diary_entries ''dev-2'' db_no_entries (Inr (Rows [])) \<and>
   \<not> get_diary_entries ''dev-2'' db_no_entries (Inl (HTTPException 404 (Text ''Device not registered'')))"
proof -
  have u1: "user1 \<in> set (users db2)" and u2: "user2 \<in> set (users db2)"
    by (simp_all add: rows_db2)
  have u3: "user2 \<in> set (users db_no_entries)" by (simp add: rows_db_no_entries)
  have d1: "User.device_id user1 = ''dev-1''" and d2: "User.device_id user2 = ''dev-2''"
    by (simp_all add: user1_def user2_def)
  have own1: "filter (\<lambda>e. DiaryEntry.user_id e = User.user_id user1) (diary_entries db2) =
                [entry1, entry2, entry4]"
    unfolding rows_db2 by (simp add: user1_def entry1_def entry2_def entry4_def entry5_def)
  have own2: "filter (\<lambda>e. DiaryEntry.user_id e = User.user_id user2) (diary_entries db2) =
                [entry5]"
    unfolding rows_db2 by (simp add: user2_def entry1_def entry2_def entry4_def entry5_def)
  have none: "\<forall>e\<in>set (diary_entries db_no_entries). DiaryEntry.user_id e \<noteq> User.user_id user2"
    by (simp add: rows_db_no_entries)
  note t1 = list_owned_entries_desc[OF u1 d1, THEN conjunct2, THEN conjunct1, rule_format]
  note t2 = list_owned_entries_desc[OF u2 d2, THEN conjunct2, THEN conjunct1, rule_format]
  note t3 = list_owned_entries_desc[OF u3 d2, THEN conjunct2, THEN conjunct2, THEN mp, OF none]
  have dates: "DiaryEntry.entry_date entry1 = 20240101" "DiaryEntry.entry_date entry2 = 20240301"
    "DiaryEntry.entry_date entry4 = 20240201" "DiaryEntry.entry_date entry5 = 20240215"
    by (simp_all add: entry1_def entry2_def entry4_def entry5_def)
  have ne: "entry1 \<noteq> entry5" "entry2 \<noteq> entry5" "entry4 \<noteq> entry5" "entry5 \<noteq> entry1"
    "entry5 \<noteq> entry2" "entry5 \<noteq> entry4" "entry1 \<noteq> entry2" "entry1 \<noteq> entry4" "entry2 \<noteq> entry4"
    "entry2 \<noteq> entry1" "entry4 \<noteq> entry1" "entry4 \<noteq> entry2"
    by (simp_all add: entry1_def entry2_def entry4_def entry5_def)
  have 1: "get_diary_entries ''dev-1'' db2 (Inr (Rows [entry2, entry4, entry1]))"
    unfolding t1 own1 by (simp add: dates)
  have 2: "map DiaryEntry.entry_date [entry2, entry4, entry1] = [20240301, 20240201, 20240101]"
    by (simp add: dates)
  have 3: "\<not> get_diary_entries ''dev-1'' db2 (Inr (Rows [entry1, entry2, entry4]))"
    unfolding t1 own1 by (simp add: dates)
  have 4: "\<not> get_diary_entries ''dev-1'' db2 (Inr (Rows [entry2, entry5, entry4, entry1]))"
    unfolding t1 own1 by (simp add: dates ne)
  have 5: "get_diary_entries ''dev-2'' db2 (Inr (Rows [entry5]))"
    unfolding t2 own2 by simp
  have 6: "\<not> get_diary_entries ''dev-2'' db2 (Inr (Rows [entry2, entry4, entry1]))"
    unfolding t2 own2 by (simp add: ne)
  from t3 have 7: "get_diary_entries ''dev-2'' db_no_entries (Inr (Rows []))" by (rule conjunct1)
  from t3 have 8: "\<not> get_diary_entries ''dev-2'' db_no_entries
                      (Inl (HTTPException 404 (Text ''Device not registered'')))"
    by auto
  from 1 2 rows_db2(2) 3 4 5 6 7 8 show ?thesis by (intro conjI)
qed

text \<open>
  Claim C6 as stated fails: on a store with two entries of the same \<open>entry_date\<close> the
  query admits both relative orders of the two, so two calls on the same store need not
  agree.
\<close>

theorem list_ties_counterexample:
  "get_diary_entries ''dev-1'' db1 (Inr (Rows [entry2, entry3, entry1])) \<and>
   get_diary_entries ''dev-1'' db1 (Inr (Rows [entry3, entry2, entry1])) \<and>
   DiaryEntry.entry_date entry2 = DiaryEntry.entry_date entry3 \<and>
   [entry2, entry3, entry1] \<noteq> [entry3, entry2, entry1]"
  unfolding get_diary_entries_selected[OF select_user_lookup[OF user_by_device_id_db1]]
  by (simp add: order_by_entry_date_desc_def rows_db1 user1_def entry1_def entry2_def entry3_def)

text \<open>
  Claim C6, amended. The query orders by \<open>entry_date\<close> descending and by nothing else:
  whenever a result has two neighbours with the same \<open>entry_date\<close>, the result with the
  two exchanged is a result of the same call on the same store as well.
\<close>

theorem list_ties_either_order:
  assumes "get_diary_entries d db (Inr (Rows (xs @ a # b # ys)))"
      and "DiaryEntry.entry_date a = DiaryEntry.entry_date b"
  shows "get_diary_entries d db (Inr (Rows (xs @ b # a # ys)))"
proof (cases "select_user (tables_of db) d")
  case (Inl e)
  with assms(1) show ?thesis by (simp add: get_diary_entries_def get_diary_entries_on_def)
next
  case (Inr found)
  show ?thesis
  proof (cases found)
    case None
    with Inr assms(1) show ?thesis by (simp add: get_diary_entries_def get_diary_entries_on_def)
  next
    case (Some user)
    with Inr have s: "select_user (tables_of db) d = Inr (Some user)" by simp
    from assms(1) have o: "order_by_entry_date_desc
        (filter (\<lambda>e. DiaryEntry.user_id e = User.user_id user) (diary_entries db)) (xs @ a # b # ys)"
      by (simp add: get_diary_entries_selected[OF s])
    then have "mset (xs @ b # a # ys) =
        mset (filter (\<lambda>e. DiaryEntry.user_id e = User.user_id user) (diary_entries db))"
      by (simp add: order_by_entry_date_desc_def add_mset_commute)
    moreover from o assms(2)
    have "sorted_wrt (\<lambda>a b. DiaryEntry.entry_date b \<le> DiaryEntry.entry_date a) (xs @ b # a # ys)"
      by (auto simp: order_by_entry_date_desc_def sorted_wrt_append)
    ultimately show ?thesis
      by (simp add: get_diary_entries_selected[OF s] order_by_entry_date_desc_def)
  qed
qed

theorem list_ties_either_order_witness:
  "get_diary_entries ''dev-1'' db1 (Inr (Rows [entry2, entry3, entry1])) \<and>
   get_diary_entries ''dev-1'' db1 (Inr (Rows [entry3, entry2, entry1]))"
proof -
  have 1: "get_diary_entries ''dev-1'' db1 (Inr (Rows ([] @ entry2 # entry3 # [entry1])))"
    unfolding get_diary_entries_selected[OF select_user_lookup[OF user_by_device_id_db1]]
    by (simp add: order_by_entry_date_desc_def rows_db1 user1_def entry1_def entry2_def entry3_def)
  have 2: "DiaryEntry.entry_date entry2 = DiaryEntry.entry_date entry3"
    by (simp add: entry2_def entry3_def)
  from list_ties_either_order[OF 1 2] 1 show ?thesis by simp
qed

section \<open>What the handlers return\<close>

lemma register_device_on_outcome:
  "(\<exists>x. fst (register_device_on now user_data t) =
          Inl (HTTPException 500 (Formatted ''Registration failed: '' x))) \<or>
   (\<exists>m p. fst (register_device_on now user_data t) =
          Inr (Response \<lparr>success = True, message = m, data = Some p\<rparr>))"
  by (auto simp: register_device_on_def split: sum.splits option.splits prod.splits)

lemma create_diary_entry_on_outcome:
  "(\<exists>c t'. fst (create_diary_entry_on now entry_data t) = Inl (HTTPException c t') \<and>
            (c = 404 \<or> c = 409 \<or> c = 500)) \<or>
   (\<exists>m p. fst (create_diary_entry_on now entry_data t) =
          Inr (Response \<lparr>success = True, message = m, data = Some p\<rparr>))"
  by (auto simp: create_diary_entry_on_def split: sum.splits option.splits prod.splits)

lemma update_diary_entry_on_outcome:
  "(\<exists>c t'. fst (update_diary_entry_on now uuid ed d t) = Inl (HTTPException c t') \<and>
            (c = 404 \<or> c = 500)) \<or>
   (\<exists>m p. fst (update_diary_entry_on now uuid ed d t) =
          Inr (Response \<lparr>success = True, message = m, data = Some p\<rparr>))"
  by (auto simp: update_diary_entry_on_def Let_def split: sum.splits option.splits prod.splits)

lemma get_diary_entries_outcome:
  assumes "get_diary_entries d db out"
  shows "(\<exists>c t'. out = Inl (HTTPException c t') \<and> (c = 404 \<or> c = 500)) \<or>
         (\<exists>entries. out = Inr (Rows entries))"
proof (cases "select_user (tables_of db) d")
  case (Inl e)
  with assms show ?thesis by (simp add: get_diary_entries_def get_diary_entries_on_def)
next
  case (Inr found)
  show ?thesis
  proof (cases found)
    case None
    with Inr assms show ?thesis by (simp add: get_diary_entries_def get_diary_entries_on_def)
  next
    case (Some user)
    with Inr have "select_user (tables_of db) d = Inr (Some user)" by simp
    from assms[unfolded get_diary_entries_selected[OF this]] show ?thesis by blast
  qed
qed

lemma create_example:
  "fst (create_diary_entry (clock_at 200) (new_entry ''dev-1'' ''uuid-z'') db1) =
     Inr (Response \<lparr>success = True, message = ''Diary entry uploaded successfully'',
            data = Some [(''entry_id'', PyInt 4), (''entry_uuid'', PyStr ''uuid-z'')]\<rparr>)"
proof -
  have su: "select_user (tables_of db1) ''dev-1'' = Inr (Some user1)"
    by (simp add: select_user_def contains_nul_def user_by_device_id_db1)
  have se: "select_entry (tables_of db1) (User.user_id user1) ''uuid-z'' = Inr None"
    by (simp add: select_entry_def contains_nul_def entry_by_uuid_on_def tables_of_db1 tables1_def
          user1_def entry1_def entry2_def entry3_def first_def)
  have ins: "\<exists>t'. insert_entry (clock_at 200) (User.user_id user1) (new_entry ''dev-1'' ''uuid-z'')
                 (tables_of db1) =
               Inr (\<lparr>DiaryEntry.entry_id = 4, DiaryEntry.user_id = 1,
                      DiaryEntry.entry_uuid = ''uuid-z'', DiaryEntry.entry_date = 20240201,
                      DiaryEntry.mood_score = 2, DiaryEntry.mood_percentage = 40,
                      DiaryEntry.activities = Some [], DiaryEntry.notes = Some [],
                      DiaryEntry.created_at = 200, DiaryEntry.updated_at = 201\<rparr>, t')"
    by (simp add: insert_entry_def new_entry_def contains_nul_def text_param_ok_def int4_def
          jsonb_ok_def varchar_def tables_of_db1 tables1_def user1_def clock_at_def Let_def)
  then obtain t' where i: "insert_entry (clock_at 200) (User.user_id user1) (new_entry ''dev-1'' ''uuid-z'')
                 (tables_of db1) =
               Inr (\<lparr>DiaryEntry.entry_id = 4, DiaryEntry.user_id = 1,
                      DiaryEntry.entry_uuid = ''uuid-z'', DiaryEntry.entry_date = 20240201,
                      DiaryEntry.mood_score = 2, DiaryEntry.mood_percentage = 40,
                      DiaryEntry.activities = Some [], DiaryEntry.notes = Some [],
                      DiaryEntry.created_at = 200, DiaryEntry.updated_at = 201\<rparr>, t')" ..
  have dv: "DiaryEntryCreate.device_id (new_entry ''dev-1'' ''uuid-z'') = ''dev-1''"
    "DiaryEntryCreate.entry_uuid (new_entry ''dev-1'' ''uuid-z'') = ''uuid-z''"
    by (simp_all add: new_entry_def)
  show ?thesis
    unfolding create_diary_entry_fst by (simp add: create_diary_entry_on_def dv su se i)
qed

lemma update_example:
  "fst (update_diary_entry (clock_at 200) ''uuid-a'' (notes_only (Some ''better'')) ''dev-1'' db1) =
     Inr (Response \<lparr>success = True, message = ''Diary entry updated successfully'',
            data = Some [(''entry_id'', PyInt 1), (''entry_uuid'', PyStr ''uuid-a'')]\<rparr>)"
proof -
  have fs: "fields_set (notes_only (Some ''better'')) = {''notes''}" by (simp add: notes_only_def)
  have tp: "text_param_ok (DiaryEntryUpdate.notes (notes_only (Some ''better'')))"
    by (simp add: notes_only_def text_param_ok_def contains_nul_def)
  note fl = flush_notes_only[OF fs tp store_ok_entry(1)[OF tables_of_ok db1_entry1(3)],
      of "clock_at 200"]
  from update_diary_entry_accepted(1)[OF db1_entry1 fl] show ?thesis
    by (simp add: entry1_def)
qed

text \<open>
  Claim C8 as stated fails: the successful outcome of \<open>get_diary_entries\<close> is the list
  of rows itself, not an envelope.
\<close>

theorem list_returns_bare_rows_counterexample:
  "get_diary_entries ''dev-1'' db1 (Inr (Rows [entry2, entry3, entry1])) \<and>
   \<not> carries_envelope (Inr (Rows [entry2, entry3, entry1]))"
  unfolding get_diary_entries_selected[OF select_user_lookup[OF user_by_device_id_db1]]
  by (simp add: order_by_entry_date_desc_def rows_db1 user1_def entry1_def entry2_def entry3_def)

text \<open>
  Claim C8, amended. The outcome of a register request is the validation error (the
  body has no \<^verbatim>\<open>device_id\<close>), an \<^verbatim>\<open>HTTPException\<close> with status 500, or an
  \<^verbatim>\<open>APIResponse\<close> with \<open>success = True\<close>, a message and a payload. The outcome of
  \<open>create_diary_entry\<close> is an \<^verbatim>\<open>HTTPException\<close> with status 404, 409 or 500 or such an
  \<^verbatim>\<open>APIResponse\<close>; that of \<open>update_diary_entry\<close> is an \<^verbatim>\<open>HTTPException\<close> with status 404
  or 500 or such an \<^verbatim>\<open>APIResponse\<close>. An outcome of \<open>get_diary_entries\<close> is an
  \<^verbatim>\<open>HTTPException\<close> with status 404 or 500 or the bare list of rows; it never carries the
  envelope.
\<close>

theorem envelope_of_each_handler:
  "(register_request now body db = (out_r, db_r) \<longrightarrow>
      out_r = Inl RequestValidationError \<or>
      (\<exists>x. out_r = Inl (HTTPException 500 (Formatted ''Registration failed: '' x))) \<or>
      (\<exists>m p. out_r = Inr (Response \<lparr>success = True, message = m, data = Some p\<rparr>))) \<and>
   (create_diary_entry now entry_data db = (out_c, db_c) \<longrightarrow>
      (\<exists>c t. out_c = Inl (HTTPException c t) \<and> (c = 404 \<or> c = 409 \<or> c = 500)) \<or>
      (\<exists>m p. out_c = Inr (Response \<lparr>success = True, message = m, data = Some p\<rparr>))) \<and>
   (update_diary_entry now uuid ed d db = (out_u, db_u) \<longrightarrow>
      (\<exists>c t. out_u = Inl (HTTPException c t) \<and> (c = 404 \<or> c = 500)) \<or>
      (\<exists>m p. out_u = Inr (Response \<lparr>success = True, message = m, data = Some p\<rparr>))) \<and>
   (get_diary_entries d db out_l \<longrightarrow>
      ((\<exists>c t. out_l = Inl (HTTPException c t) \<and> (c = 404 \<or> c = 500)) \<or>
       (\<exists>entries. out_l = Inr (Rows entries))) \<and>
      \<not> carries_envelope out_l)"
proof (intro conjI impI)
  assume r: "register_request now body db = (out_r, db_r)"
  show "out_r = Inl RequestValidationError \<or>
      (\<exists>x. out_r = Inl (HTTPException 500 (Formatted ''Registration failed: '' x))) \<or>
      (\<exists>m p. out_r = Inr (Response \<lparr>success = True, message = m, data = Some p\<rparr>))"
  proof (cases body)
    case None
    with r show ?thesis by (simp add: register_request_def validate_UserCreate_def)
  next
    case (Some dv)
    with r have "fst (register_device now \<lparr>UserCreate.device_id = dv\<rparr> db) = out_r"
      by (simp add: register_request_def validate_UserCreate_def)
    with register_device_on_outcome[of now "\<lparr>UserCreate.device_id = dv\<rparr>" "tables_of db"]
    show ?thesis unfolding register_device_fst by auto
  qed
next
  assume "create_diary_entry now entry_data db = (out_c, db_c)"
  then have "fst (create_diary_entry now entry_data db) = out_c" by simp
  with create_diary_entry_on_outcome[of now entry_data "tables_of db"]
  show "(\<exists>c t. out_c = Inl (HTTPException c t) \<and> (c = 404 \<or> c = 409 \<or> c = 500)) \<or>
      (\<exists>m p. out_c = Inr (Response \<lparr>success = True, message = m, data = Some p\<rparr>))"
    unfolding create_diary_entry_fst by auto
next
  assume "update_diary_entry now uuid ed d db = (out_u, db_u)"
  then have "fst (update_diary_entry now uuid ed d db) = out_u" by simp
  with update_diary_entry_on_outcome[of now uuid ed d "tables_of db"]
  show "(\<exists>c t. out_u = Inl (HTTPException c t) \<and> (c = 404 \<or> c = 500)) \<or>
      (\<exists>m p. out_u = Inr (Response \<lparr>success = True, message = m, data = Some p\<rparr>))"
    unfolding update_diary_entry_fst by auto
next
  assume g: "get_diary_entries d db out_l"
  from get_diary_entries_outcome[OF g]
  show "(\<exists>c t. out_l = Inl (HTTPException c t) \<and> (c = 404 \<or> c = 500)) \<or>
       (\<exists>entries. out_l = Inr (Rows entries))" .
  from get_diary_entries_outcome[OF g] show "\<not> carries_envelope out_l" by auto
qed

theorem envelope_of_each_handler_witness:
  "register_request (clock_at 200) None db1 = (Inl RequestValidationError, db1) \<and>
   (\<exists>m p. fst (register_request (clock_at 200) (Some ''dev-1'') db1) =
      Inr (Response \<lparr>success = True, message = m, data = Some p\<rparr>)) \<and>
   (\<exists>m p. fst (create_diary_entry (clock_at 200) (new_entry ''dev-1'' ''uuid-z'') db1) =
      Inr (Response \<lparr>success = True, message = m, data = Some p\<rparr>)) \<and>
   (\<exists>c t. fst (create_diary_entry (clock_at 200) (new_entry ''dev-1'' ''uuid-b'') db1) =
      Inl (HTTPException c t) \<and> (c = 404 \<or> c = 409 \<or> c = 500)) \<and>
   (\<exists>m p. fst (update_diary_entry (clock_at 200) ''uuid-a'' (notes_only (Some ''better'')) ''dev-1'' db1) =
      Inr (Response \<lparr>success = True, message = m, data = Some p\<rparr>)) \<and>
   get_diary_entries ''dev-1'' db1 (Inr (Rows [entry2, entry3, entry1])) \<and>
   \<not> carries_envelope (Inr (Rows [entry2, entry3, entry1]))"
proof -
  let ?V = "register_request (clock_at 200) None db1"
  let ?R = "register_request (clock_at 200) (Some ''dev-1'') db1"
  let ?C = "create_diary_entry (clock_at 200) (new_entry ''dev-1'' ''uuid-z'') db1"
  let ?C' = "create_diary_entry (clock_at 200) (new_entry ''dev-1'' ''uuid-b'') db1"
  let ?U = "update_diary_entry (clock_at 200) ''uuid-a'' (notes_only (Some ''better'')) ''dev-1'' db1"
  let ?L = "Inr (Rows [entry2, entry3, entry1]) :: outcome"
  have l: "get_diary_entries ''dev-1'' db1 ?L"
    unfolding get_diary_entries_selected[OF select_user_lookup[OF user_by_device_id_db1]]
    by (simp add: order_by_entry_date_desc_def rows_db1 user1_def entry1_def entry2_def entry3_def)
  note t = envelope_of_each_handler[where now = "clock_at 200" and body = "Some ''dev-1''"
      and db = db1 and out_r = "fst ?R" and db_r = "snd ?R"
      and entry_data = "new_entry ''dev-1'' ''uuid-z''" and out_c = "fst ?C" and db_c = "snd ?C"
      and uuid = "''uuid-a''" and ed = "notes_only (Some ''better'')" and d = "''dev-1''"
      and out_u = "fst ?U" and db_u = "snd ?U" and out_l = ?L]
  note t' = envelope_of_each_handler[where now = "clock_at 200" and body = None
      and db = db1 and out_r = "fst ?V" and db_r = "snd ?V"
      and entry_data = "new_entry ''dev-1'' ''uuid-b''" and out_c = "fst ?C'" and db_c = "snd ?C'"
      and uuid = "''uuid-a''" and ed = "notes_only (Some ''better'')" and d = "''dev-1''"
      and out_u = "fst ?U" and db_u = "snd ?U" and out_l = ?L]
  have r0: "?V = (Inl RequestValidationError, db1)"
    by (simp add: register_request_def validate_UserCreate_def)
  have er: "fst ?R = Inr (Response \<lparr>success = True, message = ''Device already exists'',
             data = Some [(''user_id'', PyInt (User.user_id user1)),
                          (''device_id'', PyStr (User.device_id user1))]\<rparr>)"
    using register_device_existing[OF db1_entry1(1), of "clock_at 200"]
    by (simp add: register_request_def validate_UserCreate_def db1_entry1(2))
  have ec': "fst ?C' = Inl (HTTPException 409 (Text ''Diary entry already exists''))"
  proof -
    have 1: "user_by_device_id db1 (DiaryEntryCreate.device_id (new_entry ''dev-1'' ''uuid-b''))
               = Some user1"
      by (simp add: user_by_device_id_db1 new_entry_def)
    have 2: "entry2 \<in> set (diary_entries db1)" by (simp add: rows_db1)
    have 3: "DiaryEntry.user_id entry2 = User.user_id user1" by (simp add: entry2_def user1_def)
    have 4: "DiaryEntry.entry_uuid entry2 = DiaryEntryCreate.entry_uuid (new_entry ''dev-1'' ''uuid-b'')"
      by (simp add: entry2_def new_entry_def)
    from create_conflict[OF 1 2 3 4, of "clock_at 200"] show ?thesis by simp
  qed
  from t[THEN conjunct1, THEN mp, OF prod.collapse[symmetric]] er
  have 2: "\<exists>m p. fst ?R = Inr (Response \<lparr>success = True, message = m, data = Some p\<rparr>)"
    by auto
  from t[THEN conjunct2, THEN conjunct1, THEN mp, OF prod.collapse[symmetric]] create_example
  have 3: "\<exists>m p. fst ?C = Inr (Response \<lparr>success = True, message = m, data = Some p\<rparr>)"
    by auto
  from t'[THEN conjunct2, THEN conjunct1, THEN mp, OF prod.collapse[symmetric]] ec'
  have 4: "\<exists>c t. fst ?C' = Inl (HTTPException c t) \<and> (c = 404 \<or> c = 409 \<or> c = 500)"
    by auto
  from t[THEN conjunct2, THEN conjunct2, THEN conjunct1, THEN mp, OF prod.collapse[symmetric]]
    update_example
  have 5: "\<exists>m p. fst ?U = Inr (Response \<lparr>success = True, message = m, data = Some p\<rparr>)"
    by auto
  from t[THEN conjunct2, THEN conjunct2, THEN conjunct2, THEN mp, OF l]
  have 7: "\<not> carries_envelope ?L" by (rule conjunct2)
  from r0 2 3 4 5 l 7 show ?thesis by (intro conjI)
qed

end
